theory Spec2Isabelle
  imports
    Complex_Main
    "HOL-Library.Multiset"
    "HOL-Library.Char_ord"
    "HOL-Library.List_Lexorder"
    "HOL-Library.Product_Lexorder"
begin

section \<open>Python values, exceptions and sorting\<close>

text \<open>
  Exceptions are values. \<open>ValueError\<close> and \<open>NotImplementedError\<close> carry the message the
  source formats; \<open>ExternalError\<close> stands for whatever an injected collaborator (document
  reader, model-change applier, task executer, math evaluator, data-frame constructor,
  report writer) raises.
\<close>

datatype pyerror =
    ValueError string
  | TypeError
  | KeyError
  | AttributeError
  | FileNotFoundError string
  | ExternalError string

text \<open>
  A float is a number, an infinity or a NaN. \<open>==\<close> compares numbers and infinities by
  value, and a NaN is \<open>==\<close> to no float, itself included. The items of two tuples are
  compared with \<open>x is y or x == y\<close>, so two tuples that hold a NaN at the same position
  are equal exactly when it is the same object: a NaN carries the identity of its object.
\<close>

datatype pyfloat = Float real | PosInf | NegInf | NaN nat

definition float_eq :: "pyfloat \<Rightarrow> pyfloat \<Rightarrow> bool" where
  "float_eq x y \<longleftrightarrow> (case x of NaN i \<Rightarrow> False | _ \<Rightarrow> x = y)"

text \<open>\<open>a == b\<close> of two attributes that hold a float or \<open>None\<close>.\<close>

definition attr_float_eq :: "pyfloat option \<Rightarrow> pyfloat option \<Rightarrow> bool" where
  "attr_float_eq a b \<longleftrightarrow>
     (case a of None \<Rightarrow> b = None | Some x \<Rightarrow> (case b of None \<Rightarrow> False | Some y \<Rightarrow> float_eq x y))"

text \<open>
  The values that occur in a tuple projection (\<open>to_tuple\<close>); their equality is the \<open>==\<close> of
  two tuples. Every attribute has one documented type, so the numeric constructors are
  kept apart. A \<open>datetime\<close> is its position on the time line. Strings are byte strings in
  UTF-8, whose lexicographic order is the order of Python's code points.
\<close>

datatype pyval =
    PNone
  | PBool bool
  | PInt int
  | PFloat pyfloat
  | PStr string
  | PDateTime int
  | PTuple "pyval list"

text \<open>
  A structural total order on these values, given by a prefix-free flattening into tokens
  that are compared lexicographically. The closing token is the least one, so a string or
  a tuple that is a proper prefix of another comes first, and \<open>None\<close> comes before every
  other value.
\<close>

fun ser :: "pyval \<Rightarrow> (nat \<times> real) list" where
  "ser PNone = [(1, 0)]"
| "ser (PBool b) = [(2, if b then 1 else 0)]"
| "ser (PInt i) = [(3, real_of_int i)]"
| "ser (PFloat NegInf) = [(4, 0)]"
| "ser (PFloat (Float r)) = [(5, r)]"
| "ser (PFloat PosInf) = [(6, 0)]"
| "ser (PFloat (NaN i)) = [(7, real i)]"
| "ser (PStr s) = (8, 0) # map (\<lambda>c. (9, real (of_char c :: nat))) s @ [(0, 0)]"
| "ser (PDateTime t) = [(10, real_of_int t)]"
| "ser (PTuple xs) = (11, 0) # concat (map ser xs) @ [(0, 0)]"

text \<open>
  Python's \<open><\<close> on two values: defined between two values of one type, a \<open>TypeError\<close>
  otherwise (in particular whenever \<open>None\<close> is compared). Two tuples are compared at the
  first position where they differ, and by length when one is a prefix of the other.
  \<open>py_comparable x y\<close> says that \<open>x < y\<close> does not raise.
\<close>

fun py_comparable :: "pyval \<Rightarrow> pyval \<Rightarrow> bool"
  and py_comparable_items :: "pyval list \<Rightarrow> pyval list \<Rightarrow> bool" where
  "py_comparable (PBool a) (PBool b) = True"
| "py_comparable (PInt a) (PInt b) = True"
| "py_comparable (PFloat a) (PFloat b) = True"
| "py_comparable (PStr a) (PStr b) = True"
| "py_comparable (PDateTime a) (PDateTime b) = True"
| "py_comparable (PTuple xs) (PTuple ys) = py_comparable_items xs ys"
| "py_comparable _ _ = False"
| "py_comparable_items [] ys = True"
| "py_comparable_items (x # xs) [] = True"
| "py_comparable_items (x # xs) (y # ys) =
     (if x = y then py_comparable_items xs ys else py_comparable x y)"

text \<open>
  The builtin \<open>sorted\<close>. Python's sort is a stable comparison sort that raises as soon as a
  comparison raises. Ordering the incomparable types one way or the other gives two total
  orders that agree with \<open><\<close> wherever it is defined, and a sort that never compared two
  incomparable elements of its input would produce the same arrangement for both; so it
  raises exactly when two elements of the list are incomparable, and otherwise returns
  the list in ascending order. It is applied to the projections of authors and contents,
  which hold strings, booleans, datetimes, \<open>None\<close> and tuples of these, and no float.
\<close>

definition sorted_py :: "pyval list \<Rightarrow> pyerror + pyval list" where
  "sorted_py xs =
     (if \<forall>x \<in> set xs. \<forall>y \<in> set xs. x = y \<or> py_comparable x y
      then Inr (sort_key ser xs) else Inl TypeError)"

text \<open>
  Modelled from the spec: \<open>none_sorted\<close> of \<open>utils.core\<close> is not among the sources. The spec
  says of the tuple projection that children are sorted before comparison and that
  \<open>None\<close> sorts before any value, the projection being fully ordered.
\<close>

definition none_sorted :: "pyval list \<Rightarrow> pyval list" where
  "none_sorted xs = sort_key ser xs"

text \<open>
  Modelled from the spec: \<open>are_lists_equal\<close> of \<open>utils.core\<close> is not among the sources. The
  spec has the children of two entities compared as unordered multisets under the
  structural equality \<open>eq\<close> of the elements: every element of the first list is matched
  with a distinct element of the second, and none is left over.
\<close>

fun remove_first :: "('a \<Rightarrow> bool) \<Rightarrow> 'a list \<Rightarrow> 'a list option" where
  "remove_first p [] = None"
| "remove_first p (y # ys) =
     (if p y then Some ys else map_option (Cons y) (remove_first p ys))"

fun are_lists_equal :: "('a \<Rightarrow> 'b \<Rightarrow> bool) \<Rightarrow> 'a list \<Rightarrow> 'b list \<Rightarrow> bool" where
  "are_lists_equal eq [] ys = (ys = [])"
| "are_lists_equal eq (x # xs) ys =
     (case remove_first (eq x) ys of None \<Rightarrow> False | Some ys' \<Rightarrow> are_lists_equal eq xs ys')"

text \<open>\<open>x or []\<close> for an optional list argument: \<open>None\<close> and the empty list are both falsy.\<close>

definition or_empty :: "'a list option \<Rightarrow> 'a list" where
  "or_empty arg = (case arg of None \<Rightarrow> [] | Some xs \<Rightarrow> if xs = [] then [] else xs)"

text \<open>Conversions of optional attributes into values of a tuple projection.\<close>

definition pstr :: "string option \<Rightarrow> pyval" where
  "pstr s = (case s of None \<Rightarrow> PNone | Some v \<Rightarrow> PStr v)"

definition pfloat :: "pyfloat option \<Rightarrow> pyval" where
  "pfloat s = (case s of None \<Rightarrow> PNone | Some v \<Rightarrow> PFloat v)"

definition pint :: "int option \<Rightarrow> pyval" where
  "pint s = (case s of None \<Rightarrow> PNone | Some v \<Rightarrow> PInt v)"

definition pdatetime :: "int option \<Rightarrow> pyval" where
  "pdatetime s = (case s of None \<Rightarrow> PNone | Some v \<Rightarrow> PDateTime v)"

section \<open>COMBINE/OMEX archives (combine/data\_model.py)\<close>

datatype CombineArchiveAuthor =
  CombineArchiveAuthor (given_name: "string option") (family_name: "string option")

datatype CombineArchiveContent =
  CombineArchiveContent
    (location: string) (format: string) (master: bool)
    (content_description: "string option") (content_authors: "CombineArchiveAuthor list")
    (content_created: "int option") (content_updated: "int option")

datatype CombineArchive =
  CombineArchive
    (contents: "CombineArchiveContent list") (description: "string option")
    (authors: "CombineArchiveAuthor list") (created: "int option") (updated: "int option")


text \<open>Evaluating a generator of projections: the first one that raises ends the evaluation.\<close>

fun map_raise :: "('a \<Rightarrow> pyerror + 'b) \<Rightarrow> 'a list \<Rightarrow> pyerror + 'b list" where
  "map_raise f [] = Inr []"
| "map_raise f (x # xs) =
     (case f x of
        Inl e \<Rightarrow> Inl e
      | Inr y \<Rightarrow> (case map_raise f xs of Inl e \<Rightarrow> Inl e | Inr ys \<Rightarrow> Inr (y # ys)))"

text \<open>
  \<open>get_master_content\<close>: the loop appends to the local list \<open>master_content\<close> only. The
  method is given in state-passing form; its first component is the receiver after the
  call, to which the body never assigns.
\<close>

fun collect_master :: "CombineArchiveContent list \<Rightarrow> CombineArchiveContent list \<Rightarrow> CombineArchiveContent list" where
  "collect_master [] master_content = master_content"
| "collect_master (content # rest) master_content =
     collect_master rest (if master content then master_content @ [content] else master_content)"

definition get_master_content ::
  "CombineArchive \<Rightarrow> CombineArchive \<times> (pyerror + CombineArchiveContent option)" where
  "get_master_content self =
     (let master_content = collect_master (contents self) [] in
      if master_content = [] then (self, Inr None)
      else if length master_content = 1 then (self, Inr (Some (master_content ! 0)))
      else (self, Inl (ValueError ''Multiple content items are marked as master'')))"

definition to_tuple_CombineArchiveAuthor :: "CombineArchiveAuthor \<Rightarrow> pyval" where
  "to_tuple_CombineArchiveAuthor self = PTuple [pstr (family_name self), pstr (given_name self)]"

definition is_equal_CombineArchiveAuthor :: "CombineArchiveAuthor \<Rightarrow> CombineArchiveAuthor \<Rightarrow> bool" where
  "is_equal_CombineArchiveAuthor self other \<longleftrightarrow>
     given_name self = given_name other \<and> family_name self = family_name other"

definition to_tuple_CombineArchiveContent :: "CombineArchiveContent \<Rightarrow> pyerror + pyval" where
  "to_tuple_CombineArchiveContent self =
     (case sorted_py (map to_tuple_CombineArchiveAuthor (content_authors self)) of
        Inl e \<Rightarrow> Inl e
      | Inr sorted_authors \<Rightarrow>
          Inr (PTuple [PStr (location self), PStr (format self), PBool (master self),
                       pstr (content_description self), PTuple sorted_authors,
                       pdatetime (content_created self), pdatetime (content_updated self)]))"

definition is_equal_CombineArchiveContent :: "CombineArchiveContent \<Rightarrow> CombineArchiveContent \<Rightarrow> bool" where
  "is_equal_CombineArchiveContent self other \<longleftrightarrow>
     location self = location other
     \<and> format self = format other
     \<and> master self = master other
     \<and> content_description self = content_description other
     \<and> are_lists_equal is_equal_CombineArchiveAuthor (content_authors self) (content_authors other)
     \<and> content_created self = content_created other
     \<and> content_updated self = content_updated other"

definition to_tuple_CombineArchive :: "CombineArchive \<Rightarrow> pyerror + pyval" where
  "to_tuple_CombineArchive self =
     (case map_raise to_tuple_CombineArchiveContent (contents self) of
        Inl e \<Rightarrow> Inl e
      | Inr content_tuples \<Rightarrow>
          (case sorted_py content_tuples of
             Inl e \<Rightarrow> Inl e
           | Inr sorted_contents \<Rightarrow>
               (case sorted_py (map to_tuple_CombineArchiveAuthor (authors self)) of
                  Inl e \<Rightarrow> Inl e
                | Inr sorted_authors \<Rightarrow>
                    Inr (PTuple [PTuple sorted_contents, pstr (description self), PTuple sorted_authors,
                                 pdatetime (created self), pdatetime (updated self)]))))"

definition is_equal_CombineArchive :: "CombineArchive \<Rightarrow> CombineArchive \<Rightarrow> bool" where
  "is_equal_CombineArchive self other \<longleftrightarrow>
     are_lists_equal is_equal_CombineArchiveContent (contents self) (contents other)
     \<and> description self = description other
     \<and> are_lists_equal is_equal_CombineArchiveAuthor (authors self) (authors other)
     \<and> created self = created other
     \<and> updated self = updated other"

text \<open>The constructors: \<open>contents or []\<close> and \<open>authors or []\<close>.\<close>

definition CombineArchive_init ::
  "CombineArchiveContent list option \<Rightarrow> string option \<Rightarrow> CombineArchiveAuthor list option
   \<Rightarrow> int option \<Rightarrow> int option \<Rightarrow> CombineArchive" where
  "CombineArchive_init contents0 description0 authors0 created0 updated0 =
     CombineArchive (or_empty contents0) description0 (or_empty authors0) created0 updated0"

definition CombineArchiveContent_init ::
  "string \<Rightarrow> string \<Rightarrow> bool \<Rightarrow> string option \<Rightarrow> CombineArchiveAuthor list option
   \<Rightarrow> int option \<Rightarrow> int option \<Rightarrow> CombineArchiveContent" where
  "CombineArchiveContent_init location0 format0 master0 description0 authors0 created0 updated0 =
     CombineArchiveContent location0 format0 master0 description0 (or_empty authors0) created0 updated0"

section \<open>SED-ML documents (sedml/data\_model.py)\<close>

text \<open>
  \<open>Model\<close> objects are shared: a task and a variable refer to the model that the document
  lists. The classes that hold such a reference take its representation as the type
  parameter \<open>'m\<close>: the model itself where entities are compared by value, an address
  where the executor mutates models in a store. \<open>Metadata\<close> is a class of
  \<open>biosimulations.data_model\<close>, which is not among the sources; it is the parameter \<open>'md\<close>.
  \<open>ModelChange\<close> is abstract and \<open>ModelAttributeChange\<close> its one subclass; the constructor of
  the subclass leaves the attribute \<open>name\<close> of the base class at \<open>None\<close>, and it can be
  assigned afterwards like every attribute.
\<close>

datatype AlgorithmParameterChange =
  AlgorithmParameterChange (apc_kisao_id: "string option") (apc_new_value: "string option")

datatype Algorithm =
  Algorithm (alg_kisao_id: "string option") (alg_changes: "AlgorithmParameterChange list")

datatype Simulation =
    SteadyStateSimulation (sim_id: "string option") (sim_name: "string option")
      (sim_algorithm: "Algorithm option")
  | OneStepSimulation (sim_id: "string option") (sim_name: "string option")
      (sim_algorithm: "Algorithm option") (step: "pyfloat option")
  | UniformTimeCourseSimulation (sim_id: "string option") (sim_name: "string option")
      (sim_algorithm: "Algorithm option") (initial_time: "pyfloat option")
      (output_start_time: "pyfloat option") (output_end_time: "pyfloat option")
      (number_of_points: "int option")

datatype ModelChange =
  ModelAttributeChange (mc_name: "string option") (mc_target: "string option")
    (mc_new_value: "string option")

definition ModelAttributeChange_init :: "string option \<Rightarrow> string option \<Rightarrow> ModelChange" where
  "ModelAttributeChange_init target0 new_value0 = ModelAttributeChange None target0 new_value0"

datatype Model =
  Model (model_id: "string option") (model_name: "string option") (model_source: "string option")
    (model_language: "string option") (model_changes: "ModelChange list")

datatype 'm Task =
  Task (task_id: "string option") (task_name: "string option") (task_model: "'m option")
    (task_simulation: "Simulation option")

datatype 'm DataGeneratorVariable =
  DataGeneratorVariable (var_id: "string option") (var_name: "string option")
    (var_target: "string option") (var_symbol: "string option")
    (var_task: "'m Task option") (var_model: "'m option")

datatype DataGeneratorParameter =
  DataGeneratorParameter (param_id: "string option") (param_name: "string option")
    (param_value: "pyfloat option")

datatype 'm DataGenerator =
  DataGenerator (dg_id: "string option") (dg_name: "string option")
    (dg_variables: "'m DataGeneratorVariable list") (dg_parameters: "DataGeneratorParameter list")
    (dg_math: "string option")

datatype 'm DataSet =
  DataSet (ds_id: "string option") (ds_name: "string option") (ds_label: "string option")
    (ds_data_generator: "'m DataGenerator option")

datatype AxisScale = AxisScale_linear | AxisScale_log

definition axis_value :: "AxisScale \<Rightarrow> string" where
  "axis_value s = (case s of AxisScale_linear \<Rightarrow> ''linear'' | AxisScale_log \<Rightarrow> ''log'')"

datatype 'm Curve =
  Curve (curve_id: "string option") (curve_name: "string option")
    (curve_x_scale: "AxisScale option") (curve_y_scale: "AxisScale option")
    (curve_x_data_generator: "'m DataGenerator option")
    (curve_y_data_generator: "'m DataGenerator option")

datatype 'm Surface =
  Surface (surf_id: "string option") (surf_name: "string option")
    (surf_x_scale: "AxisScale option") (surf_y_scale: "AxisScale option")
    (surf_z_scale: "AxisScale option")
    (surf_x_data_generator: "'m DataGenerator option")
    (surf_y_data_generator: "'m DataGenerator option")
    (surf_z_data_generator: "'m DataGenerator option")

datatype 'm Output =
    Report (out_id: "string option") (out_name: "string option") (data_sets: "'m DataSet list")
  | Plot2D (out_id: "string option") (out_name: "string option") (curves: "'m Curve list")
  | Plot3D (out_id: "string option") (out_name: "string option") (surfaces: "'m Surface list")

datatype ('m, 'md) SedDocument =
  SedDocument (level: int) (version: int) (models: "'m list") (simulations: "Simulation list")
    (tasks: "'m Task list") (data_generators: "'m DataGenerator list")
    (outputs: "'m Output list") (metadata: "'md option")


text \<open>
  An optional child: \<open>child.to_tuple() if child else None\<close> in a projection, and
  \<open>(a is None and a == b) or (a is not None and a.is_equal(b))\<close> in a comparison, where
  \<open>a.is_equal(None)\<close> is false because the classes differ.
\<close>

definition opt_tuple :: "('a \<Rightarrow> pyval) \<Rightarrow> 'a option \<Rightarrow> pyval" where
  "opt_tuple f x = (case x of None \<Rightarrow> PNone | Some v \<Rightarrow> f v)"

definition opt_is_equal :: "('a \<Rightarrow> 'a \<Rightarrow> bool) \<Rightarrow> 'a option \<Rightarrow> 'a option \<Rightarrow> bool" where
  "opt_is_equal eq a b =
     (case a of None \<Rightarrow> b = None | Some x \<Rightarrow> (case b of None \<Rightarrow> False | Some y \<Rightarrow> eq x y))"

definition to_tuple_AlgorithmParameterChange :: "AlgorithmParameterChange \<Rightarrow> pyval" where
  "to_tuple_AlgorithmParameterChange self = PTuple [pstr (apc_kisao_id self), pstr (apc_new_value self)]"

definition is_equal_AlgorithmParameterChange ::
  "AlgorithmParameterChange \<Rightarrow> AlgorithmParameterChange \<Rightarrow> bool" where
  "is_equal_AlgorithmParameterChange self other \<longleftrightarrow>
     apc_kisao_id self = apc_kisao_id other \<and> apc_new_value self = apc_new_value other"

definition to_tuple_Algorithm :: "Algorithm \<Rightarrow> pyval" where
  "to_tuple_Algorithm self =
     PTuple [pstr (alg_kisao_id self),
             PTuple (none_sorted (map to_tuple_AlgorithmParameterChange (alg_changes self)))]"

definition is_equal_Algorithm :: "Algorithm \<Rightarrow> Algorithm \<Rightarrow> bool" where
  "is_equal_Algorithm self other \<longleftrightarrow>
     alg_kisao_id self = alg_kisao_id other
     \<and> are_lists_equal is_equal_AlgorithmParameterChange (alg_changes self) (alg_changes other)"

fun to_tuple_Simulation :: "Simulation \<Rightarrow> pyval" where
  "to_tuple_Simulation (SteadyStateSimulation i n a) =
     PTuple [pstr i, pstr n, opt_tuple to_tuple_Algorithm a]"
| "to_tuple_Simulation (OneStepSimulation i n a s) =
     PTuple [pstr i, pstr n, opt_tuple to_tuple_Algorithm a, pfloat s]"
| "to_tuple_Simulation (UniformTimeCourseSimulation i n a t0 t1 t2 k) =
     PTuple [pstr i, pstr n, opt_tuple to_tuple_Algorithm a, pfloat t0, pfloat t1, pfloat t2, pint k]"

text \<open>
  \<open>Simulation.is_equal\<close> compares the classes first; the subclasses then compare their own
  attributes.
\<close>

fun is_equal_Simulation :: "Simulation \<Rightarrow> Simulation \<Rightarrow> bool" where
  "is_equal_Simulation (SteadyStateSimulation i n a) (SteadyStateSimulation i' n' a') \<longleftrightarrow>
     i = i' \<and> n = n' \<and> opt_is_equal is_equal_Algorithm a a'"
| "is_equal_Simulation (OneStepSimulation i n a s) (OneStepSimulation i' n' a' s') \<longleftrightarrow>
     (i = i' \<and> n = n' \<and> opt_is_equal is_equal_Algorithm a a') \<and> attr_float_eq s s'"
| "is_equal_Simulation (UniformTimeCourseSimulation i n a t0 t1 t2 k)
       (UniformTimeCourseSimulation i' n' a' t0' t1' t2' k') \<longleftrightarrow>
     (i = i' \<and> n = n' \<and> opt_is_equal is_equal_Algorithm a a')
     \<and> attr_float_eq t0 t0' \<and> attr_float_eq t1 t1' \<and> attr_float_eq t2 t2' \<and> k = k'"
| "is_equal_Simulation _ _ \<longleftrightarrow> False"

definition to_tuple_ModelChange :: "ModelChange \<Rightarrow> pyval" where
  "to_tuple_ModelChange self = PTuple [pstr (mc_target self), pstr (mc_new_value self)]"

definition is_equal_ModelChange :: "ModelChange \<Rightarrow> ModelChange \<Rightarrow> bool" where
  "is_equal_ModelChange self other \<longleftrightarrow>
     (mc_name self = mc_name other \<and> mc_target self = mc_target other)
     \<and> mc_new_value self = mc_new_value other"

definition to_tuple_Model :: "Model \<Rightarrow> pyval" where
  "to_tuple_Model self =
     PTuple [pstr (model_id self), pstr (model_name self), pstr (model_source self),
             pstr (model_language self),
             PTuple (none_sorted (map to_tuple_ModelChange (model_changes self)))]"

definition is_equal_Model :: "Model \<Rightarrow> Model \<Rightarrow> bool" where
  "is_equal_Model self other \<longleftrightarrow>
     model_id self = model_id other
     \<and> model_name self = model_name other
     \<and> model_source self = model_source other
     \<and> model_language self = model_language other
     \<and> are_lists_equal is_equal_ModelChange (model_changes self) (model_changes other)"

definition to_tuple_Task :: "Model Task \<Rightarrow> pyval" where
  "to_tuple_Task self =
     PTuple [pstr (task_id self), pstr (task_name self),
             opt_tuple to_tuple_Model (task_model self),
             opt_tuple to_tuple_Simulation (task_simulation self)]"

definition is_equal_Task :: "Model Task \<Rightarrow> Model Task \<Rightarrow> bool" where
  "is_equal_Task self other \<longleftrightarrow>
     (task_id self = task_id other \<and> task_name self = task_name other)
     \<and> opt_is_equal is_equal_Model (task_model self) (task_model other)
     \<and> opt_is_equal is_equal_Simulation (task_simulation self) (task_simulation other)"

definition to_tuple_DataGeneratorVariable :: "Model DataGeneratorVariable \<Rightarrow> pyval" where
  "to_tuple_DataGeneratorVariable self =
     PTuple [pstr (var_id self), pstr (var_name self), pstr (var_target self), pstr (var_symbol self),
             opt_tuple to_tuple_Task (var_task self),
             opt_tuple to_tuple_Model (var_model self)]"

definition is_equal_DataGeneratorVariable ::
  "Model DataGeneratorVariable \<Rightarrow> Model DataGeneratorVariable \<Rightarrow> bool" where
  "is_equal_DataGeneratorVariable self other \<longleftrightarrow>
     var_id self = var_id other
     \<and> var_name self = var_name other
     \<and> var_target self = var_target other
     \<and> var_symbol self = var_symbol other
     \<and> opt_is_equal is_equal_Task (var_task self) (var_task other)
     \<and> opt_is_equal is_equal_Model (var_model self) (var_model other)"

definition to_tuple_DataGeneratorParameter :: "DataGeneratorParameter \<Rightarrow> pyval" where
  "to_tuple_DataGeneratorParameter self =
     PTuple [pstr (param_id self), pstr (param_name self), pfloat (param_value self)]"

definition is_equal_DataGeneratorParameter ::
  "DataGeneratorParameter \<Rightarrow> DataGeneratorParameter \<Rightarrow> bool" where
  "is_equal_DataGeneratorParameter self other \<longleftrightarrow>
     param_id self = param_id other
     \<and> param_name self = param_name other
     \<and> attr_float_eq (param_value self) (param_value other)"

definition to_tuple_DataGenerator :: "Model DataGenerator \<Rightarrow> pyval" where
  "to_tuple_DataGenerator self =
     PTuple [pstr (dg_id self), pstr (dg_name self),
             PTuple (none_sorted (map to_tuple_DataGeneratorVariable (dg_variables self))),
             PTuple (none_sorted (map to_tuple_DataGeneratorParameter (dg_parameters self))),
             pstr (dg_math self)]"

definition is_equal_DataGenerator :: "Model DataGenerator \<Rightarrow> Model DataGenerator \<Rightarrow> bool" where
  "is_equal_DataGenerator self other \<longleftrightarrow>
     dg_id self = dg_id other
     \<and> dg_name self = dg_name other
     \<and> are_lists_equal is_equal_DataGeneratorVariable (dg_variables self) (dg_variables other)
     \<and> are_lists_equal is_equal_DataGeneratorParameter (dg_parameters self) (dg_parameters other)
     \<and> dg_math self = dg_math other"

definition to_tuple_DataSet :: "Model DataSet \<Rightarrow> pyval" where
  "to_tuple_DataSet self =
     PTuple [pstr (ds_id self), pstr (ds_name self), pstr (ds_label self),
             opt_tuple to_tuple_DataGenerator (ds_data_generator self)]"

definition is_equal_DataSet :: "Model DataSet \<Rightarrow> Model DataSet \<Rightarrow> bool" where
  "is_equal_DataSet self other \<longleftrightarrow>
     ds_id self = ds_id other
     \<and> ds_name self = ds_name other
     \<and> ds_label self = ds_label other
     \<and> opt_is_equal is_equal_DataGenerator (ds_data_generator self) (ds_data_generator other)"

definition pscale :: "AxisScale option \<Rightarrow> pyval" where
  "pscale s = (case s of None \<Rightarrow> PNone | Some v \<Rightarrow> PStr (axis_value v))"

definition to_tuple_Curve :: "Model Curve \<Rightarrow> pyval" where
  "to_tuple_Curve self =
     PTuple [pstr (curve_id self), pstr (curve_name self),
             pscale (curve_x_scale self), pscale (curve_y_scale self),
             opt_tuple to_tuple_DataGenerator (curve_x_data_generator self),
             opt_tuple to_tuple_DataGenerator (curve_y_data_generator self)]"

definition is_equal_Curve :: "Model Curve \<Rightarrow> Model Curve \<Rightarrow> bool" where
  "is_equal_Curve self other \<longleftrightarrow>
     curve_id self = curve_id other
     \<and> curve_name self = curve_name other
     \<and> curve_x_scale self = curve_x_scale other
     \<and> curve_y_scale self = curve_y_scale other
     \<and> opt_is_equal is_equal_DataGenerator (curve_x_data_generator self) (curve_x_data_generator other)
     \<and> opt_is_equal is_equal_DataGenerator (curve_y_data_generator self) (curve_y_data_generator other)"

definition to_tuple_Surface :: "Model Surface \<Rightarrow> pyval" where
  "to_tuple_Surface self =
     PTuple [pstr (surf_id self), pstr (surf_name self),
             pscale (surf_x_scale self), pscale (surf_y_scale self), pscale (surf_z_scale self),
             opt_tuple to_tuple_DataGenerator (surf_x_data_generator self),
             opt_tuple to_tuple_DataGenerator (surf_y_data_generator self),
             opt_tuple to_tuple_DataGenerator (surf_z_data_generator self)]"

definition is_equal_Surface :: "Model Surface \<Rightarrow> Model Surface \<Rightarrow> bool" where
  "is_equal_Surface self other \<longleftrightarrow>
     surf_id self = surf_id other
     \<and> surf_name self = surf_name other
     \<and> surf_x_scale self = surf_x_scale other
     \<and> surf_y_scale self = surf_y_scale other
     \<and> surf_z_scale self = surf_z_scale other
     \<and> opt_is_equal is_equal_DataGenerator (surf_x_data_generator self) (surf_x_data_generator other)
     \<and> opt_is_equal is_equal_DataGenerator (surf_y_data_generator self) (surf_y_data_generator other)
     \<and> opt_is_equal is_equal_DataGenerator (surf_z_data_generator self) (surf_z_data_generator other)"

fun to_tuple_Output :: "Model Output \<Rightarrow> pyval" where
  "to_tuple_Output (Report i n ds) = PTuple [pstr i, pstr n, PTuple (none_sorted (map to_tuple_DataSet ds))]"
| "to_tuple_Output (Plot2D i n cs) = PTuple [pstr i, pstr n, PTuple (none_sorted (map to_tuple_Curve cs))]"
| "to_tuple_Output (Plot3D i n ss) = PTuple [pstr i, pstr n, PTuple (none_sorted (map to_tuple_Surface ss))]"

fun is_equal_Output :: "Model Output \<Rightarrow> Model Output \<Rightarrow> bool" where
  "is_equal_Output (Report i n ds) (Report i' n' ds') \<longleftrightarrow>
     (i = i' \<and> n = n') \<and> are_lists_equal is_equal_DataSet ds ds'"
| "is_equal_Output (Plot2D i n cs) (Plot2D i' n' cs') \<longleftrightarrow>
     i = i' \<and> n = n' \<and> are_lists_equal is_equal_Curve cs cs'"
| "is_equal_Output (Plot3D i n ss) (Plot3D i' n' ss') \<longleftrightarrow>
     i = i' \<and> n = n' \<and> are_lists_equal is_equal_Surface ss ss'"
| "is_equal_Output _ _ \<longleftrightarrow> False"

text \<open>
  The document. The projection and the comparison of its metadata are those of the
  absent class \<open>Metadata\<close>: \<open>md_to_tuple\<close> is its \<open>to_tuple\<close>, and \<open>md_is_equal m other\<close> its
  \<open>m.is_equal(other)\<close>, where \<open>other\<close> is the metadata of the other document or \<open>None\<close>.
\<close>

definition to_tuple_SedDocument :: "('md \<Rightarrow> pyval) \<Rightarrow> (Model, 'md) SedDocument \<Rightarrow> pyval" where
  "to_tuple_SedDocument md_to_tuple self =
     PTuple [PInt (level self), PInt (version self),
             PTuple (none_sorted (map to_tuple_Model (models self))),
             PTuple (none_sorted (map to_tuple_Simulation (simulations self))),
             PTuple (none_sorted (map to_tuple_Task (tasks self))),
             PTuple (none_sorted (map to_tuple_DataGenerator (data_generators self))),
             PTuple (none_sorted (map to_tuple_Output (outputs self))),
             opt_tuple md_to_tuple (metadata self)]"

definition is_equal_SedDocument ::
  "('md \<Rightarrow> 'md option \<Rightarrow> bool) \<Rightarrow> (Model, 'md) SedDocument \<Rightarrow> (Model, 'md) SedDocument \<Rightarrow> bool" where
  "is_equal_SedDocument md_is_equal self other \<longleftrightarrow>
     level self = level other
     \<and> version self = version other
     \<and> are_lists_equal is_equal_Model (models self) (models other)
     \<and> are_lists_equal is_equal_Simulation (simulations self) (simulations other)
     \<and> are_lists_equal is_equal_Task (tasks self) (tasks other)
     \<and> are_lists_equal is_equal_DataGenerator (data_generators self) (data_generators other)
     \<and> are_lists_equal is_equal_Output (outputs self) (outputs other)
     \<and> (case metadata self of
          None \<Rightarrow> metadata other = None
        | Some m \<Rightarrow> md_is_equal m (metadata other))"

text \<open>The constructors with list-valued arguments, each \<open>argument or []\<close>.\<close>

definition SedDocument_init ::
  "int \<Rightarrow> int \<Rightarrow> 'm list option \<Rightarrow> Simulation list option \<Rightarrow> 'm Task list option
   \<Rightarrow> 'm DataGenerator list option \<Rightarrow> 'm Output list option \<Rightarrow> 'md option
   \<Rightarrow> ('m, 'md) SedDocument" where
  "SedDocument_init level0 version0 models0 simulations0 tasks0 data_generators0 outputs0 metadata0 =
     SedDocument level0 version0 (or_empty models0) (or_empty simulations0) (or_empty tasks0)
       (or_empty data_generators0) (or_empty outputs0) metadata0"

definition Algorithm_init :: "string option \<Rightarrow> AlgorithmParameterChange list option \<Rightarrow> Algorithm" where
  "Algorithm_init kisao_id0 changes0 = Algorithm kisao_id0 (or_empty changes0)"

definition Model_init ::
  "string option \<Rightarrow> string option \<Rightarrow> string option \<Rightarrow> string option \<Rightarrow> ModelChange list option
   \<Rightarrow> Model" where
  "Model_init id0 name0 source0 language0 changes0 =
     Model id0 name0 source0 language0 (or_empty changes0)"

definition DataGenerator_init ::
  "string option \<Rightarrow> string option \<Rightarrow> 'm DataGeneratorVariable list option
   \<Rightarrow> DataGeneratorParameter list option \<Rightarrow> string option \<Rightarrow> 'm DataGenerator" where
  "DataGenerator_init id0 name0 variables0 parameters0 math0 =
     DataGenerator id0 name0 (or_empty variables0) (or_empty parameters0) math0"

definition Report_init :: "string option \<Rightarrow> string option \<Rightarrow> 'm DataSet list option \<Rightarrow> 'm Output" where
  "Report_init id0 name0 data_sets0 = Report id0 name0 (or_empty data_sets0)"

definition Plot2D_init :: "string option \<Rightarrow> string option \<Rightarrow> 'm Curve list option \<Rightarrow> 'm Output" where
  "Plot2D_init id0 name0 curves0 = Plot2D id0 name0 (or_empty curves0)"

definition Plot3D_init :: "string option \<Rightarrow> string option \<Rightarrow> 'm Surface list option \<Rightarrow> 'm Output" where
  "Plot3D_init id0 name0 surfaces0 = Plot3D id0 name0 (or_empty surfaces0)"

text \<open>
  All entities in one type, for comparisons across classes: every \<open>is_equal\<close> starts with
  \<open>self.__class__ == other.__class__\<close>.
\<close>

datatype 'md entity =
    E_CombineArchive CombineArchive
  | E_CombineArchiveContent CombineArchiveContent
  | E_CombineArchiveAuthor CombineArchiveAuthor
  | E_SedDocument "(Model, 'md) SedDocument"
  | E_Simulation Simulation
  | E_Algorithm Algorithm
  | E_AlgorithmParameterChange AlgorithmParameterChange
  | E_Model Model
  | E_ModelChange ModelChange
  | E_Task "Model Task"
  | E_DataGenerator "Model DataGenerator"
  | E_DataGeneratorVariable "Model DataGeneratorVariable"
  | E_DataGeneratorParameter DataGeneratorParameter
  | E_Output "Model Output"
  | E_DataSet "Model DataSet"
  | E_Curve "Model Curve"
  | E_Surface "Model Surface"

fun class_name :: "'md entity \<Rightarrow> string" where
  "class_name (E_CombineArchive _) = ''CombineArchive''"
| "class_name (E_CombineArchiveContent _) = ''CombineArchiveContent''"
| "class_name (E_CombineArchiveAuthor _) = ''CombineArchiveAuthor''"
| "class_name (E_SedDocument _) = ''SedDocument''"
| "class_name (E_Simulation (SteadyStateSimulation _ _ _)) = ''SteadyStateSimulation''"
| "class_name (E_Simulation (OneStepSimulation _ _ _ _)) = ''OneStepSimulation''"
| "class_name (E_Simulation (UniformTimeCourseSimulation _ _ _ _ _ _ _)) = ''UniformTimeCourseSimulation''"
| "class_name (E_Algorithm _) = ''Algorithm''"
| "class_name (E_AlgorithmParameterChange _) = ''AlgorithmParameterChange''"
| "class_name (E_Model _) = ''Model''"
| "class_name (E_ModelChange _) = ''ModelAttributeChange''"
| "class_name (E_Task _) = ''Task''"
| "class_name (E_DataGenerator _) = ''DataGenerator''"
| "class_name (E_DataGeneratorVariable _) = ''DataGeneratorVariable''"
| "class_name (E_DataGeneratorParameter _) = ''DataGeneratorParameter''"
| "class_name (E_Output (Report _ _ _)) = ''Report''"
| "class_name (E_Output (Plot2D _ _ _)) = ''Plot2D''"
| "class_name (E_Output (Plot3D _ _ _)) = ''Plot3D''"
| "class_name (E_DataSet _) = ''DataSet''"
| "class_name (E_Curve _) = ''Curve''"
| "class_name (E_Surface _) = ''Surface''"

fun to_tuple :: "('md \<Rightarrow> pyval) \<Rightarrow> 'md entity \<Rightarrow> pyerror + pyval" where
  "to_tuple mt (E_CombineArchive x) = to_tuple_CombineArchive x"
| "to_tuple mt (E_CombineArchiveContent x) = to_tuple_CombineArchiveContent x"
| "to_tuple mt (E_CombineArchiveAuthor x) = Inr (to_tuple_CombineArchiveAuthor x)"
| "to_tuple mt (E_SedDocument x) = Inr (to_tuple_SedDocument mt x)"
| "to_tuple mt (E_Simulation x) = Inr (to_tuple_Simulation x)"
| "to_tuple mt (E_Algorithm x) = Inr (to_tuple_Algorithm x)"
| "to_tuple mt (E_AlgorithmParameterChange x) = Inr (to_tuple_AlgorithmParameterChange x)"
| "to_tuple mt (E_Model x) = Inr (to_tuple_Model x)"
| "to_tuple mt (E_ModelChange x) = Inr (to_tuple_ModelChange x)"
| "to_tuple mt (E_Task x) = Inr (to_tuple_Task x)"
| "to_tuple mt (E_DataGenerator x) = Inr (to_tuple_DataGenerator x)"
| "to_tuple mt (E_DataGeneratorVariable x) = Inr (to_tuple_DataGeneratorVariable x)"
| "to_tuple mt (E_DataGeneratorParameter x) = Inr (to_tuple_DataGeneratorParameter x)"
| "to_tuple mt (E_Output x) = Inr (to_tuple_Output x)"
| "to_tuple mt (E_DataSet x) = Inr (to_tuple_DataSet x)"
| "to_tuple mt (E_Curve x) = Inr (to_tuple_Curve x)"
| "to_tuple mt (E_Surface x) = Inr (to_tuple_Surface x)"

definition is_equal :: "('md \<Rightarrow> 'md option \<Rightarrow> bool) \<Rightarrow> 'md entity \<Rightarrow> 'md entity \<Rightarrow> bool" where
  "is_equal me self other =
     (case self of
        E_CombineArchive x \<Rightarrow> (case other of E_CombineArchive y \<Rightarrow> is_equal_CombineArchive x y | _ \<Rightarrow> False)
      | E_CombineArchiveContent x \<Rightarrow> (case other of E_CombineArchiveContent y \<Rightarrow> is_equal_CombineArchiveContent x y | _ \<Rightarrow> False)
      | E_CombineArchiveAuthor x \<Rightarrow> (case other of E_CombineArchiveAuthor y \<Rightarrow> is_equal_CombineArchiveAuthor x y | _ \<Rightarrow> False)
      | E_SedDocument x \<Rightarrow> (case other of E_SedDocument y \<Rightarrow> is_equal_SedDocument me x y | _ \<Rightarrow> False)
      | E_Simulation x \<Rightarrow> (case other of E_Simulation y \<Rightarrow> is_equal_Simulation x y | _ \<Rightarrow> False)
      | E_Algorithm x \<Rightarrow> (case other of E_Algorithm y \<Rightarrow> is_equal_Algorithm x y | _ \<Rightarrow> False)
      | E_AlgorithmParameterChange x \<Rightarrow> (case other of E_AlgorithmParameterChange y \<Rightarrow> is_equal_AlgorithmParameterChange x y | _ \<Rightarrow> False)
      | E_Model x \<Rightarrow> (case other of E_Model y \<Rightarrow> is_equal_Model x y | _ \<Rightarrow> False)
      | E_ModelChange x \<Rightarrow> (case other of E_ModelChange y \<Rightarrow> is_equal_ModelChange x y | _ \<Rightarrow> False)
      | E_Task x \<Rightarrow> (case other of E_Task y \<Rightarrow> is_equal_Task x y | _ \<Rightarrow> False)
      | E_DataGenerator x \<Rightarrow> (case other of E_DataGenerator y \<Rightarrow> is_equal_DataGenerator x y | _ \<Rightarrow> False)
      | E_DataGeneratorVariable x \<Rightarrow> (case other of E_DataGeneratorVariable y \<Rightarrow> is_equal_DataGeneratorVariable x y | _ \<Rightarrow> False)
      | E_DataGeneratorParameter x \<Rightarrow> (case other of E_DataGeneratorParameter y \<Rightarrow> is_equal_DataGeneratorParameter x y | _ \<Rightarrow> False)
      | E_Output x \<Rightarrow> (case other of E_Output y \<Rightarrow> is_equal_Output x y | _ \<Rightarrow> False)
      | E_DataSet x \<Rightarrow> (case other of E_DataSet y \<Rightarrow> is_equal_DataSet x y | _ \<Rightarrow> False)
      | E_Curve x \<Rightarrow> (case other of E_Curve y \<Rightarrow> is_equal_Curve x y | _ \<Rightarrow> False)
      | E_Surface x \<Rightarrow> (case other of E_Surface y \<Rightarrow> is_equal_Surface x y | _ \<Rightarrow> False))"

text \<open>
  The entities on which the projection says everything that \<open>is_equal\<close> compares: no float
  attribute is a NaN, and every model change has the name that its constructor gives it.
  \<open>to_tuple\<close> of a \<open>ModelAttributeChange\<close> leaves the name out, and a NaN in two equal
  tuples is still not \<open>==\<close> to itself.
\<close>

definition plain_float :: "pyfloat option \<Rightarrow> bool" where
  "plain_float v = (case v of Some (NaN i) \<Rightarrow> False | _ \<Rightarrow> True)"

definition plain_opt :: "('a \<Rightarrow> bool) \<Rightarrow> 'a option \<Rightarrow> bool" where
  "plain_opt p v = (case v of None \<Rightarrow> True | Some x \<Rightarrow> p x)"

fun plain_Simulation :: "Simulation \<Rightarrow> bool" where
  "plain_Simulation (SteadyStateSimulation i n a) = True"
| "plain_Simulation (OneStepSimulation i n a s) = plain_float s"
| "plain_Simulation (UniformTimeCourseSimulation i n a t0 t1 t2 k) =
     (plain_float t0 \<and> plain_float t1 \<and> plain_float t2)"

definition plain_ModelChange :: "ModelChange \<Rightarrow> bool" where
  "plain_ModelChange self = (mc_name self = None)"

definition plain_Model :: "Model \<Rightarrow> bool" where
  "plain_Model self = list_all plain_ModelChange (model_changes self)"

definition plain_Task :: "Model Task \<Rightarrow> bool" where
  "plain_Task self =
     (plain_opt plain_Model (task_model self) \<and> plain_opt plain_Simulation (task_simulation self))"

definition plain_DataGeneratorVariable :: "Model DataGeneratorVariable \<Rightarrow> bool" where
  "plain_DataGeneratorVariable self =
     (plain_opt plain_Task (var_task self) \<and> plain_opt plain_Model (var_model self))"

definition plain_DataGeneratorParameter :: "DataGeneratorParameter \<Rightarrow> bool" where
  "plain_DataGeneratorParameter self = plain_float (param_value self)"

definition plain_DataGenerator :: "Model DataGenerator \<Rightarrow> bool" where
  "plain_DataGenerator self =
     (list_all plain_DataGeneratorVariable (dg_variables self)
      \<and> list_all plain_DataGeneratorParameter (dg_parameters self))"

definition plain_DataSet :: "Model DataSet \<Rightarrow> bool" where
  "plain_DataSet self = plain_opt plain_DataGenerator (ds_data_generator self)"

definition plain_Curve :: "Model Curve \<Rightarrow> bool" where
  "plain_Curve self =
     (plain_opt plain_DataGenerator (curve_x_data_generator self)
      \<and> plain_opt plain_DataGenerator (curve_y_data_generator self))"

definition plain_Surface :: "Model Surface \<Rightarrow> bool" where
  "plain_Surface self =
     (plain_opt plain_DataGenerator (surf_x_data_generator self)
      \<and> plain_opt plain_DataGenerator (surf_y_data_generator self)
      \<and> plain_opt plain_DataGenerator (surf_z_data_generator self))"

fun plain_Output :: "Model Output \<Rightarrow> bool" where
  "plain_Output (Report i n ds) = list_all plain_DataSet ds"
| "plain_Output (Plot2D i n cs) = list_all plain_Curve cs"
| "plain_Output (Plot3D i n ss) = list_all plain_Surface ss"

definition plain_SedDocument :: "(Model, 'md) SedDocument \<Rightarrow> bool" where
  "plain_SedDocument self =
     (list_all plain_Model (models self)
      \<and> list_all plain_Simulation (simulations self)
      \<and> list_all plain_Task (tasks self)
      \<and> list_all plain_DataGenerator (data_generators self)
      \<and> list_all plain_Output (outputs self))"

fun plain :: "'md entity \<Rightarrow> bool" where
  "plain (E_CombineArchive x) = True"
| "plain (E_CombineArchiveContent x) = True"
| "plain (E_CombineArchiveAuthor x) = True"
| "plain (E_SedDocument x) = plain_SedDocument x"
| "plain (E_Simulation x) = plain_Simulation x"
| "plain (E_Algorithm x) = True"
| "plain (E_AlgorithmParameterChange x) = True"
| "plain (E_Model x) = plain_Model x"
| "plain (E_ModelChange x) = plain_ModelChange x"
| "plain (E_Task x) = plain_Task x"
| "plain (E_DataGenerator x) = plain_DataGenerator x"
| "plain (E_DataGeneratorVariable x) = plain_DataGeneratorVariable x"
| "plain (E_DataGeneratorParameter x) = plain_DataGeneratorParameter x"
| "plain (E_Output x) = plain_Output x"
| "plain (E_DataSet x) = plain_DataSet x"
| "plain (E_Curve x) = plain_Curve x"
| "plain (E_Surface x) = plain_Surface x"

section \<open>The table of mathematical functions\<close>

text \<open>
  The functions of \<open>math\<close>, \<open>mpmath\<close> and the builtins that the table binds, by name. Their
  values are floating-point computations of those libraries; \<open>lib\<close> below is any
  interpretation of them.
\<close>

datatype pyfunction =
    Lambda_root | Builtin_abs | Math_exp | Math_log | Math_floor | Math_ceil | Math_factorial
  | Math_sin | Math_cos | Math_tan | Mpmath_sec | Mpmath_csc | Mpmath_cot
  | Math_sinh | Math_cosh | Math_tanh | Mpmath_sech | Mpmath_csch | Mpmath_coth
  | Math_asin | Math_acos | Math_atan | Mpmath_asec | Mpmath_acsc | Mpmath_acot
  | Math_asinh | Math_acosh | Math_atanh | Mpmath_asech | Mpmath_acsch | Mpmath_acoth

definition MATHEMATICAL_FUNCTIONS :: "(string \<times> pyfunction) list" where
  "MATHEMATICAL_FUNCTIONS =
     [(''root'', Lambda_root), (''abs'', Builtin_abs), (''exp'', Math_exp),
      (''ln'', Math_log), (''log'', Math_log),
      (''floor'', Math_floor), (''ceiling'', Math_ceil), (''factorial'', Math_factorial),
      (''sin'', Math_sin), (''cos'', Math_cos), (''tan'', Math_tan),
      (''sec'', Mpmath_sec), (''csc'', Mpmath_csc), (''cot'', Mpmath_cot),
      (''sinh'', Math_sinh), (''cosh'', Math_cosh), (''tanh'', Math_tanh),
      (''sech'', Mpmath_sech), (''csch'', Mpmath_csch), (''coth'', Mpmath_coth),
      (''arcsin'', Math_asin), (''arccos'', Math_acos), (''arctan'', Math_atan),
      (''arcsec'', Mpmath_asec), (''arccsc'', Mpmath_acsc), (''arccot'', Mpmath_acot),
      (''arcsinh'', Math_asinh), (''arccosh'', Math_acosh), (''arctanh'', Math_atanh),
      (''arcsech'', Mpmath_asech), (''arccsch'', Mpmath_acsch), (''arccoth'', Mpmath_acoth)]"

text \<open>
  Modelled from the spec: the evaluator (\<open>calc_data_generator_results\<close> of \<open>sedml/utils\<close>) is
  not among the sources. Evaluating a call \<open>name(args)\<close> of an expression looks the name up
  in the function table, an unknown name being an error, and applies the function bound
  to it.
\<close>

definition call_function ::
  "(pyfunction \<Rightarrow> 'v list \<Rightarrow> pyerror + 'v) \<Rightarrow> string \<Rightarrow> 'v list \<Rightarrow> pyerror + 'v" where
  "call_function lib name args =
     (case map_of MATHEMATICAL_FUNCTIONS name of
        None \<Rightarrow> Inl (ValueError (''unsupported function '' @ name))
      | Some f \<Rightarrow> lib f args)"


section \<open>Executing a SED document (sedml/exec.py)\<close>

subsection \<open>The store and the collaborators\<close>

text \<open>
  Result arrays are \<open>numpy\<close> arrays, of which the executor reads the shape only. The data
  frame of a report is built by \<open>pandas.DataFrame(numpy.array(results), index=labels)\<close>.
\<close>

datatype ndarray = NDArray (shape: "nat list") (elems: "real list")

datatype dataframe = DataFrame (df_data: "ndarray list") (df_index: "string option list")

datatype pywarning = IllogicalSedmlWarning string | SedmlFeatureNotSupportedWarning string

text \<open>
  The executor mutates objects through references, so documents and models live in a
  store; an address is a position in the store, and a new object is put at its end. The
  world also holds what the executor does to its surroundings: the files that exist, the
  calls of the task executer in the order they were made, the warnings issued and the
  reports handed to the report writer. Text printed to the standard output is left out.
\<close>

record 'md world =
  model_heap :: "Model list"
  doc_heap :: "(nat, 'md) SedDocument list"
  disk :: "string list"
  calls :: "(nat Task \<times> nat DataGeneratorVariable list) list"
  warnings :: "pywarning list"
  written :: "(dataframe \<times> string \<times> string option \<times> string) list"

text \<open>
  The collaborators that are imported from modules outside the sources, each with the
  outcome of a call: the document reader (a parsed document is a list of models and a
  document that refers to them by position), the configured default formats after their
  conversion to \<open>ReportFormat\<close> and \<open>PlotFormat\<close>, \<open>apply_changes_to_xml_model\<close>,
  \<open>get_variables_for_task\<close>, \<open>calc_data_generator_results\<close>, the construction of the data
  frame (\<open>None\<close> when it succeeds) and \<open>ReportWriter().run\<close>. An exception that a
  collaborator raises is given by its description, and passes through the executor as an
  \<open>ExternalError\<close>; the other exceptions are those of the statements of \<open>exec_doc\<close> itself.
\<close>

record 'md collaborators =
  reader :: "string \<Rightarrow> string + Model list \<times> (nat, 'md) SedDocument"
  default_report_formats :: "string + string list"
  default_plot_formats :: "string + string list"
  apply_changes_to_xml_model :: "ModelChange list \<Rightarrow> string \<Rightarrow> string \<Rightarrow> string option"
  get_variables_for_task :: "(nat, 'md) SedDocument \<Rightarrow> nat Task \<Rightarrow> nat DataGeneratorVariable list"
  calc_data_generator_results ::
    "nat DataGenerator \<Rightarrow> (string option \<rightharpoonup> ndarray) \<Rightarrow> string + ndarray"
  dataframe_error :: "ndarray list \<Rightarrow> string option list \<Rightarrow> string option"
  report_writer :: "dataframe \<Rightarrow> string \<Rightarrow> string option \<Rightarrow> string \<Rightarrow> string option"

text \<open>
  The task executer is an argument of \<open>exec_doc\<close>. It receives the task and the variables to
  record, reads the models through the store, and returns a mapping from variable ids to
  arrays or \<open>None\<close>, or raises.
\<close>

type_synonym task_results = "string option \<Rightarrow> ndarray option option"

type_synonym task_executer =
  "Model list \<Rightarrow> nat Task \<Rightarrow> nat DataGeneratorVariable list \<Rightarrow> string + task_results"

datatype doc_arg = Doc nat | Path string

subsection \<open>Strings, paths and files\<close>

text \<open>\<open>'{}'.format(x)\<close> of an id, which may be \<open>None\<close>.\<close>

definition py_format :: "string option \<Rightarrow> string" where
  "py_format x = (case x of None \<Rightarrow> ''None'' | Some s \<Rightarrow> s)"

text \<open>\<open>os.path.isabs\<close> and \<open>os.path.join\<close> on POSIX.\<close>

definition isabs :: "string \<Rightarrow> bool" where
  "isabs p = (case p of [] \<Rightarrow> False | c # _ \<Rightarrow> c = CHR ''/'')"

definition path_join :: "string \<Rightarrow> string \<Rightarrow> string" where
  "path_join a b =
     (if isabs b then b
      else if a = [] \<or> last a = CHR ''/'' then a @ b
      else a @ ''/'' @ b)"

text \<open>
  \<open>tempfile.mkstemp(suffix='.xml')\<close> creates a file under a name that no existing file
  has; which name is the system's choice. The model takes a name longer than every
  existing one.
\<close>

definition mkstemp :: "string list \<Rightarrow> string" where
  "mkstemp files = ''/tmp/tmp'' @ replicate (foldr max (map length files) 0) (CHR ''0'') @ ''.xml''"

definition os_remove :: "string \<Rightarrow> 'md world \<Rightarrow> 'md world \<times> (pyerror + unit)" where
  "os_remove name st =
     (if name \<in> set (disk st) then (st\<lparr>disk := removeAll name (disk st)\<rparr>, Inr ())
      else (st, Inl (FileNotFoundError name)))"

subsection \<open>Loading: the reader, or a deep copy\<close>

text \<open>The model references of a document, in the order in which a traversal meets them.\<close>

definition task_refs :: "'m Task \<Rightarrow> 'm list" where
  "task_refs t = (case task_model t of None \<Rightarrow> [] | Some a \<Rightarrow> [a])"

definition var_refs :: "'m DataGeneratorVariable \<Rightarrow> 'm list" where
  "var_refs v =
     (case var_task v of None \<Rightarrow> [] | Some t \<Rightarrow> task_refs t)
     @ (case var_model v of None \<Rightarrow> [] | Some a \<Rightarrow> [a])"

definition dg_refs :: "'m DataGenerator \<Rightarrow> 'm list" where
  "dg_refs g = concat (map var_refs (dg_variables g))"

definition opt_dg_refs :: "'m DataGenerator option \<Rightarrow> 'm list" where
  "opt_dg_refs g = (case g of None \<Rightarrow> [] | Some x \<Rightarrow> dg_refs x)"

fun output_refs :: "'m Output \<Rightarrow> 'm list" where
  "output_refs (Report i n ds) = concat (map (\<lambda>d. opt_dg_refs (ds_data_generator d)) ds)"
| "output_refs (Plot2D i n cs) =
     concat (map (\<lambda>c. opt_dg_refs (curve_x_data_generator c) @ opt_dg_refs (curve_y_data_generator c)) cs)"
| "output_refs (Plot3D i n ss) =
     concat (map (\<lambda>s. opt_dg_refs (surf_x_data_generator s) @ opt_dg_refs (surf_y_data_generator s)
                     @ opt_dg_refs (surf_z_data_generator s)) ss)"

definition doc_refs :: "('m, 'md) SedDocument \<Rightarrow> 'm list" where
  "doc_refs d =
     models d @ concat (map task_refs (tasks d)) @ concat (map dg_refs (data_generators d))
     @ concat (map output_refs (outputs d))"

fun index_of :: "'a list \<Rightarrow> 'a \<Rightarrow> nat" where
  "index_of [] a = 0"
| "index_of (x # xs) a = (if x = a then 0 else Suc (index_of xs a))"

text \<open>
  A document that comes with its own list of models is put into the store: the models at
  the end of the model store, the document, with its references moved accordingly, at
  the end of the document store. The result is the address of the document.
\<close>

definition allocate :: "Model list \<times> (nat, 'md) SedDocument \<Rightarrow> 'md world \<Rightarrow> 'md world \<times> nat" where
  "allocate parsed st =
     (let base = length (model_heap st) in
      (st\<lparr>model_heap := model_heap st @ fst parsed,
          doc_heap := doc_heap st @ [map_SedDocument (\<lambda>i. base + i) (\<lambda>m. m) (snd parsed)]\<rparr>,
       length (doc_heap st)))"

text \<open>
  \<open>copy.deepcopy(doc)\<close> copies the document and every object reachable from it, each once,
  so that the copy shares nothing with the original and keeps its internal sharing. An
  address outside the store does not occur in Python; the model answers it with an
  \<open>AttributeError\<close>.
\<close>

definition deepcopy :: "nat \<Rightarrow> 'md world \<Rightarrow> 'md world \<times> (pyerror + nat)" where
  "deepcopy d st =
     (if d < length (doc_heap st) then
        (let doc = doc_heap st ! d; reach = remdups (doc_refs doc) in
         if \<forall>a \<in> set reach. a < length (model_heap st) then
           (let (st', d') = allocate (map (\<lambda>a. model_heap st ! a) reach,
                                      map_SedDocument (index_of reach) (\<lambda>m. m) doc) st
            in (st', Inr d'))
         else (st, Inl AttributeError))
      else (st, Inl AttributeError))"

definition load_doc :: "'md collaborators \<Rightarrow> doc_arg \<Rightarrow> 'md world \<Rightarrow> 'md world \<times> (pyerror + nat)" where
  "load_doc env doc st =
     (case doc of
        Path p \<Rightarrow>
          (case reader env p of
             Inl e \<Rightarrow> (st, Inl (ExternalError e))
           | Inr parsed \<Rightarrow> (let (st', d') = allocate parsed st in (st', Inr d')))
      | Doc d \<Rightarrow> deepcopy d st)"

text \<open>The document that \<open>exec_doc\<close> is given: the one at the address, or the one that the reader parses.\<close>

definition input_document ::
  "'md collaborators \<Rightarrow> doc_arg \<Rightarrow> 'md world \<Rightarrow> (nat, 'md) SedDocument option" where
  "input_document env doc st =
     (case doc of
        Path p \<Rightarrow> (case reader env p of Inl e \<Rightarrow> None | Inr parsed \<Rightarrow> Some (snd parsed))
      | Doc d \<Rightarrow> if d < length (doc_heap st) then Some (doc_heap st ! d) else None)"

subsection \<open>Applying the changes of the models\<close>

definition set_source :: "string \<Rightarrow> Model \<Rightarrow> Model" where
  "set_source s m = Model (model_id m) (model_name m) (Some s) (model_language m) (model_changes m)"

text \<open>
  The loop over \<open>doc.models\<close>. \<open>os.path.isabs(None)\<close> is a \<open>TypeError\<close>. The temporary file
  exists from \<open>mkstemp\<close> on, whatever \<open>apply_changes_to_xml_model\<close> does afterwards.
\<close>

fun apply_model_changes ::
  "'md collaborators \<Rightarrow> string \<Rightarrow> bool \<Rightarrow> nat list \<Rightarrow> string list \<Rightarrow> 'md world
   \<Rightarrow> 'md world \<times> (pyerror + string list)" where
  "apply_model_changes env working_dir apply_xml_model_changes [] modified_model_filenames st =
     (st, Inr modified_model_filenames)"
| "apply_model_changes env working_dir apply_xml_model_changes (a # rest) modified_model_filenames st =
     (if \<not> a < length (model_heap st) then (st, Inl AttributeError)
      else
        (let model = model_heap st ! a in
         case model_source model of
           None \<Rightarrow> (st, Inl TypeError)
         | Some source \<Rightarrow>
             (let source1 = (if \<not> isabs source then path_join working_dir source else source);
                  st1 = st\<lparr>model_heap := (model_heap st)[a := set_source source1 model]\<rparr>
              in
                if apply_xml_model_changes \<and> model_changes model \<noteq> [] then
                  (let modified_model_filename = mkstemp (disk st1);
                       st2 = st1\<lparr>disk := disk st1 @ [modified_model_filename]\<rparr>
                   in
                     case apply_changes_to_xml_model env (model_changes model) source1
                            modified_model_filename of
                       Some e \<Rightarrow> (st2, Inl (ExternalError e))
                     | None \<Rightarrow>
                         apply_model_changes env working_dir apply_xml_model_changes rest
                           (modified_model_filenames @ [modified_model_filename])
                           (st2\<lparr>model_heap :=
                                  (model_heap st2)[a := set_source modified_model_filename model]\<rparr>))
                else
                  apply_model_changes env working_dir apply_xml_model_changes rest
                    modified_model_filenames st1)))"

subsection \<open>Executing the tasks\<close>

text \<open>
  \<open>doc.tasks.sort(key=lambda task: task.id)\<close>, followed by the status message that joins the
  ids of the tasks. Comparing \<open>None\<close> with another id is a \<open>TypeError\<close> of the sort, and
  joining a \<open>None\<close> is a \<open>TypeError\<close> of the message, so a task without an id ends the
  execution here. Python's sort is stable, and so is \<open>sort_key\<close>.
\<close>

definition task_key :: "'m Task \<Rightarrow> string" where
  "task_key t = (case task_id t of None \<Rightarrow> [] | Some s \<Rightarrow> s)"

definition sort_tasks :: "'m Task list \<Rightarrow> pyerror + 'm Task list" where
  "sort_tasks ts =
     (if \<exists>t \<in> set ts. task_id t = None then Inl TypeError else Inr (sort_key task_key ts))"

definition set_tasks :: "'m Task list \<Rightarrow> ('m, 'md) SedDocument \<Rightarrow> ('m, 'md) SedDocument" where
  "set_tasks ts d =
     SedDocument (level d) (version d) (models d) (simulations d) ts (data_generators d)
       (outputs d) (metadata d)"

definition missing_variable_message :: "string option \<Rightarrow> string option \<Rightarrow> string" where
  "missing_variable_message var task =
     ''Variable '' @ py_format var @ '' must be generated for task '' @ py_format task"

text \<open>
  The loop over the variables of a task: \<open>task_variable_results.get(var.id, None)\<close> is
  stored, and a \<open>None\<close> raises.
\<close>

fun record_variables ::
  "'m Task \<Rightarrow> 'm DataGeneratorVariable list \<Rightarrow> task_results \<Rightarrow> (string option \<rightharpoonup> ndarray)
   \<Rightarrow> pyerror + (string option \<rightharpoonup> ndarray)" where
  "record_variables task [] task_variable_results variable_results = Inr variable_results"
| "record_variables task (var # rest) task_variable_results variable_results =
     (case task_variable_results (var_id var) of
        Some (Some result) \<Rightarrow>
          record_variables task rest task_variable_results (variable_results(var_id var \<mapsto> result))
      | _ \<Rightarrow> Inl (ValueError (missing_variable_message (var_id var) (task_id task))))"

text \<open>
  The loop over the sorted tasks. Every element of \<open>doc.tasks\<close> is a \<open>Task\<close>, the only class
  of tasks that the data model has, so the branch for other tasks is not taken.
\<close>

fun exec_tasks ::
  "'md collaborators \<Rightarrow> task_executer \<Rightarrow> (nat, 'md) SedDocument \<Rightarrow> nat Task list
   \<Rightarrow> (string option \<rightharpoonup> ndarray) \<Rightarrow> 'md world
   \<Rightarrow> 'md world \<times> (pyerror + (string option \<rightharpoonup> ndarray))" where
  "exec_tasks env task_executer doc [] variable_results st = (st, Inr variable_results)"
| "exec_tasks env task_executer doc (task # rest) variable_results st =
     (let task_vars = get_variables_for_task env doc task;
          st1 = st\<lparr>calls := calls st @ [(task, task_vars)]\<rparr>
      in
        case task_executer (model_heap st) task task_vars of
          Inl e \<Rightarrow> (st1, Inl (ExternalError e))
        | Inr task_variable_results \<Rightarrow>
            (case record_variables task task_vars task_variable_results variable_results of
               Inl e \<Rightarrow> (st1, Inl e)
             | Inr variable_results' \<Rightarrow>
                 exec_tasks env task_executer doc rest variable_results' st1))"

subsection \<open>Data generators and outputs\<close>

fun calc_data_generators ::
  "'md collaborators \<Rightarrow> nat DataGenerator list \<Rightarrow> (string option \<rightharpoonup> ndarray)
   \<Rightarrow> (string option \<rightharpoonup> ndarray) \<Rightarrow> pyerror + (string option \<rightharpoonup> ndarray)" where
  "calc_data_generators env [] variable_results data_gen_results = Inr data_gen_results"
| "calc_data_generators env (data_gen # rest) variable_results data_gen_results =
     (case calc_data_generator_results env data_gen variable_results of
        Inl e \<Rightarrow> Inl (ExternalError e)
      | Inr result \<Rightarrow>
          calc_data_generators env rest variable_results (data_gen_results(dg_id data_gen \<mapsto> result)))"

text \<open>
  The loop over the data sets of a report collects the labels and the results; the set of
  shapes is the set of the shapes of the results. A data set without a data generator is
  an \<open>AttributeError\<close>, a data generator without a result a \<open>KeyError\<close>.
\<close>

fun collect_data_sets ::
  "(string option \<rightharpoonup> ndarray) \<Rightarrow> 'm DataSet list \<Rightarrow> pyerror + (string option list \<times> ndarray list)" where
  "collect_data_sets data_gen_results [] = Inr ([], [])"
| "collect_data_sets data_gen_results (data_set # rest) =
     (case ds_data_generator data_set of
        None \<Rightarrow> Inl AttributeError
      | Some data_gen \<Rightarrow>
          (case data_gen_results (dg_id data_gen) of
             None \<Rightarrow> Inl KeyError
           | Some data_gen_res \<Rightarrow>
               (case collect_data_sets data_gen_results rest of
                  Inl e \<Rightarrow> Inl e
                | Inr (dataset_labels, dataset_results) \<Rightarrow>
                    Inr (ds_label data_set # dataset_labels, data_gen_res # dataset_results))))"

definition inconsistent_shapes_message :: "string option \<Rightarrow> string" where
  "inconsistent_shapes_message report =
     ''Data generators for report '' @ py_format report @ '' must have consistent shapes''"

definition output_skipped_message :: "string option \<Rightarrow> string \<Rightarrow> string" where
  "output_skipped_message output class =
     ''Output '' @ py_format output @ '' skipped because outputs of type '' @ class
       @ '' are not yet supported''"

text \<open>
  The loop over the report formats:
  \<open>os.path.join(rel_out_path, output.id) if rel_out_path else output.id\<close>, where joining a
  \<open>None\<close> is a \<open>TypeError\<close>, and the run of the report writer.
\<close>

definition report_path :: "string option \<Rightarrow> string option \<Rightarrow> pyerror + string option" where
  "report_path rel_out_path output =
     (case rel_out_path of
        None \<Rightarrow> Inr output
      | Some rel \<Rightarrow>
          if rel = [] then Inr output
          else (case output of None \<Rightarrow> Inl TypeError | Some i \<Rightarrow> Inr (Some (path_join rel i))))"

fun write_report ::
  "'md collaborators \<Rightarrow> dataframe \<Rightarrow> string \<Rightarrow> string option \<Rightarrow> string option \<Rightarrow> string list
   \<Rightarrow> 'md world \<Rightarrow> 'md world \<times> (pyerror + unit)" where
  "write_report env output_df base_out_path rel_out_path output [] st = (st, Inr ())"
| "write_report env output_df base_out_path rel_out_path output (report_format # rest) st =
     (case report_path rel_out_path output of
        Inl e \<Rightarrow> (st, Inl e)
      | Inr path \<Rightarrow>
          (case report_writer env output_df base_out_path path report_format of
             Some e \<Rightarrow> (st, Inl (ExternalError e))
           | None \<Rightarrow>
               write_report env output_df base_out_path rel_out_path output rest
                 (st\<lparr>written := written st @ [(output_df, base_out_path, path, report_format)]\<rparr>)))"

text \<open>
  One output. A report raises when its results have more than one shape, warns when two
  data sets share a label, and is then built, stored and written; a plot is skipped with
  a warning. The classes of outputs are the three of the data model, so the branch for
  other outputs is not taken.
\<close>

fun exec_output ::
  "'md collaborators \<Rightarrow> (string option \<rightharpoonup> ndarray) \<Rightarrow> string \<Rightarrow> string option \<Rightarrow> string list
   \<Rightarrow> nat Output \<Rightarrow> (string option \<rightharpoonup> dataframe) \<Rightarrow> 'md world
   \<Rightarrow> 'md world \<times> (pyerror + (string option \<rightharpoonup> dataframe))" where
  "exec_output env data_gen_results base_out_path rel_out_path report_formats (Report i n dss)
     report_results st =
     (case collect_data_sets data_gen_results dss of
        Inl e \<Rightarrow> (st, Inl e)
      | Inr (dataset_labels, dataset_results) \<Rightarrow>
          if card (set (map shape dataset_results)) > 1 then
            (st, Inl (ValueError (inconsistent_shapes_message i)))
          else
            (let st1 =
               (if card (set dataset_labels) < length dataset_labels then
                  st\<lparr>warnings := warnings st @
                    [IllogicalSedmlWarning
                       ''To facilitate machine interpretation, data sets should have unique ids'']\<rparr>
                else st)
             in
               case dataframe_error env dataset_results dataset_labels of
                 Some e \<Rightarrow> (st1, Inl (ExternalError e))
               | None \<Rightarrow>
                   (let output_df = DataFrame dataset_results dataset_labels in
                    case write_report env output_df base_out_path rel_out_path i report_formats st1 of
                      (st2, Inl e) \<Rightarrow> (st2, Inl e)
                    | (st2, Inr u) \<Rightarrow> (st2, Inr (report_results(i \<mapsto> output_df))))))"
| "exec_output env data_gen_results base_out_path rel_out_path report_formats (Plot2D i n cs)
     report_results st =
     (st\<lparr>warnings := warnings st @
          [SedmlFeatureNotSupportedWarning (output_skipped_message i ''Plot2D'')]\<rparr>,
      Inr report_results)"
| "exec_output env data_gen_results base_out_path rel_out_path report_formats (Plot3D i n ss)
     report_results st =
     (st\<lparr>warnings := warnings st @
          [SedmlFeatureNotSupportedWarning (output_skipped_message i ''Plot3D'')]\<rparr>,
      Inr report_results)"

fun exec_outputs ::
  "'md collaborators \<Rightarrow> (string option \<rightharpoonup> ndarray) \<Rightarrow> string \<Rightarrow> string option \<Rightarrow> string list
   \<Rightarrow> nat Output list \<Rightarrow> (string option \<rightharpoonup> dataframe) \<Rightarrow> 'md world
   \<Rightarrow> 'md world \<times> (pyerror + (string option \<rightharpoonup> dataframe))" where
  "exec_outputs env data_gen_results base_out_path rel_out_path report_formats [] report_results st =
     (st, Inr report_results)"
| "exec_outputs env data_gen_results base_out_path rel_out_path report_formats (output # rest)
     report_results st =
     (case exec_output env data_gen_results base_out_path rel_out_path report_formats output
             report_results st of
        (st1, Inl e) \<Rightarrow> (st1, Inl e)
      | (st1, Inr report_results') \<Rightarrow>
          exec_outputs env data_gen_results base_out_path rel_out_path report_formats rest
            report_results' st1)"

subsection \<open>Cleaning up, and the executor\<close>

fun cleanup :: "string list \<Rightarrow> 'md world \<Rightarrow> 'md world \<times> (pyerror + unit)" where
  "cleanup [] st = (st, Inr ())"
| "cleanup (modified_model_filename # rest) st =
     (case os_remove modified_model_filename st of
        (st1, Inl e) \<Rightarrow> (st1, Inl e)
      | (st1, Inr u) \<Rightarrow> cleanup rest st1)"

text \<open>
  The sort of the tasks and the loop over them, on the document at address \<open>d\<close> of the
  store.
\<close>

definition run_tasks ::
  "'md collaborators \<Rightarrow> task_executer \<Rightarrow> nat \<Rightarrow> 'md world
   \<Rightarrow> 'md world \<times> (pyerror + (string option \<rightharpoonup> ndarray))" where
  "run_tasks env task_executer d st =
     (case sort_tasks (tasks (doc_heap st ! d)) of
        Inl e \<Rightarrow> (st, Inl e)
      | Inr sorted_tasks \<Rightarrow>
          (let st1 = st\<lparr>doc_heap := (doc_heap st)[d := set_tasks sorted_tasks (doc_heap st ! d)]\<rparr>
           in exec_tasks env task_executer (doc_heap st1 ! d) sorted_tasks Map.empty st1))"

text \<open>
  The statements of \<open>exec_doc\<close> before the loop over the outputs: the arguments (the
  document, the formats), the changes of the models, the tasks and the data generators.
  They give the address of the document, the report formats, the names of the temporary
  files, the results of the variables and the results of the data generators.
\<close>

definition run_until_outputs ::
  "'md collaborators \<Rightarrow> doc_arg \<Rightarrow> string \<Rightarrow> task_executer \<Rightarrow> bool
   \<Rightarrow> string list option \<Rightarrow> string list option \<Rightarrow> 'md world
   \<Rightarrow> 'md world \<times> (pyerror + nat \<times> string list \<times> string list
        \<times> (string option \<rightharpoonup> ndarray) \<times> (string option \<rightharpoonup> ndarray))" where
  "run_until_outputs env doc working_dir task_executer apply_xml_model_changes
     report_formats plot_formats st =
     (case load_doc env doc st of
        (st0, Inl e) \<Rightarrow> (st0, Inl e)
      | (st0, Inr d) \<Rightarrow>
     (case (case report_formats of None \<Rightarrow> default_report_formats env | Some fs \<Rightarrow> Inr fs) of
        Inl e \<Rightarrow> (st0, Inl (ExternalError e))
      | Inr report_formats' \<Rightarrow>
     (case (case plot_formats of None \<Rightarrow> default_plot_formats env | Some fs \<Rightarrow> Inr fs) of
        Inl e \<Rightarrow> (st0, Inl (ExternalError e))
      | Inr plot_formats' \<Rightarrow>
     (case apply_model_changes env working_dir apply_xml_model_changes
             (models (doc_heap st0 ! d)) [] st0 of
        (st1, Inl e) \<Rightarrow> (st1, Inl e)
      | (st1, Inr modified_model_filenames) \<Rightarrow>
     (case run_tasks env task_executer d st1 of
        (st2, Inl e) \<Rightarrow> (st2, Inl e)
      | (st2, Inr variable_results) \<Rightarrow>
     (case calc_data_generators env (data_generators (doc_heap st2 ! d)) variable_results
             Map.empty of
        Inl e \<Rightarrow> (st2, Inl e)
      | Inr data_gen_results \<Rightarrow>
          (st2, Inr (d, report_formats', modified_model_filenames, variable_results,
                     data_gen_results))))))))"

text \<open>
  \<open>exec_doc\<close>. An exception ends the execution where it is raised: the world is the one of
  that moment, and nothing after it is run.
\<close>

definition exec_doc ::
  "'md collaborators \<Rightarrow> doc_arg \<Rightarrow> string \<Rightarrow> task_executer \<Rightarrow> string \<Rightarrow> string option \<Rightarrow> bool
   \<Rightarrow> string list option \<Rightarrow> string list option \<Rightarrow> 'md world
   \<Rightarrow> 'md world \<times> (pyerror + (string option \<rightharpoonup> dataframe) \<times> (string option \<rightharpoonup> ndarray))" where
  "exec_doc env doc working_dir task_executer base_out_path rel_out_path apply_xml_model_changes
     report_formats plot_formats st =
     (case run_until_outputs env doc working_dir task_executer apply_xml_model_changes
             report_formats plot_formats st of
        (st2, Inl e) \<Rightarrow> (st2, Inl e)
      | (st2, Inr (d, report_formats', modified_model_filenames, variable_results,
                   data_gen_results)) \<Rightarrow>
     (case exec_outputs env data_gen_results base_out_path rel_out_path report_formats'
             (outputs (doc_heap st2 ! d)) Map.empty st2 of
        (st3, Inl e) \<Rightarrow> (st3, Inl e)
      | (st3, Inr report_results) \<Rightarrow>
     (case cleanup modified_model_filenames st3 of
        (st4, Inl e) \<Rightarrow> (st4, Inl e)
      | (st4, Inr u) \<Rightarrow> (st4, Inr (report_results, variable_results)))))"

section \<open>A sample document\<close>

text \<open>
  A document with one model that has a change, two tasks declared as \<open>b\<close>, \<open>a\<close>, one data
  generator for each task, a plot and a report whose two data sets share a label; a world
  that holds it; collaborators that succeed; and task executers that return a result for
  every variable, no result at all, and results of different shapes for the two tasks.
\<close>

definition example_model :: Model where
  "example_model = Model (Some ''model'') None (Some ''model.xml'') None
     [ModelAttributeChange_init (Some ''/sbml:k'') (Some ''2.0'')]"

definition example_task_a :: "nat Task" where
  "example_task_a = Task (Some ''a'') None (Some 0) None"

definition example_task_b :: "nat Task" where
  "example_task_b = Task (Some ''b'') None (Some 0) None"

definition example_data_generator :: "string \<Rightarrow> nat Task \<Rightarrow> nat DataGenerator" where
  "example_data_generator v t =
     DataGenerator (Some (''dg_'' @ v)) None
       [DataGeneratorVariable (Some v) None (Some (''/sbml:'' @ v)) None (Some t) (Some 0)] []
       (Some v)"

definition example_doc :: "(nat, unit) SedDocument" where
  "example_doc = SedDocument 1 3 [0] [] [example_task_b, example_task_a]
     [example_data_generator ''x'' example_task_a, example_data_generator ''y'' example_task_b]
     [Plot2D (Some ''plot'') None [],
      Report (Some ''report'') None
        [DataSet (Some ''ds1'') None (Some ''label'') (Some (example_data_generator ''x'' example_task_a)),
         DataSet (Some ''ds2'') None (Some ''label'') (Some (example_data_generator ''y'' example_task_b))]]
     None"

definition example_world :: "unit world" where
  "example_world = \<lparr>model_heap = [example_model], doc_heap = [example_doc], disk = [],
     calls = [], warnings = [], written = []\<rparr>"

definition example_env :: "unit collaborators" where
  "example_env = \<lparr>
     reader = (\<lambda>p. Inl ''not a SED-ML file''),
     default_report_formats = Inr [''csv'', ''h5''],
     default_plot_formats = Inr [''pdf''],
     apply_changes_to_xml_model = (\<lambda>changes source dest. None),
     get_variables_for_task =
       (\<lambda>doc task. filter (\<lambda>v. var_task v = Some task) (concat (map dg_variables (data_generators doc)))),
     calc_data_generator_results =
       (\<lambda>data_gen results.
          case dg_variables data_gen of
            [v] \<Rightarrow> (case results (var_id v) of None \<Rightarrow> Inl ''undefined variable'' | Some a \<Rightarrow> Inr a)
          | _ \<Rightarrow> Inl ''unsupported expression''),
     dataframe_error = (\<lambda>results labels. None),
     report_writer = (\<lambda>df base path fmt. None)\<rparr>"

definition example_executer :: task_executer where
  "example_executer heap task vars =
     Inr (map_of (map (\<lambda>v. (var_id v, Some (NDArray [3] [0, 1, 2]))) vars))"

definition example_executer_empty :: task_executer where
  "example_executer_empty heap task vars = Inr (\<lambda>i. None)"

definition example_executer_ragged :: task_executer where
  "example_executer_ragged heap task vars =
     Inr (map_of (map (\<lambda>v. (var_id v,
            Some (if task_id task = Some ''a'' then NDArray [3] [0, 1, 2]
                  else NDArray [4] [0, 1, 2, 3]))) vars))"

section \<open>The order of projections\<close>

lemma ser_tag: "\<exists>k v rest. ser a = (k, v) # rest \<and> k \<noteq> 0"
  by (cases a rule: ser.cases) auto

lemma str_tokens_inj:
  "map (\<lambda>c. (9::nat, real (of_char c :: nat))) s @ (0, 0) # r
     = map (\<lambda>c. (9, real (of_char c :: nat))) s' @ (0, 0) # r'
   \<Longrightarrow> s = s' \<and> r = r'"
proof (induction s arbitrary: s')
  case Nil
  then show ?case by (cases s') auto
next
  case (Cons c s)
  then show ?case by (cases s') auto
qed

lemma ser_items_prefix_free:
  assumes IH: "\<And>x b r r'. x \<in> set xs \<Longrightarrow> ser x @ r = ser b @ r' \<Longrightarrow> x = b \<and> r = r'"
  shows "concat (map ser xs) @ (0, 0) # r = concat (map ser ys) @ (0, 0) # r' \<Longrightarrow> xs = ys \<and> r = r'"
  using IH
proof (induction xs arbitrary: ys)
  case Nil
  show ?case
  proof (cases ys)
    case Nil with Nil.prems show ?thesis by simp
  next
    case (Cons y ys')
    obtain k v rest where "ser y = (k, v) # rest" "k \<noteq> 0" using ser_tag by blast
    with Cons Nil.prems show ?thesis by auto
  qed
next
  case (Cons x xs)
  show ?case
  proof (cases ys)
    case Nil
    obtain k v rest where "ser x = (k, v) # rest" "k \<noteq> 0" using ser_tag by blast
    with Nil Cons.prems show ?thesis by auto
  next
    case (Cons y ys')
    from Cons.prems(1) Cons
    have "ser x @ (concat (map ser xs) @ (0, 0) # r) = ser y @ (concat (map ser ys') @ (0, 0) # r')"
      by simp
    with Cons.prems(2)[of x] have xy: "x = y"
      and rest: "concat (map ser xs) @ (0, 0) # r = concat (map ser ys') @ (0, 0) # r'"
      by auto
    from Cons.IH[OF rest] Cons.prems(2) have "xs = ys' \<and> r = r'" by auto
    with xy Cons show ?thesis by simp
  qed
qed

lemma ser_prefix_free: "ser a @ r = ser b @ r' \<Longrightarrow> a = b \<and> r = r'"
proof (induction a arbitrary: b r r')
  case PNone then show ?case by (cases b rule: ser.cases) auto
next
  case (PBool x) then show ?case by (cases b rule: ser.cases) (auto split: if_splits)
next
  case (PInt x) then show ?case by (cases b rule: ser.cases) auto
next
  case (PFloat x) then show ?case by (cases b rule: ser.cases; cases x) auto
next
  case (PStr x)
  then show ?case by (cases b rule: ser.cases) (auto dest: str_tokens_inj)
next
  case (PDateTime x) then show ?case by (cases b rule: ser.cases) auto
next
  case (PTuple xs)
  show ?case
  proof (cases b rule: ser.cases)
    case (10 ys)
    with PTuple.prems have "concat (map ser xs) @ (0, 0) # r = concat (map ser ys) @ (0, 0) # r'"
      by simp
    from ser_items_prefix_free[OF _ this] PTuple.IH have "xs = ys \<and> r = r'" by blast
    with 10 show ?thesis by simp
  qed (use PTuple.prems in auto)
qed

lemma inj_ser: "inj ser"
  by (rule injI) (use ser_prefix_free[of _ "[]" _ "[]"] in auto)

lemma mset_none_sorted: "mset (none_sorted xs) = mset xs"
  by (simp add: none_sorted_def)

lemma sort_key_ser_mset: "mset xs = mset ys \<Longrightarrow> sort_key ser xs = sort_key ser ys"
proof (rule sort_key_inj_key_eq)
  assume eq: "mset xs = mset ys"
  show "mset xs = mset (sort_key ser ys)" using eq by simp
  show "inj_on ser (set xs)" using inj_ser by (rule inj_on_subset) simp
  show "sorted (map ser (sort_key ser ys))" by simp
qed

lemma none_sorted_eq_iff: "none_sorted xs = none_sorted ys \<longleftrightarrow> mset xs = mset ys"
  by (metis mset_none_sorted none_sorted_def sort_key_ser_mset)


subsection \<open>Lists compared as multisets\<close>

lemma remove_first_None: "remove_first p ys = None \<longleftrightarrow> (\<forall>y \<in> set ys. \<not> p y)"
  by (induction ys) auto

lemma remove_first_Some:
  "remove_first p ys = Some ys' \<Longrightarrow> \<exists>y. p y \<and> y \<in> set ys \<and> mset ys = add_mset y (mset ys')"
proof (induction ys arbitrary: ys')
  case Nil then show ?case by simp
next
  case (Cons a ys)
  show ?case
  proof (cases "p a")
    case True with Cons.prems show ?thesis by auto
  next
    case False
    with Cons.prems obtain zs where zs: "remove_first p ys = Some zs" "ys' = a # zs" by auto
    from Cons.IH[OF zs(1)] zs(2) show ?thesis by auto
  qed
qed

lemma are_lists_equal_mset:
  assumes "\<And>x y. x \<in> set xs \<Longrightarrow> y \<in> set ys \<Longrightarrow> eq x y \<longleftrightarrow> f x = g y"
  shows "are_lists_equal eq xs ys \<longleftrightarrow> mset (map f xs) = mset (map g ys)"
  using assms
proof (induction xs arbitrary: ys)
  case Nil
  then show ?case by auto
next
  case (Cons x xs)
  show ?case
  proof (cases "remove_first (eq x) ys")
    case None
    then have no: "\<forall>y \<in> set ys. \<not> eq x y" by (simp add: remove_first_None)
    have "f x \<notin> set (map g ys)"
    proof
      assume "f x \<in> set (map g ys)"
      then obtain y where "y \<in> set ys" "f x = g y" by auto
      with Cons.prems[of x y] no show False by auto
    qed
    then have "mset (map f (x # xs)) \<noteq> mset (map g ys)"
      by (metis list.set_intros(1) list.simps(9) mset_eq_setD)
    with None show ?thesis by simp
  next
    case (Some ys')
    from remove_first_Some[OF Some] obtain y where
      y: "eq x y" "y \<in> set ys" "mset ys = add_mset y (mset ys')" by blast
    then have fxy: "f x = g y" using Cons.prems[of x y] by simp
    have sub: "set ys' \<subseteq> set ys" using y(3) by (metis mset_eq_setD set_subset_Cons list.simps(15) set_mset_mset set_mset_add_mset_insert subset_insertI)
    have IH: "are_lists_equal eq xs ys' \<longleftrightarrow> mset (map f xs) = mset (map g ys')"
      by (rule Cons.IH) (use Cons.prems sub in auto)
    have "mset (map g ys) = add_mset (g y) (mset (map g ys'))"
      using y(3) by (metis image_mset_add_mset mset_map)
    with Some IH fxy show ?thesis by simp
  qed
qed

section \<open>Structural equality and the tuple projection, class by class\<close>

lemma pstr_eq_iff: "pstr a = pstr b \<longleftrightarrow> a = b"
  by (auto simp: pstr_def split: option.splits)

lemma pfloat_eq_iff: "pfloat a = pfloat b \<longleftrightarrow> a = b"
  by (auto simp: pfloat_def split: option.splits)

lemma pint_eq_iff: "pint a = pint b \<longleftrightarrow> a = b"
  by (auto simp: pint_def split: option.splits)

lemma pdatetime_eq_iff: "pdatetime a = pdatetime b \<longleftrightarrow> a = b"
  by (auto simp: pdatetime_def split: option.splits)

lemma axis_value_eq_iff: "axis_value a = axis_value b \<longleftrightarrow> a = b"
  by (cases a; cases b) (simp_all add: axis_value_def)

lemma pscale_eq_iff: "pscale a = pscale b \<longleftrightarrow> a = b"
  by (auto simp: pscale_def axis_value_eq_iff split: option.splits)

lemmas pval_eq_iffs = pstr_eq_iff pfloat_eq_iff pint_eq_iff pdatetime_eq_iff pscale_eq_iff

lemma attr_float_eq_imp: "attr_float_eq a b \<Longrightarrow> a = b"
  by (auto simp: attr_float_eq_def float_eq_def split: option.splits pyfloat.splits)

lemma attr_float_eq_plain: "plain_float a \<Longrightarrow> attr_float_eq a b \<longleftrightarrow> a = b"
  by (auto simp: attr_float_eq_def float_eq_def plain_float_def split: option.splits pyfloat.splits)

lemma opt_is_equal_iff:
  assumes "\<And>x y. eq x y \<longleftrightarrow> f x = f y" and "\<And>x. f x \<noteq> PNone"
  shows "opt_is_equal eq a b \<longleftrightarrow> opt_tuple f a = opt_tuple f b"
  using assms by (auto simp: opt_is_equal_def opt_tuple_def split: option.splits) metis+

lemma opt_is_equal_imp:
  assumes "\<And>x y. eq x y \<Longrightarrow> f x = f y" and "opt_is_equal eq a b"
  shows "opt_tuple f a = opt_tuple f b"
  using assms by (auto simp: opt_is_equal_def opt_tuple_def split: option.splits)

lemma opt_is_equal_plain:
  assumes "\<And>x y. p x \<Longrightarrow> p y \<Longrightarrow> eq x y \<longleftrightarrow> f x = f y" and "\<And>x. f x \<noteq> PNone"
    and "plain_opt p a" and "plain_opt p b"
  shows "opt_is_equal eq a b \<longleftrightarrow> opt_tuple f a = opt_tuple f b"
proof (cases a)
  case None
  with assms(2) show ?thesis
    by (cases b) (auto simp: opt_is_equal_def opt_tuple_def dest: sym)
next
  case (Some x)
  show ?thesis
  proof (cases b)
    case None
    with Some assms(2) show ?thesis by (simp add: opt_is_equal_def opt_tuple_def)
  next
    case (Some y)
    with \<open>a = Some x\<close> assms(1)[of x y] assms(3,4) show ?thesis
      by (simp add: opt_is_equal_def opt_tuple_def plain_opt_def)
  qed
qed

lemma are_lists_equal_imp_mset:
  assumes "are_lists_equal eq xs ys"
    and "\<And>x y. x \<in> set xs \<Longrightarrow> y \<in> set ys \<Longrightarrow> eq x y \<Longrightarrow> h x = h y"
  shows "mset (map h xs) = mset (map h ys)"
  using assms
proof (induction xs arbitrary: ys)
  case Nil
  then show ?case by simp
next
  case (Cons x xs)
  from Cons.prems(1) obtain ys' where ys': "remove_first (eq x) ys = Some ys'"
    and rest: "are_lists_equal eq xs ys'"
    by (auto split: option.splits)
  from remove_first_Some[OF ys'] obtain y where
    y: "eq x y" "y \<in> set ys" "mset ys = add_mset y (mset ys')" by blast
  have sub: "set ys' \<subseteq> set ys"
  proof
    fix z assume "z \<in> set ys'"
    then have "z \<in># add_mset y (mset ys')" by simp
    then show "z \<in> set ys" using y(3) by (metis set_mset_mset)
  qed
  have "mset (map h xs) = mset (map h ys')"
    by (rule Cons.IH[OF rest]) (use Cons.prems(2) sub in auto)
  moreover have "h x = h y" using Cons.prems(2)[of x y] y by simp
  moreover have "mset (map h ys) = add_mset (h y) (mset (map h ys'))"
    using y(3) by (metis image_mset_add_mset mset_map)
  ultimately show ?case by simp
qed

lemma are_lists_equal_iff:
  assumes "\<And>x y. eq x y \<longleftrightarrow> f x = f y"
  shows "are_lists_equal eq xs ys \<longleftrightarrow> none_sorted (map f xs) = none_sorted (map f ys)"
  using are_lists_equal_mset[of xs ys eq f f] assms by (simp add: none_sorted_eq_iff)

lemma are_lists_equal_imp:
  assumes "\<And>x y. eq x y \<Longrightarrow> f x = f y" and "are_lists_equal eq xs ys"
  shows "none_sorted (map f xs) = none_sorted (map f ys)"
proof -
  have "mset (map f xs) = mset (map f ys)"
    by (rule are_lists_equal_imp_mset[OF assms(2)]) (rule assms(1))
  then show ?thesis by (simp add: none_sorted_eq_iff)
qed

lemma are_lists_equal_plain:
  assumes "\<And>x y. p x \<Longrightarrow> p y \<Longrightarrow> eq x y \<longleftrightarrow> f x = f y"
    and "list_all p xs" and "list_all p ys"
  shows "are_lists_equal eq xs ys \<longleftrightarrow> none_sorted (map f xs) = none_sorted (map f ys)"
proof -
  have "are_lists_equal eq xs ys \<longleftrightarrow> mset (map f xs) = mset (map f ys)"
    by (rule are_lists_equal_mset) (use assms in \<open>auto simp: list_all_iff\<close>)
  then show ?thesis by (simp add: none_sorted_eq_iff)
qed

lemma is_equal_AlgorithmParameterChange_iff:
  "is_equal_AlgorithmParameterChange a b \<longleftrightarrow>
     to_tuple_AlgorithmParameterChange a = to_tuple_AlgorithmParameterChange b"
  by (auto simp: is_equal_AlgorithmParameterChange_def to_tuple_AlgorithmParameterChange_def pval_eq_iffs)

lemma is_equal_Algorithm_iff:
  "is_equal_Algorithm a b \<longleftrightarrow> to_tuple_Algorithm a = to_tuple_Algorithm b"
  by (simp add: is_equal_Algorithm_def to_tuple_Algorithm_def pval_eq_iffs
      are_lists_equal_iff[of _ to_tuple_AlgorithmParameterChange, OF is_equal_AlgorithmParameterChange_iff])

lemma to_tuple_Algorithm_not_None: "to_tuple_Algorithm a \<noteq> PNone"
  by (simp add: to_tuple_Algorithm_def)

lemmas opt_Algorithm_iff =
  opt_is_equal_iff[of is_equal_Algorithm to_tuple_Algorithm, OF is_equal_Algorithm_iff to_tuple_Algorithm_not_None]

text \<open>
  From here on every class has two lemmas: \<open>is_equal\<close> implies equal projections, and on
  plain entities it is equivalent to them.
\<close>

lemma is_equal_Simulation_imp:
  "is_equal_Simulation a b \<Longrightarrow> to_tuple_Simulation a = to_tuple_Simulation b"
  by (cases a; cases b) (auto simp: pval_eq_iffs opt_Algorithm_iff dest: attr_float_eq_imp)

lemma is_equal_Simulation_plain:
  "plain_Simulation a \<Longrightarrow> plain_Simulation b \<Longrightarrow>
     is_equal_Simulation a b \<longleftrightarrow> to_tuple_Simulation a = to_tuple_Simulation b"
  by (cases a; cases b) (auto simp: pval_eq_iffs opt_Algorithm_iff attr_float_eq_plain)

lemma attr_float_eq_plain_float: "attr_float_eq a b \<Longrightarrow> plain_float a \<and> plain_float b"
  by (auto simp: attr_float_eq_def float_eq_def plain_float_def split: option.splits pyfloat.splits)

lemma is_equal_Simulation_no_nan:
  "is_equal_Simulation a b \<Longrightarrow> plain_Simulation a \<and> plain_Simulation b"
  by (cases a; cases b) (auto dest: attr_float_eq_plain_float)

lemma is_equal_DataGeneratorParameter_no_nan:
  "is_equal_DataGeneratorParameter a b \<Longrightarrow>
     plain_DataGeneratorParameter a \<and> plain_DataGeneratorParameter b"
  by (auto simp: is_equal_DataGeneratorParameter_def plain_DataGeneratorParameter_def
      dest: attr_float_eq_plain_float)

lemma to_tuple_Simulation_not_None: "to_tuple_Simulation a \<noteq> PNone"
  by (cases a) simp_all

lemmas opt_Simulation_imp =
  opt_is_equal_imp[of is_equal_Simulation to_tuple_Simulation, OF is_equal_Simulation_imp]

lemmas opt_Simulation_plain =
  opt_is_equal_plain[of plain_Simulation is_equal_Simulation to_tuple_Simulation,
    OF is_equal_Simulation_plain to_tuple_Simulation_not_None]

lemma is_equal_ModelChange_imp:
  "is_equal_ModelChange a b \<Longrightarrow> to_tuple_ModelChange a = to_tuple_ModelChange b"
  by (simp add: is_equal_ModelChange_def to_tuple_ModelChange_def)

lemma is_equal_ModelChange_plain:
  "plain_ModelChange a \<Longrightarrow> plain_ModelChange b \<Longrightarrow>
     is_equal_ModelChange a b \<longleftrightarrow> to_tuple_ModelChange a = to_tuple_ModelChange b"
  by (auto simp: is_equal_ModelChange_def to_tuple_ModelChange_def plain_ModelChange_def pval_eq_iffs)

lemmas ModelChange_list_imp =
  are_lists_equal_imp[of is_equal_ModelChange to_tuple_ModelChange, OF is_equal_ModelChange_imp]

lemmas ModelChange_list_plain =
  are_lists_equal_plain[of plain_ModelChange is_equal_ModelChange to_tuple_ModelChange,
    OF is_equal_ModelChange_plain]

lemma is_equal_Model_imp:
  assumes "is_equal_Model a b"
  shows "to_tuple_Model a = to_tuple_Model b"
  using assms ModelChange_list_imp[of "model_changes a" "model_changes b"]
  by (simp add: is_equal_Model_def to_tuple_Model_def)

lemma is_equal_Model_plain:
  assumes "plain_Model a" "plain_Model b"
  shows "is_equal_Model a b \<longleftrightarrow> to_tuple_Model a = to_tuple_Model b"
  using assms
  by (simp add: is_equal_Model_def to_tuple_Model_def plain_Model_def pval_eq_iffs
      ModelChange_list_plain)

lemma to_tuple_Model_not_None: "to_tuple_Model a \<noteq> PNone"
  by (simp add: to_tuple_Model_def)

lemmas opt_Model_imp =
  opt_is_equal_imp[of is_equal_Model to_tuple_Model, OF is_equal_Model_imp]

lemmas opt_Model_plain =
  opt_is_equal_plain[of plain_Model is_equal_Model to_tuple_Model,
    OF is_equal_Model_plain to_tuple_Model_not_None]

lemma is_equal_Task_imp:
  assumes "is_equal_Task a b"
  shows "to_tuple_Task a = to_tuple_Task b"
  using assms opt_Model_imp[of "task_model a" "task_model b"]
    opt_Simulation_imp[of "task_simulation a" "task_simulation b"]
  by (simp add: is_equal_Task_def to_tuple_Task_def)

lemma is_equal_Task_plain:
  assumes "plain_Task a" "plain_Task b"
  shows "is_equal_Task a b \<longleftrightarrow> to_tuple_Task a = to_tuple_Task b"
  using assms
  by (simp add: is_equal_Task_def to_tuple_Task_def plain_Task_def pval_eq_iffs
      opt_Model_plain opt_Simulation_plain)

lemma to_tuple_Task_not_None: "to_tuple_Task a \<noteq> PNone"
  by (simp add: to_tuple_Task_def)

lemmas opt_Task_imp =
  opt_is_equal_imp[of is_equal_Task to_tuple_Task, OF is_equal_Task_imp]

lemmas opt_Task_plain =
  opt_is_equal_plain[of plain_Task is_equal_Task to_tuple_Task,
    OF is_equal_Task_plain to_tuple_Task_not_None]

lemma is_equal_DataGeneratorVariable_imp:
  assumes "is_equal_DataGeneratorVariable a b"
  shows "to_tuple_DataGeneratorVariable a = to_tuple_DataGeneratorVariable b"
  using assms opt_Task_imp[of "var_task a" "var_task b"] opt_Model_imp[of "var_model a" "var_model b"]
  by (simp add: is_equal_DataGeneratorVariable_def to_tuple_DataGeneratorVariable_def)

lemma is_equal_DataGeneratorVariable_plain:
  assumes "plain_DataGeneratorVariable a" "plain_DataGeneratorVariable b"
  shows "is_equal_DataGeneratorVariable a b \<longleftrightarrow>
     to_tuple_DataGeneratorVariable a = to_tuple_DataGeneratorVariable b"
  using assms
  by (simp add: is_equal_DataGeneratorVariable_def to_tuple_DataGeneratorVariable_def
      plain_DataGeneratorVariable_def pval_eq_iffs opt_Model_plain opt_Task_plain)

lemma is_equal_DataGeneratorParameter_imp:
  "is_equal_DataGeneratorParameter a b \<Longrightarrow>
     to_tuple_DataGeneratorParameter a = to_tuple_DataGeneratorParameter b"
  by (auto simp: is_equal_DataGeneratorParameter_def to_tuple_DataGeneratorParameter_def
      dest: attr_float_eq_imp)

lemma is_equal_DataGeneratorParameter_plain:
  "plain_DataGeneratorParameter a \<Longrightarrow> plain_DataGeneratorParameter b \<Longrightarrow>
     is_equal_DataGeneratorParameter a b \<longleftrightarrow>
       to_tuple_DataGeneratorParameter a = to_tuple_DataGeneratorParameter b"
  by (simp add: is_equal_DataGeneratorParameter_def to_tuple_DataGeneratorParameter_def
      plain_DataGeneratorParameter_def pval_eq_iffs attr_float_eq_plain)

lemmas Variable_list_imp =
  are_lists_equal_imp[of is_equal_DataGeneratorVariable to_tuple_DataGeneratorVariable,
    OF is_equal_DataGeneratorVariable_imp]

lemmas Variable_list_plain =
  are_lists_equal_plain[of plain_DataGeneratorVariable is_equal_DataGeneratorVariable
    to_tuple_DataGeneratorVariable, OF is_equal_DataGeneratorVariable_plain]

lemmas Parameter_list_imp =
  are_lists_equal_imp[of is_equal_DataGeneratorParameter to_tuple_DataGeneratorParameter,
    OF is_equal_DataGeneratorParameter_imp]

lemmas Parameter_list_plain =
  are_lists_equal_plain[of plain_DataGeneratorParameter is_equal_DataGeneratorParameter
    to_tuple_DataGeneratorParameter, OF is_equal_DataGeneratorParameter_plain]

lemma is_equal_DataGenerator_imp:
  assumes "is_equal_DataGenerator a b"
  shows "to_tuple_DataGenerator a = to_tuple_DataGenerator b"
  using assms Variable_list_imp[of "dg_variables a" "dg_variables b"]
    Parameter_list_imp[of "dg_parameters a" "dg_parameters b"]
  by (simp add: is_equal_DataGenerator_def to_tuple_DataGenerator_def)

lemma is_equal_DataGenerator_plain:
  assumes "plain_DataGenerator a" "plain_DataGenerator b"
  shows "is_equal_DataGenerator a b \<longleftrightarrow> to_tuple_DataGenerator a = to_tuple_DataGenerator b"
  using assms
  by (simp add: is_equal_DataGenerator_def to_tuple_DataGenerator_def plain_DataGenerator_def
      pval_eq_iffs Variable_list_plain Parameter_list_plain)

lemma to_tuple_DataGenerator_not_None: "to_tuple_DataGenerator a \<noteq> PNone"
  by (simp add: to_tuple_DataGenerator_def)

lemmas opt_DataGenerator_imp =
  opt_is_equal_imp[of is_equal_DataGenerator to_tuple_DataGenerator, OF is_equal_DataGenerator_imp]

lemmas opt_DataGenerator_plain =
  opt_is_equal_plain[of plain_DataGenerator is_equal_DataGenerator to_tuple_DataGenerator,
    OF is_equal_DataGenerator_plain to_tuple_DataGenerator_not_None]

lemma is_equal_DataSet_imp:
  assumes "is_equal_DataSet a b"
  shows "to_tuple_DataSet a = to_tuple_DataSet b"
  using assms opt_DataGenerator_imp[of "ds_data_generator a" "ds_data_generator b"]
  by (simp add: is_equal_DataSet_def to_tuple_DataSet_def)

lemma is_equal_DataSet_plain:
  assumes "plain_DataSet a" "plain_DataSet b"
  shows "is_equal_DataSet a b \<longleftrightarrow> to_tuple_DataSet a = to_tuple_DataSet b"
  using assms
  by (simp add: is_equal_DataSet_def to_tuple_DataSet_def plain_DataSet_def pval_eq_iffs
      opt_DataGenerator_plain)

lemma is_equal_Curve_imp:
  assumes "is_equal_Curve a b"
  shows "to_tuple_Curve a = to_tuple_Curve b"
  using assms opt_DataGenerator_imp[of "curve_x_data_generator a" "curve_x_data_generator b"]
    opt_DataGenerator_imp[of "curve_y_data_generator a" "curve_y_data_generator b"]
  by (simp add: is_equal_Curve_def to_tuple_Curve_def)

lemma is_equal_Curve_plain:
  assumes "plain_Curve a" "plain_Curve b"
  shows "is_equal_Curve a b \<longleftrightarrow> to_tuple_Curve a = to_tuple_Curve b"
  using assms
  by (simp add: is_equal_Curve_def to_tuple_Curve_def plain_Curve_def pval_eq_iffs
      opt_DataGenerator_plain)

lemma is_equal_Surface_imp:
  assumes "is_equal_Surface a b"
  shows "to_tuple_Surface a = to_tuple_Surface b"
  using assms opt_DataGenerator_imp[of "surf_x_data_generator a" "surf_x_data_generator b"]
    opt_DataGenerator_imp[of "surf_y_data_generator a" "surf_y_data_generator b"]
    opt_DataGenerator_imp[of "surf_z_data_generator a" "surf_z_data_generator b"]
  by (simp add: is_equal_Surface_def to_tuple_Surface_def)

lemma is_equal_Surface_plain:
  assumes "plain_Surface a" "plain_Surface b"
  shows "is_equal_Surface a b \<longleftrightarrow> to_tuple_Surface a = to_tuple_Surface b"
  using assms
  by (simp add: is_equal_Surface_def to_tuple_Surface_def plain_Surface_def pval_eq_iffs
      opt_DataGenerator_plain)

lemmas DataSet_list_imp =
  are_lists_equal_imp[of is_equal_DataSet to_tuple_DataSet, OF is_equal_DataSet_imp]

lemmas DataSet_list_plain =
  are_lists_equal_plain[of plain_DataSet is_equal_DataSet to_tuple_DataSet, OF is_equal_DataSet_plain]

lemmas Curve_list_imp =
  are_lists_equal_imp[of is_equal_Curve to_tuple_Curve, OF is_equal_Curve_imp]

lemmas Curve_list_plain =
  are_lists_equal_plain[of plain_Curve is_equal_Curve to_tuple_Curve, OF is_equal_Curve_plain]

lemmas Surface_list_imp =
  are_lists_equal_imp[of is_equal_Surface to_tuple_Surface, OF is_equal_Surface_imp]

lemmas Surface_list_plain =
  are_lists_equal_plain[of plain_Surface is_equal_Surface to_tuple_Surface, OF is_equal_Surface_plain]

lemma is_equal_Output_imp:
  "is_equal_Output a b \<Longrightarrow> to_tuple_Output a = to_tuple_Output b"
  by (cases a; cases b) (simp_all add: DataSet_list_imp Curve_list_imp Surface_list_imp)

lemma is_equal_Output_plain:
  "plain_Output a \<Longrightarrow> plain_Output b \<Longrightarrow>
   is_equal_Output a b \<longleftrightarrow>
     class_name (E_Output a :: unit entity) = class_name (E_Output b :: unit entity)
     \<and> to_tuple_Output a = to_tuple_Output b"
  by (cases a; cases b)
     (simp_all add: pval_eq_iffs DataSet_list_plain Curve_list_plain Surface_list_plain)

lemmas Model_list_imp =
  are_lists_equal_imp[of is_equal_Model to_tuple_Model, OF is_equal_Model_imp]

lemmas Model_list_plain =
  are_lists_equal_plain[of plain_Model is_equal_Model to_tuple_Model, OF is_equal_Model_plain]

lemmas Simulation_list_imp =
  are_lists_equal_imp[of is_equal_Simulation to_tuple_Simulation, OF is_equal_Simulation_imp]

lemmas Simulation_list_plain =
  are_lists_equal_plain[of plain_Simulation is_equal_Simulation to_tuple_Simulation,
    OF is_equal_Simulation_plain]

lemmas Task_list_imp =
  are_lists_equal_imp[of is_equal_Task to_tuple_Task, OF is_equal_Task_imp]

lemmas Task_list_plain =
  are_lists_equal_plain[of plain_Task is_equal_Task to_tuple_Task, OF is_equal_Task_plain]

lemmas DataGenerator_list_imp =
  are_lists_equal_imp[of is_equal_DataGenerator to_tuple_DataGenerator, OF is_equal_DataGenerator_imp]

lemmas DataGenerator_list_plain =
  are_lists_equal_plain[of plain_DataGenerator is_equal_DataGenerator to_tuple_DataGenerator,
    OF is_equal_DataGenerator_plain]

lemmas Output_list_imp =
  are_lists_equal_imp[of is_equal_Output to_tuple_Output, OF is_equal_Output_imp]

lemma is_equal_SedDocument_imp:
  assumes me: "\<And>m m'. me m (Some m') \<Longrightarrow> mt m = mt m'" "\<And>m. \<not> me m None"
    and eq: "is_equal_SedDocument me a b"
  shows "to_tuple_SedDocument mt a = to_tuple_SedDocument mt b"
proof -
  have md: "opt_tuple mt (metadata a) = opt_tuple mt (metadata b)"
    using eq me by (auto simp: is_equal_SedDocument_def opt_tuple_def split: option.splits)
  from eq md Model_list_imp[of "models a" "models b"]
    Simulation_list_imp[of "simulations a" "simulations b"]
    Task_list_imp[of "tasks a" "tasks b"]
    DataGenerator_list_imp[of "data_generators a" "data_generators b"]
    Output_list_imp[of "outputs a" "outputs b"]
  show ?thesis
    by (simp add: is_equal_SedDocument_def to_tuple_SedDocument_def)
qed

lemma is_equal_SedDocument_conv:
  assumes me: "\<And>m m'. me m (Some m') \<longleftrightarrow> mt m = mt m'" "\<And>m. \<not> me m None" "\<And>m. mt m \<noteq> PNone"
    and plain: "plain_SedDocument a" "plain_SedDocument b"
    and tup: "to_tuple_SedDocument mt a = to_tuple_SedDocument mt b"
    and outs: "are_lists_equal is_equal_Output (outputs a) (outputs b)"
  shows "is_equal_SedDocument me a b"
proof -
  from tup have "opt_tuple mt (metadata a) = opt_tuple mt (metadata b)"
    by (simp add: to_tuple_SedDocument_def)
  then have md: "(case metadata a of None \<Rightarrow> metadata b = None | Some m \<Rightarrow> me m (metadata b))"
    using me by (auto simp: opt_tuple_def split: option.splits) metis+
  from tup outs md plain show ?thesis
    by (simp add: is_equal_SedDocument_def to_tuple_SedDocument_def plain_SedDocument_def
        Model_list_plain Simulation_list_plain Task_list_plain DataGenerator_list_plain)
qed


subsection \<open>Archives\<close>

lemma sorted_py_mset: "mset xs = mset ys \<Longrightarrow> sorted_py xs = sorted_py ys"
proof -
  assume eq: "mset xs = mset ys"
  then have "set xs = set ys" by (rule mset_eq_setD)
  with sort_key_ser_mset[OF eq] show ?thesis by (simp add: sorted_py_def)
qed

lemma sorted_py_Inr: "sorted_py xs = Inr zs \<Longrightarrow> mset zs = mset xs"
  by (auto simp: sorted_py_def split: if_splits)

lemma sorted_py_error: "sorted_py xs = Inl e \<Longrightarrow> e = TypeError"
  by (auto simp: sorted_py_def split: if_splits)

lemma is_equal_CombineArchiveAuthor_iff:
  "is_equal_CombineArchiveAuthor a b \<longleftrightarrow>
     to_tuple_CombineArchiveAuthor a = to_tuple_CombineArchiveAuthor b"
  by (auto simp: is_equal_CombineArchiveAuthor_def to_tuple_CombineArchiveAuthor_def pval_eq_iffs)

lemmas authors_equal_iff =
  are_lists_equal_mset[of _ _ is_equal_CombineArchiveAuthor
    to_tuple_CombineArchiveAuthor to_tuple_CombineArchiveAuthor, OF is_equal_CombineArchiveAuthor_iff]

lemma is_equal_CombineArchiveContent_imp:
  assumes "is_equal_CombineArchiveContent a b"
  shows "to_tuple_CombineArchiveContent a = to_tuple_CombineArchiveContent b"
proof -
  from assms have "mset (map to_tuple_CombineArchiveAuthor (content_authors a))
      = mset (map to_tuple_CombineArchiveAuthor (content_authors b))"
    by (simp add: is_equal_CombineArchiveContent_def authors_equal_iff)
  from sorted_py_mset[OF this] assms show ?thesis
    by (simp add: is_equal_CombineArchiveContent_def to_tuple_CombineArchiveContent_def
        split: sum.splits)
qed

lemma is_equal_CombineArchiveContent_conv:
  assumes "to_tuple_CombineArchiveContent a = Inr t" "to_tuple_CombineArchiveContent b = Inr t"
  shows "is_equal_CombineArchiveContent a b"
proof -
  from assms(1) obtain as where as: "sorted_py (map to_tuple_CombineArchiveAuthor (content_authors a)) = Inr as"
    and ta: "t = PTuple [PStr (location a), PStr (format a), PBool (master a),
                       pstr (content_description a), PTuple as,
                       pdatetime (content_created a), pdatetime (content_updated a)]"
    by (auto simp: to_tuple_CombineArchiveContent_def split: sum.splits)
  from assms(2) obtain bs where bs: "sorted_py (map to_tuple_CombineArchiveAuthor (content_authors b)) = Inr bs"
    and tb: "t = PTuple [PStr (location b), PStr (format b), PBool (master b),
                       pstr (content_description b), PTuple bs,
                       pdatetime (content_created b), pdatetime (content_updated b)]"
    by (auto simp: to_tuple_CombineArchiveContent_def split: sum.splits)
  from ta tb have flds: "location a = location b" "format a = format b" "master a = master b"
    "content_description a = content_description b" "as = bs"
    "content_created a = content_created b" "content_updated a = content_updated b"
    by (simp_all add: pval_eq_iffs)
  from sorted_py_Inr[OF as] sorted_py_Inr[OF bs] flds(5)
  have "mset (map to_tuple_CombineArchiveAuthor (content_authors a))
      = mset (map to_tuple_CombineArchiveAuthor (content_authors b))" by simp
  with flds show ?thesis
    by (simp add: is_equal_CombineArchiveContent_def authors_equal_iff)
qed

lemma to_tuple_CombineArchiveContent_error:
  "to_tuple_CombineArchiveContent a = Inl e \<Longrightarrow> e = TypeError"
  by (auto simp: to_tuple_CombineArchiveContent_def split: sum.splits dest: sorted_py_error)

lemma map_raise_cases:
  assumes "\<And>x e. f x = Inl e \<Longrightarrow> e = TypeError"
  shows "map_raise f xs =
     (if \<forall>x \<in> set xs. \<exists>v. f x = Inr v then Inr (map (\<lambda>x. projr (f x)) xs) else Inl TypeError)"
proof (induction xs)
  case Nil
  then show ?case by simp
next
  case (Cons x xs)
  show ?case
  proof (cases "f x")
    case (Inl e)
    with assms have "e = TypeError" by blast
    with Inl show ?thesis by auto
  next
    case (Inr v)
    with Cons show ?thesis by (auto split: sum.splits)
  qed
qed

lemma map_raise_mset:
  assumes err: "\<And>x e. f x = Inl e \<Longrightarrow> e = TypeError"
    and eq: "mset (map f xs) = mset (map f ys)"
  shows "(map_raise f xs = Inl TypeError \<and> map_raise f ys = Inl TypeError)
       \<or> (\<exists>us vs. map_raise f xs = Inr us \<and> map_raise f ys = Inr vs \<and> mset us = mset vs)"
proof -
  from eq have sets: "f ` set xs = f ` set ys"
    by (metis mset_eq_setD set_map)
  have ok: "(\<forall>x \<in> set xs. \<exists>v. f x = Inr v) \<longleftrightarrow> (\<forall>y \<in> set ys. \<exists>v. f y = Inr v)"
  proof -
    have "(\<forall>x \<in> set xs. \<exists>v. f x = Inr v) \<longleftrightarrow> (\<forall>r \<in> f ` set xs. \<exists>v. r = Inr v)" by auto
    also have "\<dots> \<longleftrightarrow> (\<forall>r \<in> f ` set ys. \<exists>v. r = Inr v)" using sets by simp
    also have "\<dots> \<longleftrightarrow> (\<forall>y \<in> set ys. \<exists>v. f y = Inr v)" by auto
    finally show ?thesis .
  qed
  have "mset (map (\<lambda>x. projr (f x)) xs) = image_mset projr (mset (map f xs))"
    by (simp add: multiset.map_comp comp_def)
  also have "\<dots> = image_mset projr (mset (map f ys))" using eq by simp
  also have "\<dots> = mset (map (\<lambda>x. projr (f x)) ys)"
    by (simp add: multiset.map_comp comp_def)
  finally have "mset (map (\<lambda>x. projr (f x)) xs) = mset (map (\<lambda>x. projr (f x)) ys)" .
  with ok show ?thesis
    by (simp add: map_raise_cases[of f, OF err])
qed

lemma is_equal_CombineArchive_imp:
  assumes "is_equal_CombineArchive a b"
  shows "to_tuple_CombineArchive a = to_tuple_CombineArchive b"
proof -
  from assms have au: "mset (map to_tuple_CombineArchiveAuthor (authors a))
      = mset (map to_tuple_CombineArchiveAuthor (authors b))"
    by (simp add: is_equal_CombineArchive_def authors_equal_iff)
  from assms have "are_lists_equal is_equal_CombineArchiveContent (contents a) (contents b)"
    by (simp add: is_equal_CombineArchive_def)
  then have "mset (map to_tuple_CombineArchiveContent (contents a))
      = mset (map to_tuple_CombineArchiveContent (contents b))"
    by (rule are_lists_equal_imp_mset) (rule is_equal_CombineArchiveContent_imp)
  from map_raise_mset[of to_tuple_CombineArchiveContent, OF to_tuple_CombineArchiveContent_error this]
  show ?thesis
  proof
    assume "map_raise to_tuple_CombineArchiveContent (contents a) = Inl TypeError \<and>
      map_raise to_tuple_CombineArchiveContent (contents b) = Inl TypeError"
    then show ?thesis by (simp add: to_tuple_CombineArchive_def)
  next
    assume "\<exists>us vs. map_raise to_tuple_CombineArchiveContent (contents a) = Inr us \<and>
      map_raise to_tuple_CombineArchiveContent (contents b) = Inr vs \<and> mset us = mset vs"
    then obtain us vs where uv: "map_raise to_tuple_CombineArchiveContent (contents a) = Inr us"
      "map_raise to_tuple_CombineArchiveContent (contents b) = Inr vs" "mset us = mset vs" by blast
    from sorted_py_mset[OF uv(3)] sorted_py_mset[OF au] uv(1,2) assms show ?thesis
      by (simp add: to_tuple_CombineArchive_def is_equal_CombineArchive_def split: sum.splits)
  qed
qed


lemma map_raise_Inr: "map_raise f xs = Inr us \<Longrightarrow> map f xs = map Inr us"
  by (induction xs arbitrary: us) (auto split: sum.splits)

lemma is_equal_CombineArchive_conv:
  assumes "to_tuple_CombineArchive a = Inr t" "to_tuple_CombineArchive b = Inr t"
  shows "is_equal_CombineArchive a b"
proof -
  from assms(1) obtain us S A where a:
    "map_raise to_tuple_CombineArchiveContent (contents a) = Inr us"
    "sorted_py us = Inr S"
    "sorted_py (map to_tuple_CombineArchiveAuthor (authors a)) = Inr A"
    "t = PTuple [PTuple S, pstr (description a), PTuple A, pdatetime (created a), pdatetime (updated a)]"
    by (auto simp: to_tuple_CombineArchive_def split: sum.splits)
  from assms(2) obtain vs S' A' where b:
    "map_raise to_tuple_CombineArchiveContent (contents b) = Inr vs"
    "sorted_py vs = Inr S'"
    "sorted_py (map to_tuple_CombineArchiveAuthor (authors b)) = Inr A'"
    "t = PTuple [PTuple S', pstr (description b), PTuple A', pdatetime (created b), pdatetime (updated b)]"
    by (auto simp: to_tuple_CombineArchive_def split: sum.splits)
  from a(4) b(4) have flds: "S = S'" "A = A'" "description a = description b"
    "created a = created b" "updated a = updated b"
    by (simp_all add: pval_eq_iffs)
  from sorted_py_Inr[OF a(3)] sorted_py_Inr[OF b(3)] flds(2)
  have au: "are_lists_equal is_equal_CombineArchiveAuthor (authors a) (authors b)"
    by (simp add: authors_equal_iff)
  from sorted_py_Inr[OF a(2)] sorted_py_Inr[OF b(2)] flds(1) have uv: "mset us = mset vs" by simp
  have ma: "map to_tuple_CombineArchiveContent (contents a) = map Inr us"
    and mb: "map to_tuple_CombineArchiveContent (contents b) = map Inr vs"
    using a(1) b(1) by (simp_all add: map_raise_Inr)
  have "mset (map to_tuple_CombineArchiveContent (contents a)) = image_mset Inr (mset us)"
    using ma by simp
  also have "\<dots> = image_mset Inr (mset vs)" using uv by simp
  also have "\<dots> = mset (map to_tuple_CombineArchiveContent (contents b))"
    using mb by simp
  finally have ms: "mset (map to_tuple_CombineArchiveContent (contents a))
      = mset (map to_tuple_CombineArchiveContent (contents b))" .
  have "are_lists_equal is_equal_CombineArchiveContent (contents a) (contents b)
      \<longleftrightarrow> mset (map to_tuple_CombineArchiveContent (contents a))
        = mset (map to_tuple_CombineArchiveContent (contents b))"
  proof (rule are_lists_equal_mset)
    fix x y assume x: "x \<in> set (contents a)" and y: "y \<in> set (contents b)"
    from x have "to_tuple_CombineArchiveContent x \<in> set (map Inr us)"
      using ma by (metis image_eqI set_map)
    then obtain v where v: "to_tuple_CombineArchiveContent x = Inr v" by auto
    show "is_equal_CombineArchiveContent x y
        \<longleftrightarrow> to_tuple_CombineArchiveContent x = to_tuple_CombineArchiveContent y"
      using v is_equal_CombineArchiveContent_imp[of x y]
        is_equal_CombineArchiveContent_conv[of x v y] by auto
  qed
  with ms au flds show ?thesis by (simp add: is_equal_CombineArchive_def)
qed

lemma class_name_Simulation:
  "class_name (E_Simulation x) =
     (case x of SteadyStateSimulation _ _ _ \<Rightarrow> ''SteadyStateSimulation''
      | OneStepSimulation _ _ _ _ \<Rightarrow> ''OneStepSimulation''
      | UniformTimeCourseSimulation _ _ _ _ _ _ _ \<Rightarrow> ''UniformTimeCourseSimulation'')"
  by (cases x) simp_all

lemma class_name_Output:
  "class_name (E_Output x) =
     (case x of Report _ _ _ \<Rightarrow> ''Report'' | Plot2D _ _ _ \<Rightarrow> ''Plot2D'' | Plot3D _ _ _ \<Rightarrow> ''Plot3D'')"
  by (cases x) simp_all

lemma is_equal_imp_to_tuple:
  assumes "\<And>m m'. me m (Some m') \<Longrightarrow> mt m = mt m'" "\<And>m. \<not> me m None"
    and "is_equal me a b"
  shows "to_tuple mt a = to_tuple mt b"
  using assms(3)
  by (cases a; cases b)
     (simp_all add: is_equal_def is_equal_CombineArchive_imp is_equal_CombineArchiveContent_imp
        is_equal_CombineArchiveAuthor_iff is_equal_SedDocument_imp[of me mt, OF assms(1,2)]
        is_equal_Simulation_imp is_equal_Algorithm_iff is_equal_AlgorithmParameterChange_iff
        is_equal_Model_imp is_equal_ModelChange_imp is_equal_Task_imp is_equal_DataGenerator_imp
        is_equal_DataGeneratorVariable_imp is_equal_DataGeneratorParameter_imp
        is_equal_Output_imp is_equal_DataSet_imp is_equal_Curve_imp is_equal_Surface_imp)

lemma is_equal_Simulation_class:
  "is_equal_Simulation x y \<Longrightarrow> class_name (E_Simulation x) = class_name (E_Simulation y)"
  by (cases x; cases y) simp_all

lemma is_equal_Output_class:
  "is_equal_Output x y \<Longrightarrow> class_name (E_Output x) = class_name (E_Output y)"
  by (cases x; cases y) simp_all

lemma is_equal_class: "is_equal me a b \<Longrightarrow> class_name a = class_name b"
  by (cases a; cases b)
     (simp_all add: is_equal_def is_equal_Simulation_class is_equal_Output_class)

lemma same_class_cases:
  assumes "class_name a = class_name b"
  shows "(\<exists>x y. a = E_CombineArchive x \<and> b = E_CombineArchive y)
    \<or> (\<exists>x y. a = E_CombineArchiveContent x \<and> b = E_CombineArchiveContent y)
    \<or> (\<exists>x y. a = E_CombineArchiveAuthor x \<and> b = E_CombineArchiveAuthor y)
    \<or> (\<exists>x y. a = E_SedDocument x \<and> b = E_SedDocument y)
    \<or> (\<exists>x y. a = E_Simulation x \<and> b = E_Simulation y)
    \<or> (\<exists>x y. a = E_Algorithm x \<and> b = E_Algorithm y)
    \<or> (\<exists>x y. a = E_AlgorithmParameterChange x \<and> b = E_AlgorithmParameterChange y)
    \<or> (\<exists>x y. a = E_Model x \<and> b = E_Model y)
    \<or> (\<exists>x y. a = E_ModelChange x \<and> b = E_ModelChange y)
    \<or> (\<exists>x y. a = E_Task x \<and> b = E_Task y)
    \<or> (\<exists>x y. a = E_DataGenerator x \<and> b = E_DataGenerator y)
    \<or> (\<exists>x y. a = E_DataGeneratorVariable x \<and> b = E_DataGeneratorVariable y)
    \<or> (\<exists>x y. a = E_DataGeneratorParameter x \<and> b = E_DataGeneratorParameter y)
    \<or> (\<exists>x y. a = E_Output x \<and> b = E_Output y)
    \<or> (\<exists>x y. a = E_DataSet x \<and> b = E_DataSet y)
    \<or> (\<exists>x y. a = E_Curve x \<and> b = E_Curve y)
    \<or> (\<exists>x y. a = E_Surface x \<and> b = E_Surface y)"
  using assms
  by (cases a; cases b)
     (simp_all add: class_name_Simulation class_name_Output split: Simulation.splits Output.splits)

lemma to_tuple_imp_is_equal:
  assumes md: "\<And>m m'. me m (Some m') \<longleftrightarrow> mt m = mt m'" "\<And>m. \<not> me m None" "\<And>m. mt m \<noteq> PNone"
    and cls: "class_name a = class_name b"
    and plain: "plain a" "plain b"
    and ta: "to_tuple mt a = Inr t" and tb: "to_tuple mt b = Inr t"
    and outs: "\<And>x y. a = E_SedDocument x \<Longrightarrow> b = E_SedDocument y
        \<Longrightarrow> are_lists_equal is_equal_Output (outputs x) (outputs y)"
  shows "is_equal me a b"
  using same_class_cases[OF cls]
proof (elim disjE exE conjE)
  fix x y assume "a = E_CombineArchive x" "b = E_CombineArchive y"
  with ta tb show ?thesis by (simp add: is_equal_def is_equal_CombineArchive_conv)
next
  fix x y assume "a = E_CombineArchiveContent x" "b = E_CombineArchiveContent y"
  with ta tb show ?thesis by (simp add: is_equal_def is_equal_CombineArchiveContent_conv)
next
  fix x y assume "a = E_CombineArchiveAuthor x" "b = E_CombineArchiveAuthor y"
  with ta tb show ?thesis by (simp add: is_equal_def is_equal_CombineArchiveAuthor_iff)
next
  fix x y assume xy: "a = E_SedDocument x" "b = E_SedDocument y"
  from outs[OF xy] xy ta tb plain show ?thesis
    by (simp add: is_equal_def is_equal_SedDocument_conv[of me mt, OF md])
next
  fix x y assume "a = E_Simulation x" "b = E_Simulation y"
  with ta tb plain show ?thesis by (simp add: is_equal_def is_equal_Simulation_plain)
next
  fix x y assume "a = E_Algorithm x" "b = E_Algorithm y"
  with ta tb show ?thesis by (simp add: is_equal_def is_equal_Algorithm_iff)
next
  fix x y assume "a = E_AlgorithmParameterChange x" "b = E_AlgorithmParameterChange y"
  with ta tb show ?thesis by (simp add: is_equal_def is_equal_AlgorithmParameterChange_iff)
next
  fix x y assume "a = E_Model x" "b = E_Model y"
  with ta tb plain show ?thesis by (simp add: is_equal_def is_equal_Model_plain)
next
  fix x y assume "a = E_ModelChange x" "b = E_ModelChange y"
  with ta tb plain show ?thesis by (simp add: is_equal_def is_equal_ModelChange_plain)
next
  fix x y assume "a = E_Task x" "b = E_Task y"
  with ta tb plain show ?thesis by (simp add: is_equal_def is_equal_Task_plain)
next
  fix x y assume "a = E_DataGenerator x" "b = E_DataGenerator y"
  with ta tb plain show ?thesis by (simp add: is_equal_def is_equal_DataGenerator_plain)
next
  fix x y assume "a = E_DataGeneratorVariable x" "b = E_DataGeneratorVariable y"
  with ta tb plain show ?thesis by (simp add: is_equal_def is_equal_DataGeneratorVariable_plain)
next
  fix x y assume "a = E_DataGeneratorParameter x" "b = E_DataGeneratorParameter y"
  with ta tb plain show ?thesis by (simp add: is_equal_def is_equal_DataGeneratorParameter_plain)
next
  fix x y assume xy: "a = E_Output x" "b = E_Output y"
  with cls have "class_name (E_Output x :: unit entity) = class_name (E_Output y :: unit entity)"
    by (simp add: class_name_Output)
  with xy ta tb plain show ?thesis by (simp add: is_equal_def is_equal_Output_plain)
next
  fix x y assume "a = E_DataSet x" "b = E_DataSet y"
  with ta tb plain show ?thesis by (simp add: is_equal_def is_equal_DataSet_plain)
next
  fix x y assume "a = E_Curve x" "b = E_Curve y"
  with ta tb plain show ?thesis by (simp add: is_equal_def is_equal_Curve_plain)
next
  fix x y assume "a = E_Surface x" "b = E_Surface y"
  with ta tb plain show ?thesis by (simp add: is_equal_def is_equal_Surface_plain)
qed

section \<open>Properties of the archive model and of the function table\<close>

lemma collect_master_filter: "collect_master cs acc = acc @ filter master cs"
  by (induction cs arbitrary: acc) auto

text \<open>
  C5. \<open>get_master_content\<close> returns \<open>None\<close> when no content is marked as master, the
  content when exactly one is, and raises the \<open>ValueError\<close> when two or more are; in every
  case the archive after the call is the archive before it.
\<close>

theorem get_master_content_spec:
  "fst (get_master_content a) = a \<and>
   snd (get_master_content a) =
     (case filter master (contents a) of
        [] \<Rightarrow> Inr None
      | [c] \<Rightarrow> Inr (Some c)
      | c # c' # rest \<Rightarrow> Inl (ValueError ''Multiple content items are marked as master''))"
  by (simp add: get_master_content_def collect_master_filter Let_def split: list.split)

theorem get_master_content_spec_witness:
  "snd (get_master_content
     (CombineArchive
        [CombineArchiveContent ''a.xml'' ''sbml'' False None [] None None,
         CombineArchiveContent ''b.sedml'' ''sedml'' True None [] None None]
        None [] None None))
   = Inr (Some (CombineArchiveContent ''b.sedml'' ''sedml'' True None [] None None))
   \<and> snd (get_master_content
     (CombineArchive
        [CombineArchiveContent ''a.xml'' ''sbml'' True None [] None None,
         CombineArchiveContent ''b.sedml'' ''sedml'' True None [] None None]
        None [] None None))
   = Inl (ValueError ''Multiple content items are marked as master'')
   \<and> snd (get_master_content
     (CombineArchive [CombineArchiveContent ''a.xml'' ''sbml'' False None [] None None] None [] None None))
   = Inr None"
  using
    get_master_content_spec [of "CombineArchive
        [CombineArchiveContent ''a.xml'' ''sbml'' False None [] None None,
         CombineArchiveContent ''b.sedml'' ''sedml'' True None [] None None]
        None [] None None"]
    get_master_content_spec [of "CombineArchive
        [CombineArchiveContent ''a.xml'' ''sbml'' True None [] None None,
         CombineArchiveContent ''b.sedml'' ''sedml'' True None [] None None]
        None [] None None"]
    get_master_content_spec [of "CombineArchive
        [CombineArchiveContent ''a.xml'' ''sbml'' False None [] None None] None [] None None"]
  by simp

text \<open>
  C9. The table binds \<open>log\<close> and \<open>ln\<close> to the same function, the natural logarithm of
  \<open>math\<close>; a call of either name on the same arguments has the same outcome, whatever the
  library computes.
\<close>

theorem log_ln_alias:
  "map_of MATHEMATICAL_FUNCTIONS ''log'' = Some Math_log
   \<and> map_of MATHEMATICAL_FUNCTIONS ''ln'' = Some Math_log
   \<and> call_function lib ''log'' args = call_function lib ''ln'' args"
  by (simp add: call_function_def MATHEMATICAL_FUNCTIONS_def)


section \<open>Constructors\<close>

lemma or_empty_cases: "or_empty arg = (case arg of None \<Rightarrow> [] | Some xs \<Rightarrow> xs)"
  by (simp add: or_empty_def split: option.split)

lemma sorted_py_Nil: "sorted_py [] = Inr []"
  by (simp add: sorted_py_def)

lemma none_sorted_Nil: "none_sorted [] = []"
  by (simp add: none_sorted_def)

text \<open>
  C10. Every constructor turns an omitted (\<open>None\<close>) list argument into the empty list and
  keeps a given list, so that each list-valued attribute is a list after construction.
  On the default archive \<open>get_master_content\<close> returns \<open>None\<close>, and the projections and
  comparisons of the default archive and of the default document are defined.
\<close>

theorem constructors_normalise_lists:
  "contents (CombineArchive_init cs d au c u) = (case cs of None \<Rightarrow> [] | Some xs \<Rightarrow> xs)
   \<and> authors (CombineArchive_init cs d au c u) = (case au of None \<Rightarrow> [] | Some xs \<Rightarrow> xs)
   \<and> content_authors (CombineArchiveContent_init l f m d au c u) = (case au of None \<Rightarrow> [] | Some xs \<Rightarrow> xs)
   \<and> models (SedDocument_init lv vs ms ss ts dgs os md) = (case ms of None \<Rightarrow> [] | Some xs \<Rightarrow> xs)
   \<and> simulations (SedDocument_init lv vs ms ss ts dgs os md) = (case ss of None \<Rightarrow> [] | Some xs \<Rightarrow> xs)
   \<and> tasks (SedDocument_init lv vs ms ss ts dgs os md) = (case ts of None \<Rightarrow> [] | Some xs \<Rightarrow> xs)
   \<and> data_generators (SedDocument_init lv vs ms ss ts dgs os md) = (case dgs of None \<Rightarrow> [] | Some xs \<Rightarrow> xs)
   \<and> outputs (SedDocument_init lv vs ms ss ts dgs os md) = (case os of None \<Rightarrow> [] | Some xs \<Rightarrow> xs)
   \<and> alg_changes (Algorithm_init k chs) = (case chs of None \<Rightarrow> [] | Some xs \<Rightarrow> xs)
   \<and> model_changes (Model_init i n src lang mchs) = (case mchs of None \<Rightarrow> [] | Some xs \<Rightarrow> xs)
   \<and> dg_variables (DataGenerator_init i n vars pars mth) = (case vars of None \<Rightarrow> [] | Some xs \<Rightarrow> xs)
   \<and> dg_parameters (DataGenerator_init i n vars pars mth) = (case pars of None \<Rightarrow> [] | Some xs \<Rightarrow> xs)
   \<and> data_sets (Report_init i n dss) = (case dss of None \<Rightarrow> [] | Some xs \<Rightarrow> xs)
   \<and> curves (Plot2D_init i n crvs) = (case crvs of None \<Rightarrow> [] | Some xs \<Rightarrow> xs)
   \<and> surfaces (Plot3D_init i n sfs) = (case sfs of None \<Rightarrow> [] | Some xs \<Rightarrow> xs)
   \<and> snd (get_master_content (CombineArchive_init None None None None None)) = Inr None
   \<and> to_tuple_CombineArchive (CombineArchive_init None None None None None)
       = Inr (PTuple [PTuple [], PNone, PTuple [], PNone, PNone])
   \<and> is_equal_CombineArchive (CombineArchive_init None None None None None)
        (CombineArchive_init None None None None None)
   \<and> to_tuple_SedDocument mt (SedDocument_init 1 3 None None None None None None)
       = PTuple [PInt 1, PInt 3, PTuple [], PTuple [], PTuple [], PTuple [], PTuple [], PNone]
   \<and> is_equal_SedDocument me (SedDocument_init 1 3 None None None None None None)
        (SedDocument_init 1 3 None None None None None None)"
  by (simp add: CombineArchive_init_def CombineArchiveContent_init_def SedDocument_init_def
      Algorithm_init_def Model_init_def DataGenerator_init_def Report_init_def Plot2D_init_def
      Plot3D_init_def or_empty_cases get_master_content_def to_tuple_CombineArchive_def
      is_equal_CombineArchive_def to_tuple_SedDocument_def is_equal_SedDocument_def
      sorted_py_Nil none_sorted_Nil pstr_def pdatetime_def opt_tuple_def)

theorem constructors_normalise_lists_witness:
  "contents (CombineArchive_init None None None None None) = []
   \<and> authors (CombineArchive_init None None (Some [CombineArchiveAuthor (Some ''J'') (Some ''K'')]) None None)
       = [CombineArchiveAuthor (Some ''J'') (Some ''K'')]
   \<and> tasks (SedDocument_init 1 3 None None None None None None :: (Model, unit) SedDocument) = []
   \<and> dg_variables (DataGenerator_init None None None None None :: Model DataGenerator) = []
   \<and> snd (get_master_content (CombineArchive_init None None None None None)) = Inr None
   \<and> to_tuple_CombineArchive (CombineArchive_init None None None None None)
       = Inr (PTuple [PTuple [], PNone, PTuple [], PNone, PNone])"
  using
    constructors_normalise_lists [where cs = None and d = None and au = None and c = None and u = None
      and l = "''a''" and f = "''b''" and m = False and k = None and chs = None
      and src = None and lang = None and mchs = None
      and lv = 1 and vs = 3 and ms = None and ss = None and dgs = None and os = None
      and ts = "None :: Model Task list option" and md = "None :: unit option"
      and vars = "None :: Model DataGeneratorVariable list option" and pars = None
      and i = None and n = None and mth = None
      and dss = "None :: Model DataSet list option" and crvs = "None :: Model Curve list option"
      and sfs = "None :: Model Surface list option"
      and mt = "\<lambda>_ :: unit. PNone" and me = "\<lambda>(_ :: unit) (_ :: unit option). True"]
    constructors_normalise_lists [where cs = None and d = None
      and au = "Some [CombineArchiveAuthor (Some ''J'') (Some ''K'')]" and c = None and u = None
      and l = "''a''" and f = "''b''" and m = False and k = None and chs = None
      and src = None and lang = None and mchs = None
      and lv = 1 and vs = 3 and ms = None and ss = None and dgs = None and os = None
      and ts = "None :: Model Task list option" and md = "None :: unit option"
      and vars = "None :: Model DataGeneratorVariable list option" and pars = None
      and i = None and n = None and mth = None
      and dss = "None :: Model DataSet list option" and crvs = "None :: Model Curve list option"
      and sfs = "None :: Model Surface list option"
      and mt = "\<lambda>_ :: unit. PNone" and me = "\<lambda>(_ :: unit) (_ :: unit option). True"]
  by simp

section \<open>Consistency of structural equality and tuple projection\<close>

text \<open>
  Two facts that bound what can hold. A parameter whose value is a NaN has the same
  projection as itself and is not \<open>is_equal\<close> to itself; two model changes with the same
  target and value and different names have the same projection and are not \<open>is_equal\<close>.
\<close>

lemma nan_parameter_not_is_equal:
  "to_tuple_DataGeneratorParameter (DataGeneratorParameter (Some ''p'') None (Some (NaN 0)))
     = to_tuple_DataGeneratorParameter (DataGeneratorParameter (Some ''p'') None (Some (NaN 0)))
   \<and> \<not> is_equal_DataGeneratorParameter (DataGeneratorParameter (Some ''p'') None (Some (NaN 0)))
         (DataGeneratorParameter (Some ''p'') None (Some (NaN 0)))"
  by (simp add: is_equal_DataGeneratorParameter_def attr_float_eq_def float_eq_def)

lemma named_change_not_is_equal:
  "to_tuple_ModelChange (ModelAttributeChange (Some ''n'') (Some ''t'') (Some ''1''))
     = to_tuple_ModelChange (ModelAttributeChange_init (Some ''t'') (Some ''1''))
   \<and> \<not> is_equal_ModelChange (ModelAttributeChange (Some ''n'') (Some ''t'') (Some ''1''))
         (ModelAttributeChange_init (Some ''t'') (Some ''1''))"
  by (simp add: to_tuple_ModelChange_def is_equal_ModelChange_def ModelAttributeChange_init_def)

text \<open>
  C6, as amended. Whenever \<open>is_equal\<close> holds of two entities, they are of one class, and
  the projection of one is defined exactly when that of the other is, with the same value;
  two model changes then have the same name, and two simulations or two parameters have no
  NaN among their float attributes. Conversely, two plain entities (no float attribute is a NaN, no model change has been
  given a name) of one class whose projections are defined and equal are \<open>is_equal\<close>,
  provided, for two documents, that their output lists agree as multisets under
  \<open>is_equal\<close>. The absent class \<open>Metadata\<close> is assumed to be consistent in the same way.
\<close>

theorem is_equal_to_tuple_amended:
  assumes "\<And>m m'. me m (Some m') \<longleftrightarrow> mt m = mt m'" "\<And>m. \<not> me m None" "\<And>m. mt m \<noteq> PNone"
  shows "(is_equal me a b \<longrightarrow>
            class_name a = class_name b \<and> (\<forall>t. to_tuple mt a = Inr t \<longleftrightarrow> to_tuple mt b = Inr t)
            \<and> (\<forall>x y. a = E_ModelChange x \<and> b = E_ModelChange y \<longrightarrow> mc_name x = mc_name y)
            \<and> ((\<exists>x. a = E_Simulation x) \<or> (\<exists>x. a = E_DataGeneratorParameter x)
                  \<longrightarrow> plain a \<and> plain b))
    \<and> (class_name a = class_name b \<and> plain a \<and> plain b
        \<and> (\<exists>t. to_tuple mt a = Inr t \<and> to_tuple mt b = Inr t)
        \<and> (\<forall>x y. a = E_SedDocument x \<and> b = E_SedDocument y
              \<longrightarrow> are_lists_equal is_equal_Output (outputs x) (outputs y))
       \<longrightarrow> is_equal me a b)"
proof (intro conjI impI)
  assume "is_equal me a b"
  then show "class_name a = class_name b" by (rule is_equal_class)
next
  assume "is_equal me a b"
  with assms(1,2) have "to_tuple mt a = to_tuple mt b"
    by (intro is_equal_imp_to_tuple[of me mt]) auto
  then show "\<forall>t. to_tuple mt a = Inr t \<longleftrightarrow> to_tuple mt b = Inr t" by simp
next
  assume "is_equal me a b"
  then show "\<forall>x y. a = E_ModelChange x \<and> b = E_ModelChange y \<longrightarrow> mc_name x = mc_name y"
    by (auto simp: is_equal_def is_equal_ModelChange_def)
next
  assume eq: "is_equal me a b"
    and "(\<exists>x. a = E_Simulation x) \<or> (\<exists>x. a = E_DataGeneratorParameter x)"
  then consider x where "a = E_Simulation x" | x where "a = E_DataGeneratorParameter x" by blast
  then have "plain a \<and> plain b"
  proof cases
    case 1
    with eq obtain y where "b = E_Simulation y" "is_equal_Simulation x y"
      by (cases b) (simp_all add: is_equal_def)
    with 1 is_equal_Simulation_no_nan[of x y] show ?thesis by simp
  next
    case 2
    with eq obtain y where "b = E_DataGeneratorParameter y" "is_equal_DataGeneratorParameter x y"
      by (cases b) (simp_all add: is_equal_def)
    with 2 is_equal_DataGeneratorParameter_no_nan[of x y] show ?thesis by simp
  qed
  then show "plain a" "plain b" by simp_all
next
  assume h: "class_name a = class_name b \<and> plain a \<and> plain b
        \<and> (\<exists>t. to_tuple mt a = Inr t \<and> to_tuple mt b = Inr t)
        \<and> (\<forall>x y. a = E_SedDocument x \<and> b = E_SedDocument y
              \<longrightarrow> are_lists_equal is_equal_Output (outputs x) (outputs y))"
  then obtain t where t: "to_tuple mt a = Inr t" "to_tuple mt b = Inr t" by blast
  from h have p: "plain a" "plain b" by simp_all
  show "is_equal me a b"
    by (rule to_tuple_imp_is_equal[of me mt, OF assms _ p t]) (use h in auto)
qed

theorem is_equal_to_tuple_amended_witness:
  "is_equal (\<lambda>(m :: unit) other. other = Some m)
     (E_SedDocument (SedDocument 1 3
        [Model (Some ''m'') None None None [ModelAttributeChange_init (Some ''/k'') (Some ''2'')]]
        [SteadyStateSimulation (Some ''s1'') None None,
         OneStepSimulation (Some ''s2'') None None (Some (Float 1))]
        [] [] [Report (Some ''r'') None [], Plot2D (Some ''p'') None []] (Some ())))
     (E_SedDocument (SedDocument 1 3
        [Model (Some ''m'') None None None [ModelAttributeChange_init (Some ''/k'') (Some ''2'')]]
        [OneStepSimulation (Some ''s2'') None None (Some (Float 1)),
         SteadyStateSimulation (Some ''s1'') None None]
        [] [] [Plot2D (Some ''p'') None [], Report (Some ''r'') None []] (Some ())))
   \<and> to_tuple (\<lambda>m :: unit. PTuple [])
     (E_SedDocument (SedDocument 1 3
        [Model (Some ''m'') None None None [ModelAttributeChange_init (Some ''/k'') (Some ''2'')]]
        [SteadyStateSimulation (Some ''s1'') None None,
         OneStepSimulation (Some ''s2'') None None (Some (Float 1))]
        [] [] [Report (Some ''r'') None [], Plot2D (Some ''p'') None []] (Some ())))
    = to_tuple (\<lambda>m :: unit. PTuple [])
     (E_SedDocument (SedDocument 1 3
        [Model (Some ''m'') None None None [ModelAttributeChange_init (Some ''/k'') (Some ''2'')]]
        [OneStepSimulation (Some ''s2'') None None (Some (Float 1)),
         SteadyStateSimulation (Some ''s1'') None None]
        [] [] [Plot2D (Some ''p'') None [], Report (Some ''r'') None []] (Some ())))
   \<and> plain (E_SedDocument (SedDocument 1 3
        [Model (Some ''m'') None None None [ModelAttributeChange_init (Some ''/k'') (Some ''2'')]]
        [SteadyStateSimulation (Some ''s1'') None None,
         OneStepSimulation (Some ''s2'') None None (Some (Float 1))]
        [] [] [Report (Some ''r'') None [], Plot2D (Some ''p'') None []] (Some ())) :: unit entity)
   \<and> are_lists_equal is_equal_Output
        [Report (Some ''r'') None [], Plot2D (Some ''p'') None []]
        [Plot2D (Some ''p'') None [], Report (Some ''r'') None []]"
proof -
  let ?me = "\<lambda>(m :: unit) other. other = Some m"
  let ?mt = "\<lambda>m :: unit. PTuple []"
  let ?ms = "[Model (Some ''m'') None None None [ModelAttributeChange_init (Some ''/k'') (Some ''2'')]]"
  let ?a = "E_SedDocument (SedDocument 1 3 ?ms
        [SteadyStateSimulation (Some ''s1'') None None,
         OneStepSimulation (Some ''s2'') None None (Some (Float 1))]
        [] [] [Report (Some ''r'') None [], Plot2D (Some ''p'') None []] (Some ())) :: unit entity"
  let ?b = "E_SedDocument (SedDocument 1 3 ?ms
        [OneStepSimulation (Some ''s2'') None None (Some (Float 1)),
         SteadyStateSimulation (Some ''s1'') None None]
        [] [] [Plot2D (Some ''p'') None [], Report (Some ''r'') None []] (Some ())) :: unit entity"
  have eq: "is_equal ?me ?a ?b"
    by (simp add: is_equal_def is_equal_SedDocument_def opt_is_equal_def is_equal_Model_def
        is_equal_ModelChange_def ModelAttributeChange_init_def attr_float_eq_def float_eq_def)
  have pl: "plain ?a"
    by (simp add: plain_SedDocument_def plain_Model_def plain_ModelChange_def plain_float_def
        ModelAttributeChange_init_def)
  have md: "\<And>m m'. ?me m (Some m') \<longleftrightarrow> ?mt m = ?mt m'" "\<And>m. \<not> ?me m None" "\<And>m. ?mt m \<noteq> PNone"
    by simp_all
  have "(is_equal ?me ?a ?b \<longrightarrow>
      class_name ?a = class_name ?b \<and> (\<forall>t. to_tuple ?mt ?a = Inr t \<longleftrightarrow> to_tuple ?mt ?b = Inr t))"
    using is_equal_to_tuple_amended[of ?me ?mt ?a ?b, OF md] by blast
  with eq have "to_tuple ?mt ?a = to_tuple ?mt ?b" by simp
  moreover have "are_lists_equal is_equal_Output
        [Report (Some ''r'') None [], Plot2D (Some ''p'') None []]
        [Plot2D (Some ''p'') None [], Report (Some ''r'') None []]"
    by simp
  ultimately show ?thesis using eq pl by blast
qed

text \<open>
  The claim of C6 as stated fails across classes: a report and a plot with the same id, the
  same name and no children have the same projection, and are not \<open>is_equal\<close>.
\<close>

theorem is_equal_to_tuple_counterexample:
  "to_tuple_Output (Report (Some ''out'') None []) = to_tuple_Output (Plot2D (Some ''out'') None [])
   \<and> \<not> is_equal_Output (Report (Some ''out'') None []) (Plot2D (Some ''out'') None [])"
  by (simp add: none_sorted_def)

section \<open>The executor, step by step\<close>

subsection \<open>What each step leaves alone\<close>

lemma cleanup_Cons:
  "cleanup (n # ns) st =
     (if n \<in> set (disk st) then cleanup ns (st\<lparr>disk := removeAll n (disk st)\<rparr>)
      else (st, Inl (FileNotFoundError n)))"
  by (simp add: os_remove_def)

lemma cleanup_frame:
  "cleanup ns st = (st', r) \<Longrightarrow>
     model_heap st' = model_heap st \<and> doc_heap st' = doc_heap st \<and> calls st' = calls st
     \<and> warnings st' = warnings st \<and> written st' = written st"
proof (induction ns arbitrary: st)
  case Nil
  then show ?case by auto
next
  case (Cons n ns)
  show ?case
  proof (cases "n \<in> set (disk st)")
    case True
    with Cons.prems have "cleanup ns (st\<lparr>disk := removeAll n (disk st)\<rparr>) = (st', r)"
      by (simp add: cleanup_Cons del: cleanup.simps)
    from Cons.IH[OF this] show ?thesis by simp
  next
    case False
    with Cons.prems show ?thesis by (auto simp: cleanup_Cons simp del: cleanup.simps)
  qed
qed

lemma exec_tasks_frame:
  "exec_tasks env ex doc ts vr st = (st', r) \<Longrightarrow>
     model_heap st' = model_heap st \<and> doc_heap st' = doc_heap st \<and> disk st' = disk st
     \<and> warnings st' = warnings st \<and> written st' = written st"
proof (induction ts arbitrary: vr st)
  case Nil
  then show ?case by auto
next
  case (Cons t ts)
  let ?vars = "get_variables_for_task env doc t"
  let ?st1 = "st\<lparr>calls := calls st @ [(t, ?vars)]\<rparr>"
  show ?case
  proof (cases "ex (model_heap st) t ?vars")
    case (Inl e)
    with Cons.prems show ?thesis by (auto simp: Let_def)
  next
    case (Inr res)
    show ?thesis
    proof (cases "record_variables t ?vars res vr")
      case (Inl e)
      with Inr Cons.prems show ?thesis by (auto simp: Let_def)
    next
      case (Inr vr')
      with \<open>ex (model_heap st) t ?vars = Inr res\<close> Cons.prems
      have "exec_tasks env ex doc ts vr' ?st1 = (st', r)" by (simp add: Let_def)
      from Cons.IH[OF this] show ?thesis by simp
    qed
  qed
qed

lemma write_report_frame:
  "write_report env df b rel i fs st = (st', r) \<Longrightarrow>
     model_heap st' = model_heap st \<and> doc_heap st' = doc_heap st \<and> disk st' = disk st
     \<and> calls st' = calls st \<and> warnings st' = warnings st"
proof (induction fs arbitrary: st)
  case Nil
  then show ?case by auto
next
  case (Cons f fs)
  show ?case
  proof (cases "report_path rel i")
    case (Inl e)
    with Cons.prems show ?thesis by auto
  next
    case (Inr path)
    show ?thesis
    proof (cases "report_writer env df b path f")
      case None
      with Inr Cons.prems
      have "write_report env df b rel i fs (st\<lparr>written := written st @ [(df, b, path, f)]\<rparr>) = (st', r)"
        by simp
      from Cons.IH[OF this] show ?thesis by simp
    next
      case (Some e)
      with Inr Cons.prems show ?thesis by auto
    qed
  qed
qed


lemma exec_output_frame:
  "exec_output env dgr b rel fs out rr st = (st', r) \<Longrightarrow>
     model_heap st' = model_heap st \<and> doc_heap st' = doc_heap st \<and> disk st' = disk st
     \<and> calls st' = calls st"
proof (cases out)
  case (Report i n dss)
  assume run: "exec_output env dgr b rel fs out rr st = (st', r)"
  show ?thesis
  proof (cases "collect_data_sets dgr dss")
    case (Inl e)
    with run Report show ?thesis by auto
  next
    case (Inr lr)
    obtain labels results where lr: "lr = (labels, results)" by (cases lr)
    let ?st1 = "if card (set labels) < length labels then
                  st\<lparr>warnings := warnings st @
                    [IllogicalSedmlWarning
                       ''To facilitate machine interpretation, data sets should have unique ids'']\<rparr>
                else st"
    have st1: "model_heap ?st1 = model_heap st \<and> doc_heap ?st1 = doc_heap st
        \<and> disk ?st1 = disk st \<and> calls ?st1 = calls st" by simp
    show ?thesis
    proof (cases "card (set (map shape results)) > 1")
      case True
      with run Report Inr lr show ?thesis by auto
    next
      case False
      show ?thesis
      proof (cases "dataframe_error env results labels")
        case (Some e)
        with run Report Inr lr False st1 show ?thesis by (auto simp: Let_def)
      next
        case None
        obtain st2 r2 where w: "write_report env (DataFrame results labels) b rel i fs ?st1 = (st2, r2)"
          by (cases "write_report env (DataFrame results labels) b rel i fs ?st1")
        from write_report_frame[OF w] st1
        have st2: "model_heap st2 = model_heap st \<and> doc_heap st2 = doc_heap st
          \<and> disk st2 = disk st \<and> calls st2 = calls st" by simp
        from run Report Inr lr False None w have "st' = st2"
          by (cases r2) (auto simp: Let_def)
        with st2 show ?thesis by simp
      qed
    qed
  qed
next
  case (Plot2D i n cs)
  assume "exec_output env dgr b rel fs out rr st = (st', r)"
  with Plot2D show ?thesis by auto
next
  case (Plot3D i n ss)
  assume "exec_output env dgr b rel fs out rr st = (st', r)"
  with Plot3D show ?thesis by auto
qed

lemma exec_outputs_frame:
  "exec_outputs env dgr b rel fs outs rr st = (st', r) \<Longrightarrow>
     model_heap st' = model_heap st \<and> doc_heap st' = doc_heap st \<and> disk st' = disk st
     \<and> calls st' = calls st"
proof (induction outs arbitrary: rr st)
  case Nil
  then show ?case by auto
next
  case (Cons out outs)
  obtain st1 r1 where o: "exec_output env dgr b rel fs out rr st = (st1, r1)"
    by (cases "exec_output env dgr b rel fs out rr st")
  note f1 = exec_output_frame[OF o]
  show ?case
  proof (cases r1)
    case (Inl e)
    with o Cons.prems f1 show ?thesis by auto
  next
    case (Inr rr')
    with o Cons.prems have "exec_outputs env dgr b rel fs outs rr' st1 = (st', r)" by simp
    from Cons.IH[OF this] f1 show ?thesis by simp
  qed
qed

lemma run_tasks_frame:
  "run_tasks env ex d st = (st', r) \<Longrightarrow>
     model_heap st' = model_heap st \<and> disk st' = disk st
     \<and> warnings st' = warnings st \<and> written st' = written st
     \<and> take d (doc_heap st') = take d (doc_heap st)
     \<and> length (doc_heap st') = length (doc_heap st)"
  by (auto simp: run_tasks_def Let_def split: sum.splits dest!: exec_tasks_frame)

lemma apply_model_changes_frame:
  "apply_model_changes env wd ap as mods st = (st', r) \<Longrightarrow> \<forall>a \<in> set as. n \<le> a \<Longrightarrow>
     take n (model_heap st') = take n (model_heap st)
     \<and> length (model_heap st') = length (model_heap st)
     \<and> doc_heap st' = doc_heap st \<and> calls st' = calls st
     \<and> warnings st' = warnings st \<and> written st' = written st"
proof (induction as arbitrary: mods st)
  case Nil
  then show ?case by auto
next
  case (Cons a as)
  from Cons.prems(2) have na: "n \<le> a" and rest: "\<forall>a \<in> set as. n \<le> a" by auto
  show ?case
  proof (cases "a < length (model_heap st)")
    case False
    with Cons.prems(1) show ?thesis by auto
  next
    case True
    let ?model = "model_heap st ! a"
    show ?thesis
    proof (cases "model_source ?model")
      case None
      with True Cons.prems(1) show ?thesis by auto
    next
      case (Some source)
      let ?source1 = "if \<not> isabs source then path_join wd source else source"
      let ?st1 = "st\<lparr>model_heap := (model_heap st)[a := set_source ?source1 ?model]\<rparr>"
      show ?thesis
      proof (cases "ap \<and> model_changes ?model \<noteq> []")
        case False
        with True Some Cons.prems(1)
        have "apply_model_changes env wd ap as mods ?st1 = (st', r)"
          by (auto simp: Let_def)
        from Cons.IH[OF this rest] na show ?thesis by simp
      next
        case chg: True
        let ?tmp = "mkstemp (disk ?st1)"
        let ?st2 = "?st1\<lparr>disk := disk ?st1 @ [?tmp]\<rparr>"
        show ?thesis
        proof (cases "apply_changes_to_xml_model env (model_changes ?model) ?source1 ?tmp")
          case (Some e)
          with True \<open>model_source ?model = Some source\<close> chg Cons.prems(1) na
          show ?thesis by (auto simp: Let_def)
        next
          case None
          with True \<open>model_source ?model = Some source\<close> chg Cons.prems(1)
          have "apply_model_changes env wd ap as (mods @ [?tmp])
                  (?st2\<lparr>model_heap := (model_heap ?st2)[a := set_source ?tmp ?model]\<rparr>) = (st', r)"
            by (auto simp: Let_def)
          from Cons.IH[OF this rest] na show ?thesis by simp
        qed
      qed
    qed
  qed
qed


lemma allocate_frame:
  "allocate parsed st = (st', d) \<Longrightarrow>
     model_heap st' = model_heap st @ fst parsed
     \<and> doc_heap st' = doc_heap st
          @ [map_SedDocument (\<lambda>i. length (model_heap st) + i) (\<lambda>m. m) (snd parsed)]
     \<and> d = length (doc_heap st)
     \<and> disk st' = disk st \<and> calls st' = calls st
     \<and> warnings st' = warnings st \<and> written st' = written st"
  by (auto simp: allocate_def Let_def)

lemma allocate_fresh:
  assumes "allocate parsed st = (st', d)"
  shows "take (length (model_heap st)) (model_heap st') = model_heap st"
    and "take (length (doc_heap st)) (doc_heap st') = doc_heap st"
    and "d = length (doc_heap st)" and "d < length (doc_heap st')"
    and "\<forall>a \<in> set (models (doc_heap st' ! d)). length (model_heap st) \<le> a"
    and "disk st' = disk st \<and> calls st' = calls st \<and> warnings st' = warnings st
         \<and> written st' = written st"
  using allocate_frame[OF assms] by (auto simp: SedDocument.map_sel)

lemma deepcopy_cases:
  "deepcopy d st =
     (if d < length (doc_heap st)
         \<and> (\<forall>a \<in> set (doc_refs (doc_heap st ! d)). a < length (model_heap st))
      then (fst (allocate (map (\<lambda>a. model_heap st ! a) (remdups (doc_refs (doc_heap st ! d))),
                          map_SedDocument (index_of (remdups (doc_refs (doc_heap st ! d)))) (\<lambda>m. m)
                            (doc_heap st ! d)) st),
            Inr (snd (allocate (map (\<lambda>a. model_heap st ! a) (remdups (doc_refs (doc_heap st ! d))),
                          map_SedDocument (index_of (remdups (doc_refs (doc_heap st ! d)))) (\<lambda>m. m)
                            (doc_heap st ! d)) st)))
      else (st, Inl AttributeError))"
  by (simp add: deepcopy_def Let_def split: prod.splits)

lemma load_doc_frame:
  assumes "load_doc env doc st = (st', r)"
  shows "take (length (model_heap st)) (model_heap st') = model_heap st"
    and "take (length (doc_heap st)) (doc_heap st') = doc_heap st"
    and "disk st' = disk st \<and> calls st' = calls st \<and> warnings st' = warnings st
         \<and> written st' = written st"
    and "r = Inr d \<Longrightarrow> d = length (doc_heap st) \<and> d < length (doc_heap st')
         \<and> (\<forall>a \<in> set (models (doc_heap st' ! d)). length (model_heap st) \<le> a)"
proof -
  have "take (length (model_heap st)) (model_heap st') = model_heap st
    \<and> take (length (doc_heap st)) (doc_heap st') = doc_heap st
    \<and> (disk st' = disk st \<and> calls st' = calls st \<and> warnings st' = warnings st
         \<and> written st' = written st)
    \<and> (r = Inr d \<longrightarrow> d = length (doc_heap st) \<and> d < length (doc_heap st')
         \<and> (\<forall>a \<in> set (models (doc_heap st' ! d)). length (model_heap st) \<le> a))"
  proof (cases doc)
    case (Path p)
    show ?thesis
    proof (cases "reader env p")
      case (Inl e)
      with assms Path show ?thesis by (auto simp: load_doc_def)
    next
      case (Inr parsed)
      obtain st1 d1 where a: "allocate parsed st = (st1, d1)" by (cases "allocate parsed st")
      with assms Path Inr have "st' = st1" "r = Inr d1" by (auto simp: load_doc_def)
      with allocate_fresh[OF a] show ?thesis by auto
    qed
  next
    case (Doc d0)
    show ?thesis
    proof (cases "d0 < length (doc_heap st) \<and>
        (\<forall>a \<in> set (doc_refs (doc_heap st ! d0)). a < length (model_heap st))")
      case False
      with assms Doc show ?thesis by (auto simp: load_doc_def deepcopy_cases)
    next
      case True
      let ?reach = "remdups (doc_refs (doc_heap st ! d0))"
      let ?parsed = "(map (\<lambda>a. model_heap st ! a) ?reach,
                      map_SedDocument (index_of ?reach) (\<lambda>m. m) (doc_heap st ! d0))"
      obtain st1 d1 where a: "allocate ?parsed st = (st1, d1)" by (cases "allocate ?parsed st")
      with assms Doc True have "st' = st1" "r = Inr d1"
        by (auto simp: load_doc_def deepcopy_cases)
      with allocate_fresh[OF a] show ?thesis by auto
    qed
  qed
  then show "take (length (model_heap st)) (model_heap st') = model_heap st"
    and "take (length (doc_heap st)) (doc_heap st') = doc_heap st"
    and "disk st' = disk st \<and> calls st' = calls st \<and> warnings st' = warnings st
         \<and> written st' = written st"
    and "r = Inr d \<Longrightarrow> d = length (doc_heap st) \<and> d < length (doc_heap st')
         \<and> (\<forall>a \<in> set (models (doc_heap st' ! d)). length (model_heap st) \<le> a)"
    by auto
qed

text \<open>The ways in which the statements before the outputs end.\<close>

lemma run_until_outputs_cases:
  assumes "run_until_outputs env doc wd ex ap rf pf st = (st', r)"
  obtains
    (load) e where "load_doc env doc st = (st', Inl e)" "r = Inl e"
  | (formats) d e where "load_doc env doc st = (st', Inr d)" "r = Inl (ExternalError e)"
  | (changes) d st0 e where "load_doc env doc st = (st0, Inr d)"
      "apply_model_changes env wd ap (models (doc_heap st0 ! d)) [] st0 = (st', Inl e)" "r = Inl e"
  | (tasks) d st0 st1 mods e where "load_doc env doc st = (st0, Inr d)"
      "apply_model_changes env wd ap (models (doc_heap st0 ! d)) [] st0 = (st1, Inr mods)"
      "run_tasks env ex d st1 = (st', Inl e)" "r = Inl e"
  | (datagens) d st0 st1 mods vr e where "load_doc env doc st = (st0, Inr d)"
      "apply_model_changes env wd ap (models (doc_heap st0 ! d)) [] st0 = (st1, Inr mods)"
      "run_tasks env ex d st1 = (st', Inr vr)"
      "calc_data_generators env (data_generators (doc_heap st' ! d)) vr Map.empty = Inl e"
      "r = Inl e"
  | (ready) d st0 st1 mods vr fs dgr where "load_doc env doc st = (st0, Inr d)"
      "apply_model_changes env wd ap (models (doc_heap st0 ! d)) [] st0 = (st1, Inr mods)"
      "run_tasks env ex d st1 = (st', Inr vr)"
      "calc_data_generators env (data_generators (doc_heap st' ! d)) vr Map.empty = Inr dgr"
      "r = Inr (d, fs, mods, vr, dgr)"
  using assms unfolding run_until_outputs_def
  by (auto split: prod.splits sum.splits option.splits)

lemma run_until_outputs_frame:
  assumes run: "run_until_outputs env doc wd ex ap rf pf st = (st', r)"
  shows "take (length (doc_heap st)) (doc_heap st') = doc_heap st
       \<and> take (length (model_heap st)) (model_heap st') = model_heap st
       \<and> warnings st' = warnings st \<and> written st' = written st
       \<and> (\<forall>x. r = Inr x \<longrightarrow> fst x = length (doc_heap st) \<and> fst x < length (doc_heap st'))"
proof -
  have after_load:
    "take (length (doc_heap st)) (doc_heap st0) = doc_heap st
       \<and> take (length (model_heap st)) (model_heap st0) = model_heap st
       \<and> warnings st0 = warnings st \<and> written st0 = written st"
    if l: "load_doc env doc st = (st0, r0)" for st0 r0
    using load_doc_frame(1,2,3)[OF l] by simp
  have after_changes:
    "take (length (doc_heap st)) (doc_heap st1) = doc_heap st
       \<and> take (length (model_heap st)) (model_heap st1) = model_heap st
       \<and> warnings st1 = warnings st \<and> written st1 = written st
       \<and> d = length (doc_heap st) \<and> d < length (doc_heap st1)"
    if l: "load_doc env doc st = (st0, Inr d)"
      and c: "apply_model_changes env wd ap (models (doc_heap st0 ! d)) [] st0 = (st1, r1)"
    for st0 st1 d r1
  proof -
    from load_doc_frame(4)[OF l, of d]
    have d: "d = length (doc_heap st)" "d < length (doc_heap st0)"
      and fresh: "\<forall>a \<in> set (models (doc_heap st0 ! d)). length (model_heap st) \<le> a" by auto
    from apply_model_changes_frame[OF c fresh] after_load[OF l] d
    show ?thesis by simp
  qed
  have after_tasks:
    "take (length (doc_heap st)) (doc_heap st2) = doc_heap st
       \<and> take (length (model_heap st)) (model_heap st2) = model_heap st
       \<and> warnings st2 = warnings st \<and> written st2 = written st
       \<and> d = length (doc_heap st) \<and> d < length (doc_heap st2)"
    if l: "load_doc env doc st = (st0, Inr d)"
      and c: "apply_model_changes env wd ap (models (doc_heap st0 ! d)) [] st0 = (st1, r1)"
      and t: "run_tasks env ex d st1 = (st2, r2)"
    for st0 st1 st2 d r1 r2
    using after_changes[OF l c] run_tasks_frame[OF t] by simp
  from run show ?thesis
  proof (cases rule: run_until_outputs_cases)
    case (load e)
    with after_load[OF load(1)] show ?thesis by simp
  next
    case (formats d e)
    with after_load[OF formats(1)] show ?thesis by simp
  next
    case (changes d st0 e)
    with after_changes[OF changes(1,2)] show ?thesis by simp
  next
    case (tasks d st0 st1 mods e)
    with after_tasks[OF tasks(1,2,3)] show ?thesis by simp
  next
    case (datagens d st0 st1 mods vr e)
    with after_tasks[OF datagens(1,2,3)] show ?thesis by simp
  next
    case (ready d st0 st1 mods vr fs dgr)
    with after_tasks[OF ready(1,2,3)] show ?thesis by simp
  qed
qed

text \<open>The ways in which \<open>exec_doc\<close> ends.\<close>

lemma exec_doc_phases:
  assumes "exec_doc env doc wd ex b rel ap rf pf st = (st', r)"
  obtains
    (before) e where "run_until_outputs env doc wd ex ap rf pf st = (st', Inl e)" "r = Inl e"
  | (outputs) d st2 mods vr fs dgr e where
      "run_until_outputs env doc wd ex ap rf pf st = (st2, Inr (d, fs, mods, vr, dgr))"
      "exec_outputs env dgr b rel fs (outputs (doc_heap st2 ! d)) Map.empty st2 = (st', Inl e)"
      "r = Inl e"
  | (cleanup) d st2 st3 mods vr fs dgr rr e where
      "run_until_outputs env doc wd ex ap rf pf st = (st2, Inr (d, fs, mods, vr, dgr))"
      "exec_outputs env dgr b rel fs (outputs (doc_heap st2 ! d)) Map.empty st2 = (st3, Inr rr)"
      "cleanup mods st3 = (st', Inl e)" "r = Inl e"
  | (return) d st2 st3 mods vr fs dgr rr u where
      "run_until_outputs env doc wd ex ap rf pf st = (st2, Inr (d, fs, mods, vr, dgr))"
      "exec_outputs env dgr b rel fs (outputs (doc_heap st2 ! d)) Map.empty st2 = (st3, Inr rr)"
      "cleanup mods st3 = (st', Inr u)" "r = Inr (rr, vr)"
  using assms unfolding exec_doc_def
  by (auto split: prod.splits sum.splits)

lemma exec_doc_frame:
  assumes run: "exec_doc env doc wd ex b rel ap rf pf st = (st', r)"
  shows "take (length (doc_heap st)) (doc_heap st') = doc_heap st
       \<and> take (length (model_heap st)) (model_heap st') = model_heap st"
  using run
proof (cases rule: exec_doc_phases)
  case (before e)
  from run_until_outputs_frame[OF before(1)] show ?thesis by simp
next
  case (outputs d st2 mods vr fs dgr e)
  from run_until_outputs_frame[OF outputs(1)] exec_outputs_frame[OF outputs(2)]
  show ?thesis by simp
next
  case (cleanup d st2 st3 mods vr fs dgr rr e)
  from run_until_outputs_frame[OF cleanup(1)] exec_outputs_frame[OF cleanup(2)]
    cleanup_frame[OF cleanup(3)]
  show ?thesis by simp
next
  case (return d st2 st3 mods vr fs dgr rr u)
  from run_until_outputs_frame[OF return(1)] exec_outputs_frame[OF return(2)]
    cleanup_frame[OF return(3)]
  show ?thesis by simp
qed

text \<open>
  C8. When \<open>exec_doc\<close> is given a document of the store, the store holds on return or raise,
  at every address that was in use before the call, what it held before: the
  document of the caller, with its list of tasks, and the models it refers to, with their
  sources, are unchanged. The executor works on a deep copy, put at fresh addresses.
\<close>

theorem exec_doc_preserves_caller_document:
  assumes "exec_doc env (Doc d) wd ex b rel ap rf pf st = (st', r)"
    and "d < length (doc_heap st)"
  shows "doc_heap st' ! d = doc_heap st ! d
       \<and> (\<forall>a \<in> set (doc_refs (doc_heap st ! d)).
            a < length (model_heap st) \<longrightarrow> model_heap st' ! a = model_heap st ! a)
       \<and> take (length (doc_heap st)) (doc_heap st') = doc_heap st
       \<and> take (length (model_heap st)) (model_heap st') = model_heap st"
proof -
  note f = exec_doc_frame[OF assms(1)]
  from f assms(2) have "doc_heap st' ! d = doc_heap st ! d"
    by (metis nth_take)
  moreover have "model_heap st' ! a = model_heap st ! a" if "a < length (model_heap st)" for a
    using f that by (metis nth_take)
  ultimately show ?thesis using f by simp
qed

theorem exec_doc_preserves_caller_document_witness:
  "(0::nat) < length (doc_heap example_world)
   \<and> doc_heap (fst (exec_doc example_env (Doc 0) ''/wd'' example_executer ''/out'' None True None None
        example_world)) ! 0 = example_doc
   \<and> model_heap (fst (exec_doc example_env (Doc 0) ''/wd'' example_executer ''/out'' None True None None
        example_world)) ! 0 = example_model
   \<and> model_source (model_heap (fst (exec_doc example_env (Doc 0) ''/wd'' example_executer ''/out'' None
        True None None example_world)) ! 1) = Some ''/tmp/tmp.xml''
   \<and> map task_id (tasks (doc_heap (fst (exec_doc example_env (Doc 0) ''/wd'' example_executer ''/out''
        None True None None example_world)) ! 1)) = [Some ''a'', Some ''b'']"
proof -
  obtain st' r where run: "exec_doc example_env (Doc 0) ''/wd'' example_executer ''/out'' None True
      None None example_world = (st', r)"
    by (cases "exec_doc example_env (Doc 0) ''/wd'' example_executer ''/out'' None True None None
      example_world")
  have d: "(0::nat) < length (doc_heap example_world)" by (simp add: example_world_def)
  have refs: "0 \<in> set (doc_refs (doc_heap example_world ! 0))"
    by (simp add: example_world_def example_doc_def doc_refs_def)
  have m: "(0::nat) < length (model_heap example_world)" by (simp add: example_world_def)
  from exec_doc_preserves_caller_document[OF run d] refs m
  have "doc_heap st' ! 0 = doc_heap example_world ! 0"
    "model_heap st' ! 0 = model_heap example_world ! 0" by auto
  then have keep: "doc_heap st' ! 0 = example_doc" "model_heap st' ! 0 = example_model"
    by (simp_all add: example_world_def)
  have copy: "model_source (model_heap (fst (exec_doc example_env (Doc 0) ''/wd'' example_executer
        ''/out'' None True None None example_world)) ! 1) = Some ''/tmp/tmp.xml''
    \<and> map task_id (tasks (doc_heap (fst (exec_doc example_env (Doc 0) ''/wd'' example_executer ''/out''
        None True None None example_world)) ! 1)) = [Some ''a'', Some ''b'']"
    by code_simp
  from keep copy d run show ?thesis by simp
qed

subsection \<open>The calls of the task executer\<close>

lemma insort_key_map:
  assumes "\<And>x. k (g x) = k' x"
  shows "insort_key k (g x) (map g ys) = map g (insort_key k' x ys)"
  by (induction ys) (simp_all add: assms)

lemma sort_key_map:
  assumes "\<And>x. k (g x) = k' x"
  shows "sort_key k (map g xs) = map g (sort_key k' xs)"
  by (induction xs) (simp_all add: insort_key_map[of k g k', OF assms])

lemma task_key_map_Task: "task_key (map_Task f t) = task_key t"
  by (cases t) (simp add: task_key_def)

lemma exec_tasks_calls:
  "exec_tasks env ex doc ts vr st = (st', r) \<Longrightarrow>
     \<exists>k \<le> length ts.
       calls st' = calls st @ map (\<lambda>t. (t, get_variables_for_task env doc t)) (take k ts)
       \<and> (\<forall>vr'. r = Inr vr' \<longrightarrow> k = length ts)"
proof (induction ts arbitrary: vr st)
  case Nil
  then show ?case by auto
next
  case (Cons t ts)
  let ?vars = "get_variables_for_task env doc t"
  let ?st1 = "st\<lparr>calls := calls st @ [(t, ?vars)]\<rparr>"
  have one: "\<exists>k \<le> length (t # ts).
       calls ?st1 = calls st @ map (\<lambda>t. (t, get_variables_for_task env doc t)) (take k (t # ts))
       \<and> k \<noteq> length (t # ts) + 1"
    by (rule exI[of _ 1]) simp
  show ?case
  proof (cases "ex (model_heap st) t ?vars")
    case (Inl e)
    with Cons.prems have "st' = ?st1" "r = Inl (ExternalError e)" by (auto simp: Let_def)
    then show ?thesis by (intro exI[of _ 1]) simp
  next
    case (Inr res)
    show ?thesis
    proof (cases "record_variables t ?vars res vr")
      case (Inl e)
      with Inr Cons.prems have "st' = ?st1" "r = Inl e" by (auto simp: Let_def)
      then show ?thesis by (intro exI[of _ 1]) simp
    next
      case (Inr vr')
      with \<open>ex (model_heap st) t ?vars = Inr res\<close> Cons.prems
      have "exec_tasks env ex doc ts vr' ?st1 = (st', r)" by (simp add: Let_def)
      from Cons.IH[OF this] obtain k where k: "k \<le> length ts"
        "calls st' = calls ?st1 @ map (\<lambda>t. (t, get_variables_for_task env doc t)) (take k ts)"
        "\<forall>vr'. r = Inr vr' \<longrightarrow> k = length ts" by blast
      then show ?thesis by (intro exI[of _ "Suc k"]) simp
    qed
  qed
qed

lemma run_tasks_calls:
  assumes "run_tasks env ex d st = (st', r)" and "d < length (doc_heap st)"
  shows "\<exists>k \<le> length (tasks (doc_heap st ! d)).
       map fst (calls st') = map fst (calls st) @ take k (sort_key task_key (tasks (doc_heap st ! d)))
       \<and> (\<forall>vr. r = Inr vr \<longrightarrow> k = length (tasks (doc_heap st ! d))
              \<and> (\<forall>t \<in> set (tasks (doc_heap st ! d)). task_id t \<noteq> None))"
proof (cases "\<exists>t \<in> set (tasks (doc_heap st ! d)). task_id t = None")
  case True
  with assms(1) have "st' = st" "r = Inl TypeError" by (auto simp: run_tasks_def sort_tasks_def)
  then show ?thesis by (intro exI[of _ 0]) simp
next
  case False
  let ?sorted = "sort_key task_key (tasks (doc_heap st ! d))"
  let ?st1 = "st\<lparr>doc_heap := (doc_heap st)[d := set_tasks ?sorted (doc_heap st ! d)]\<rparr>"
  have "sort_tasks (tasks (doc_heap st ! d)) = Inr ?sorted"
    unfolding sort_tasks_def using False by (simp only: if_False)
  with assms(1) have "exec_tasks env ex (doc_heap ?st1 ! d) ?sorted Map.empty ?st1 = (st', r)"
    by (simp add: run_tasks_def Let_def)
  from exec_tasks_calls[OF this] obtain k where k: "k \<le> length ?sorted"
    "calls st' = calls ?st1
       @ map (\<lambda>t. (t, get_variables_for_task env (doc_heap ?st1 ! d) t)) (take k ?sorted)"
    "\<forall>vr'. r = Inr vr' \<longrightarrow> k = length ?sorted" by blast
  have "map fst (calls st') = map fst (calls st) @ take k ?sorted"
    using k(2) by (simp add: comp_def)
  with k(1,3) False show ?thesis by (intro exI[of _ k]) auto
qed

lemma load_doc_input:
  assumes "load_doc env doc st = (st0, Inr d)"
  shows "\<exists>sed f. input_document env doc st = Some sed
          \<and> doc_heap st0 ! d = map_SedDocument f (\<lambda>m. m) sed"
proof (cases doc)
  case (Path p)
  show ?thesis
  proof (cases "reader env p")
    case (Inl e)
    with assms Path show ?thesis by (simp add: load_doc_def)
  next
    case (Inr parsed)
    obtain st1 d1 where a: "allocate parsed st = (st1, d1)" by (cases "allocate parsed st")
    with assms Path Inr have "st0 = st1" "d = d1" by (auto simp: load_doc_def)
    with allocate_frame[OF a] Path Inr show ?thesis
      by (auto simp: input_document_def)
  qed
next
  case (Doc d0)
  let ?ok = "d0 < length (doc_heap st)
      \<and> (\<forall>a \<in> set (doc_refs (doc_heap st ! d0)). a < length (model_heap st))"
  let ?reach = "remdups (doc_refs (doc_heap st ! d0))"
  let ?parsed = "(map (\<lambda>a. model_heap st ! a) ?reach,
                  map_SedDocument (index_of ?reach) (\<lambda>m. m) (doc_heap st ! d0))"
  from assms Doc have ok: ?ok by (auto simp: load_doc_def deepcopy_cases split: if_splits)
  obtain st1 d1 where a: "allocate ?parsed st = (st1, d1)" by (cases "allocate ?parsed st")
  with assms Doc ok have "st0 = st1" "d = d1" by (auto simp: load_doc_def deepcopy_cases)
  with allocate_frame[OF a] Doc ok show ?thesis
    by (auto simp: input_document_def SedDocument.map_comp comp_def)
qed


lemma tasks_phase_calls:
  assumes l: "load_doc env doc st = (st0, Inr d)"
    and c: "apply_model_changes env wd ap (models (doc_heap st0 ! d)) [] st0 = (st1, Inr mods)"
    and t: "run_tasks env ex d st1 = (st2, r2)"
    and input: "input_document env doc st = Some sed"
  shows "\<exists>k f. k \<le> length (tasks sed)
      \<and> map fst (calls st2)
          = map fst (calls st) @ map (map_Task f) (take k (sort_key task_key (tasks sed)))
      \<and> (\<forall>vr. r2 = Inr vr \<longrightarrow> k = length (tasks sed)
            \<and> (\<forall>t \<in> set (tasks sed). task_id t \<noteq> None))"
proof -
  from load_doc_input[OF l] input obtain f where
    f: "doc_heap st0 ! d = map_SedDocument f (\<lambda>m. m) sed" by auto
  from load_doc_frame(4)[OF l, of d] have d: "d < length (doc_heap st0)" by simp
  from load_doc_frame(3)[OF l] have c0: "calls st0 = calls st" by simp
  have fresh: "\<forall>a \<in> set (models (doc_heap st0 ! d)). 0 \<le> a" by simp
  from apply_model_changes_frame[OF c fresh]
  have c1: "doc_heap st1 = doc_heap st0" "calls st1 = calls st0" by simp_all
  have ts: "tasks (doc_heap st1 ! d) = map (map_Task f) (tasks sed)"
    using c1 f by (simp add: SedDocument.map_sel)
  have sorted: "sort_key task_key (tasks (doc_heap st1 ! d))
      = map (map_Task f) (sort_key task_key (tasks sed))"
    unfolding ts by (rule sort_key_map) (rule task_key_map_Task)
  from run_tasks_calls[OF t] d c1 obtain k where k: "k \<le> length (tasks (doc_heap st1 ! d))"
    "map fst (calls st2) = map fst (calls st1) @ take k (sort_key task_key (tasks (doc_heap st1 ! d)))"
    "\<forall>vr. r2 = Inr vr \<longrightarrow> k = length (tasks (doc_heap st1 ! d))
              \<and> (\<forall>t \<in> set (tasks (doc_heap st1 ! d)). task_id t \<noteq> None)"
    by auto
  have ids: "(\<forall>t \<in> set (tasks (doc_heap st1 ! d)). task_id t \<noteq> None)
      \<longleftrightarrow> (\<forall>t \<in> set (tasks sed). task_id t \<noteq> None)"
    unfolding ts by (auto simp: Task.map_sel)
  show ?thesis
  proof (intro exI[of _ k] exI[of _ f] conjI)
    show "k \<le> length (tasks sed)" using k(1) ts by simp
    show "map fst (calls st2)
          = map fst (calls st) @ map (map_Task f) (take k (sort_key task_key (tasks sed)))"
      using k(2) sorted c1 c0 by (simp add: take_map)
    show "\<forall>vr. r2 = Inr vr \<longrightarrow> k = length (tasks sed)
            \<and> (\<forall>t \<in> set (tasks sed). task_id t \<noteq> None)"
      using k(3) ids ts by simp
  qed
qed

lemma run_until_outputs_calls:
  assumes run: "run_until_outputs env doc wd ex ap rf pf st = (st', r)"
    and input: "input_document env doc st = Some sed"
  shows "\<exists>k f. k \<le> length (tasks sed)
        \<and> map fst (calls st')
            = map fst (calls st) @ map (map_Task f) (take k (sort_key task_key (tasks sed)))
        \<and> (\<forall>res. r = Inr res \<longrightarrow> k = length (tasks sed)
              \<and> (\<forall>t \<in> set (tasks sed). task_id t \<noteq> None))"
proof -
  have trivial_fresh: "\<forall>a \<in> set as. (0::nat) \<le> a" for as by simp
  from run show ?thesis
  proof (cases rule: run_until_outputs_cases)
    case (load e)
    from load_doc_frame(3)[OF load(1)] have "calls st' = calls st" by simp
    then show ?thesis using load(2) by (intro exI[of _ 0] exI[of _ "\<lambda>a. a"]) auto
  next
    case (formats d e)
    from load_doc_frame(3)[OF formats(1)] have "calls st' = calls st" by simp
    then show ?thesis using formats(2) by (intro exI[of _ 0] exI[of _ "\<lambda>a. a"]) auto
  next
    case (changes d st0 e)
    from apply_model_changes_frame[OF changes(2) trivial_fresh] load_doc_frame(3)[OF changes(1)]
    have "calls st' = calls st" by simp
    then show ?thesis using changes(3) by (intro exI[of _ 0] exI[of _ "\<lambda>a. a"]) auto
  next
    case (tasks d st0 st1 mods e)
    from tasks_phase_calls[OF tasks(1,2,3) input] obtain k f where k: "k \<le> length (tasks sed)"
      "map fst (calls st')
          = map fst (calls st) @ map (map_Task f) (take k (sort_key task_key (tasks sed)))"
      by blast
    then show ?thesis using tasks(4) by (intro exI[of _ k] exI[of _ f]) simp
  next
    case (datagens d st0 st1 mods vr e)
    from tasks_phase_calls[OF datagens(1,2,3) input] obtain k f where k: "k \<le> length (tasks sed)"
      "map fst (calls st')
          = map fst (calls st) @ map (map_Task f) (take k (sort_key task_key (tasks sed)))"
      by blast
    then show ?thesis using datagens(5) by (intro exI[of _ k] exI[of _ f]) simp
  next
    case (ready d st0 st1 mods vr fs dgr)
    from tasks_phase_calls[OF ready(1,2,3) input] obtain k f where k: "k \<le> length (tasks sed)"
      "map fst (calls st')
          = map fst (calls st) @ map (map_Task f) (take k (sort_key task_key (tasks sed)))"
      "k = length (tasks sed) \<and> (\<forall>t \<in> set (tasks sed). task_id t \<noteq> None)"
      by blast
    then show ?thesis by (intro exI[of _ k] exI[of _ f]) simp
  qed
qed

lemma exec_doc_calls:
  assumes run: "exec_doc env doc wd ex b rel ap rf pf st = (st', r)"
    and input: "input_document env doc st = Some sed"
  shows "\<exists>k f. k \<le> length (tasks sed)
        \<and> map fst (calls st')
            = map fst (calls st) @ map (map_Task f) (take k (sort_key task_key (tasks sed)))
        \<and> (\<forall>res. r = Inr res \<longrightarrow> k = length (tasks sed)
              \<and> (\<forall>t \<in> set (tasks sed). task_id t \<noteq> None))"
  using run
proof (cases rule: exec_doc_phases)
  case (before e)
  from run_until_outputs_calls[OF before(1) input] before(2) show ?thesis by simp
next
  case (outputs d st2 mods vr fs dgr e)
  from run_until_outputs_calls[OF outputs(1) input] obtain k f where k: "k \<le> length (tasks sed)"
    "map fst (calls st2)
        = map fst (calls st) @ map (map_Task f) (take k (sort_key task_key (tasks sed)))"
    by blast
  then show ?thesis using exec_outputs_frame[OF outputs(2)] outputs(3)
    by (intro exI[of _ k] exI[of _ f]) simp
next
  case (cleanup d st2 st3 mods vr fs dgr rr e)
  from run_until_outputs_calls[OF cleanup(1) input] obtain k f where k: "k \<le> length (tasks sed)"
    "map fst (calls st2)
        = map fst (calls st) @ map (map_Task f) (take k (sort_key task_key (tasks sed)))"
    by blast
  then show ?thesis using exec_outputs_frame[OF cleanup(2)] cleanup_frame[OF cleanup(3)] cleanup(4)
    by (intro exI[of _ k] exI[of _ f]) simp
next
  case (return d st2 st3 mods vr fs dgr rr u)
  from run_until_outputs_calls[OF return(1) input] obtain k f where k: "k \<le> length (tasks sed)"
    "map fst (calls st2)
        = map fst (calls st) @ map (map_Task f) (take k (sort_key task_key (tasks sed)))"
    "k = length (tasks sed) \<and> (\<forall>t \<in> set (tasks sed). task_id t \<noteq> None)"
    by blast
  then show ?thesis using exec_outputs_frame[OF return(2)] cleanup_frame[OF return(3)]
    by (intro exI[of _ k] exI[of _ f]) simp
qed

text \<open>What the task executer has returned when \<open>exec_doc\<close> returns.\<close>

lemma record_variables_results:
  "record_variables task vars results vr = Inr vr' \<Longrightarrow>
     (\<forall>v \<in> set vars. \<exists>a. results (var_id v) = Some (Some a) \<and> vr' (var_id v) \<noteq> None)
     \<and> (\<forall>i. vr i \<noteq> None \<longrightarrow> vr' i \<noteq> None)"
proof (induction vars arbitrary: vr)
  case Nil
  then show ?case by simp
next
  case (Cons var rest)
  from Cons.prems obtain result where res: "results (var_id var) = Some (Some result)"
    and rest: "record_variables task rest results (vr(var_id var \<mapsto> result)) = Inr vr'"
    by (auto split: option.splits)
  from Cons.IH[OF rest] have
    ih1: "\<forall>v \<in> set rest. \<exists>a. results (var_id v) = Some (Some a) \<and> vr' (var_id v) \<noteq> None"
    and ih2: "\<forall>i. (vr(var_id var \<mapsto> result)) i \<noteq> None \<longrightarrow> vr' i \<noteq> None" by simp_all
  from ih2 have here: "vr' (var_id var) \<noteq> None" by simp
  from ih2 have mono: "\<forall>i. vr i \<noteq> None \<longrightarrow> vr' i \<noteq> None" by (simp split: if_splits)
  from res here ih1 mono show ?case by simp
qed

lemma exec_tasks_results:
  assumes "exec_tasks env ex doc ts vr st = (st', Inr vr')"
  shows "calls st' = calls st @ map (\<lambda>t. (t, get_variables_for_task env doc t)) ts
     \<and> (\<forall>i. vr i \<noteq> None \<longrightarrow> vr' i \<noteq> None)
     \<and> (\<forall>t \<in> set ts. \<exists>results.
           ex (model_heap st) t (get_variables_for_task env doc t) = Inr results
           \<and> (\<forall>v \<in> set (get_variables_for_task env doc t).
                 \<exists>a. results (var_id v) = Some (Some a) \<and> vr' (var_id v) \<noteq> None))"
  using assms
proof (induction ts arbitrary: vr st)
  case Nil
  then show ?case by simp
next
  case (Cons t ts)
  let ?vars = "get_variables_for_task env doc t"
  let ?st1 = "st\<lparr>calls := calls st @ [(t, ?vars)]\<rparr>"
  show ?case
  proof (cases "ex (model_heap st) t ?vars")
    case (Inl e)
    with Cons.prems show ?thesis by (simp add: Let_def)
  next
    case (Inr res)
    show ?thesis
    proof (cases "record_variables t ?vars res vr")
      case (Inl e)
      with Inr Cons.prems show ?thesis by (simp add: Let_def)
    next
      case ok: (Inr vr1)
      with Inr Cons.prems have run: "exec_tasks env ex doc ts vr1 ?st1 = (st', Inr vr')"
        by (simp add: Let_def)
      from Cons.IH[OF run] have
        c: "calls st' = calls ?st1 @ map (\<lambda>t. (t, get_variables_for_task env doc t)) ts"
        and m: "\<forall>i. vr1 i \<noteq> None \<longrightarrow> vr' i \<noteq> None"
        and r: "\<forall>t \<in> set ts. \<exists>results.
           ex (model_heap ?st1) t (get_variables_for_task env doc t) = Inr results
           \<and> (\<forall>v \<in> set (get_variables_for_task env doc t).
                 \<exists>a. results (var_id v) = Some (Some a) \<and> vr' (var_id v) \<noteq> None)"
        by simp_all
      from record_variables_results[OF ok] have
        v: "\<forall>v \<in> set ?vars. \<exists>a. res (var_id v) = Some (Some a) \<and> vr1 (var_id v) \<noteq> None"
        and m1: "\<forall>i. vr i \<noteq> None \<longrightarrow> vr1 i \<noteq> None" by simp_all
      from v m have here: "\<forall>v \<in> set ?vars. \<exists>a. res (var_id v) = Some (Some a) \<and> vr' (var_id v) \<noteq> None"
        by blast
      have first: "\<exists>results. ex (model_heap st) t ?vars = Inr results
           \<and> (\<forall>v \<in> set ?vars. \<exists>a. results (var_id v) = Some (Some a) \<and> vr' (var_id v) \<noteq> None)"
        using Inr here by blast
      from m m1 have mono: "\<forall>i. vr i \<noteq> None \<longrightarrow> vr' i \<noteq> None" by blast
      from c have calls: "calls st' = calls st @ map (\<lambda>t. (t, get_variables_for_task env doc t)) (t # ts)"
        by simp
      from r have others: "\<forall>t \<in> set ts. \<exists>results.
           ex (model_heap st) t (get_variables_for_task env doc t) = Inr results
           \<and> (\<forall>v \<in> set (get_variables_for_task env doc t).
                 \<exists>a. results (var_id v) = Some (Some a) \<and> vr' (var_id v) \<noteq> None)"
        by simp
      from calls mono first others show ?thesis by simp
    qed
  qed
qed

lemma run_tasks_results:
  assumes "run_tasks env ex d st = (st', Inr vr)"
  shows "\<forall>c \<in> set (drop (length (calls st)) (calls st')).
     snd c = get_variables_for_task env (doc_heap st' ! d) (fst c)
     \<and> (\<exists>results. ex (model_heap st') (fst c) (snd c) = Inr results
          \<and> (\<forall>v \<in> set (snd c). \<exists>a. results (var_id v) = Some (Some a) \<and> vr (var_id v) \<noteq> None))"
proof (cases "sort_tasks (tasks (doc_heap st ! d))")
  case (Inl e)
  with assms show ?thesis by (simp add: run_tasks_def)
next
  case (Inr sorted_tasks)
  let ?st1 = "st\<lparr>doc_heap := (doc_heap st)[d := set_tasks sorted_tasks (doc_heap st ! d)]\<rparr>"
  let ?doc = "doc_heap ?st1 ! d"
  from Inr assms have run: "exec_tasks env ex ?doc sorted_tasks Map.empty ?st1 = (st', Inr vr)"
    by (simp add: run_tasks_def Let_def)
  from exec_tasks_frame[OF run] have f: "model_heap st' = model_heap st" "doc_heap st' ! d = ?doc"
    by simp_all
  from exec_tasks_results[OF run] have
    c: "calls st' = calls st @ map (\<lambda>t. (t, get_variables_for_task env ?doc t)) sorted_tasks"
    and r: "\<forall>t \<in> set sorted_tasks. \<exists>results.
           ex (model_heap st) t (get_variables_for_task env ?doc t) = Inr results
           \<and> (\<forall>v \<in> set (get_variables_for_task env ?doc t).
                 \<exists>a. results (var_id v) = Some (Some a) \<and> vr (var_id v) \<noteq> None)"
    by simp_all
  from c have "drop (length (calls st)) (calls st')
      = map (\<lambda>t. (t, get_variables_for_task env ?doc t)) sorted_tasks" by simp
  with r f show ?thesis by auto
qed

lemma run_until_outputs_results:
  assumes run: "run_until_outputs env doc wd ex ap rf pf st = (st', Inr (d, fs, mods, vr, dgr))"
  shows "d = length (doc_heap st)
     \<and> (\<forall>c \<in> set (drop (length (calls st)) (calls st')).
          snd c = get_variables_for_task env (doc_heap st' ! d) (fst c)
          \<and> (\<exists>results. ex (model_heap st') (fst c) (snd c) = Inr results
               \<and> (\<forall>v \<in> set (snd c). \<exists>a. results (var_id v) = Some (Some a) \<and> vr (var_id v) \<noteq> None)))"
proof -
  have trivial_fresh: "\<forall>a \<in> set as. (0::nat) \<le> a" for as by simp
  from run show ?thesis
  proof (cases rule: run_until_outputs_cases)
    case (ready d' st0 st1 mods' vr' fs' dgr')
    then have same: "d' = d" "vr' = vr" by simp_all
    from load_doc_frame(3)[OF ready(1)] load_doc_frame(4)[OF ready(1), of d']
    have l: "calls st0 = calls st" "d' = length (doc_heap st)"
      by simp_all
    from apply_model_changes_frame[OF ready(2) trivial_fresh] have "calls st1 = calls st0" by simp
    with l have c: "calls st1 = calls st" by simp
    have "d = length (doc_heap st)" using same l(2) by simp
    moreover from run_tasks_results[OF ready(3)]
    have "\<forall>c \<in> set (drop (length (calls st)) (calls st')).
          snd c = get_variables_for_task env (doc_heap st' ! d) (fst c)
          \<and> (\<exists>results. ex (model_heap st') (fst c) (snd c) = Inr results
               \<and> (\<forall>v \<in> set (snd c). \<exists>a. results (var_id v) = Some (Some a) \<and> vr (var_id v) \<noteq> None))"
      unfolding c same .
    ultimately show ?thesis by blast
  qed simp_all
qed

lemma exec_doc_results:
  assumes run: "exec_doc env doc wd ex b rel ap rf pf st = (st', Inr res)"
  shows "\<forall>c \<in> set (drop (length (calls st)) (calls st')).
     snd c = get_variables_for_task env (doc_heap st' ! length (doc_heap st)) (fst c)
     \<and> (\<exists>results. ex (model_heap st') (fst c) (snd c) = Inr results
          \<and> (\<forall>v \<in> set (snd c). \<exists>a. results (var_id v) = Some (Some a)
                \<and> snd res (var_id v) \<noteq> None))"
  using run
proof (cases rule: exec_doc_phases)
  case (return d st2 st3 mods vr fs dgr rr u)
  from exec_outputs_frame[OF return(2)] cleanup_frame[OF return(3)]
  have f: "model_heap st' = model_heap st2" "doc_heap st' = doc_heap st2" "calls st' = calls st2"
    by simp_all
  from return(4) have vr: "vr = snd res" by simp
  from run_until_outputs_results[OF return(1)] have d: "d = length (doc_heap st)"
    and all: "\<forall>c \<in> set (drop (length (calls st)) (calls st2)).
          snd c = get_variables_for_task env (doc_heap st2 ! d) (fst c)
          \<and> (\<exists>results. ex (model_heap st2) (fst c) (snd c) = Inr results
               \<and> (\<forall>v \<in> set (snd c). \<exists>a. results (var_id v) = Some (Some a) \<and> vr (var_id v) \<noteq> None))"
    by blast+
  from all show ?thesis unfolding f vr d .
qed simp_all

text \<open>
  C1. The task executer is called for the tasks of the document in ascending
  (lexicographic) order of their ids, whatever the order of their declaration: the calls of
  a run are an initial part of the tasks sorted by id, each task with the model reference
  of the copy, and no task is called twice. When \<open>exec_doc\<close> returns, the calls are all the
  tasks, each exactly once; every call was made with the variables that
  \<open>get_variables_for_task\<close> gives for the task in the working copy of the document, the
  task executer returned for it a mapping with an array for each of these variables, and
  each of them has a result among the returned variable results. A run that raises has
  called the tasks up to the one at which it stopped.
\<close>

theorem exec_doc_task_order:
  assumes run: "exec_doc env doc wd ex b rel ap rf pf st = (st', r)"
    and input: "input_document env doc st = Some sed"
  shows "sorted (map task_key (sort_key task_key (tasks sed)))
    \<and> mset (sort_key task_key (tasks sed)) = mset (tasks sed)
    \<and> (\<exists>k f. k \<le> length (tasks sed)
        \<and> map fst (calls st')
            = map fst (calls st) @ map (map_Task f) (take k (sort_key task_key (tasks sed)))
        \<and> (\<forall>res. r = Inr res \<longrightarrow> k = length (tasks sed)
              \<and> (\<forall>t \<in> set (tasks sed). task_id t = Some (task_key t))
              \<and> (\<forall>c \<in> set (drop (length (calls st)) (calls st')).
                    snd c = get_variables_for_task env (doc_heap st' ! length (doc_heap st)) (fst c)
                    \<and> (\<exists>results. ex (model_heap st') (fst c) (snd c) = Inr results
                         \<and> (\<forall>v \<in> set (snd c). \<exists>a. results (var_id v) = Some (Some a)
                               \<and> snd res (var_id v) \<noteq> None)))))"
proof -
  have key: "task_id t = Some (task_key t)" if "task_id t \<noteq> None" for t :: "nat Task"
    using that by (auto simp: task_key_def)
  from exec_doc_calls[OF run input] obtain k f where k: "k \<le> length (tasks sed)"
    "map fst (calls st')
       = map fst (calls st) @ map (map_Task f) (take k (sort_key task_key (tasks sed)))"
    "\<forall>res. r = Inr res \<longrightarrow> k = length (tasks sed)
              \<and> (\<forall>t \<in> set (tasks sed). task_id t \<noteq> None)" by blast
  have ret: "\<forall>res. r = Inr res \<longrightarrow> k = length (tasks sed)
              \<and> (\<forall>t \<in> set (tasks sed). task_id t = Some (task_key t))
              \<and> (\<forall>c \<in> set (drop (length (calls st)) (calls st')).
                    snd c = get_variables_for_task env (doc_heap st' ! length (doc_heap st)) (fst c)
                    \<and> (\<exists>results. ex (model_heap st') (fst c) (snd c) = Inr results
                         \<and> (\<forall>v \<in> set (snd c). \<exists>a. results (var_id v) = Some (Some a)
                               \<and> snd res (var_id v) \<noteq> None)))"
  proof (intro allI impI conjI)
    fix res assume r: "r = Inr res"
    with k(3) show "k = length (tasks sed)" by simp
    from r k(3) key show "\<forall>t \<in> set (tasks sed). task_id t = Some (task_key t)" by blast
    from r run have "exec_doc env doc wd ex b rel ap rf pf st = (st', Inr res)" by simp
    from exec_doc_results[OF this]
    show "\<forall>c \<in> set (drop (length (calls st)) (calls st')).
        snd c = get_variables_for_task env (doc_heap st' ! length (doc_heap st)) (fst c)
        \<and> (\<exists>results. ex (model_heap st') (fst c) (snd c) = Inr results
             \<and> (\<forall>v \<in> set (snd c). \<exists>a. results (var_id v) = Some (Some a)
                   \<and> snd res (var_id v) \<noteq> None))" .
  qed
  show ?thesis
  proof (intro conjI)
    show "sorted (map task_key (sort_key task_key (tasks sed)))" by simp
    show "mset (sort_key task_key (tasks sed)) = mset (tasks sed)" by simp
    show "\<exists>k f. k \<le> length (tasks sed)
        \<and> map fst (calls st')
            = map fst (calls st) @ map (map_Task f) (take k (sort_key task_key (tasks sed)))
        \<and> (\<forall>res. r = Inr res \<longrightarrow> k = length (tasks sed)
              \<and> (\<forall>t \<in> set (tasks sed). task_id t = Some (task_key t))
              \<and> (\<forall>c \<in> set (drop (length (calls st)) (calls st')).
                    snd c = get_variables_for_task env (doc_heap st' ! length (doc_heap st)) (fst c)
                    \<and> (\<exists>results. ex (model_heap st') (fst c) (snd c) = Inr results
                         \<and> (\<forall>v \<in> set (snd c). \<exists>a. results (var_id v) = Some (Some a)
                               \<and> snd res (var_id v) \<noteq> None))))"
      by (rule exI[of _ k], rule exI[of _ f]) (use k(1,2) ret in blast)
  qed
qed

theorem exec_doc_task_order_witness:
  "input_document example_env (Doc 0) example_world = Some example_doc
   \<and> map task_id (tasks example_doc) = [Some ''b'', Some ''a'']
   \<and> map (\<lambda>c. task_id (fst c)) (calls (fst (exec_doc example_env (Doc 0) ''/wd'' example_executer ''/out''
        None True None None example_world))) = [Some ''a'', Some ''b'']
   \<and> map (\<lambda>c. map var_id (snd c)) (calls (fst (exec_doc example_env (Doc 0) ''/wd'' example_executer ''/out''
        None True None None example_world))) = [[Some ''x''], [Some ''y'']]
   \<and> \<not> isl (snd (exec_doc example_env (Doc 0) ''/wd'' example_executer ''/out''
        None True None None example_world))
   \<and> (\<exists>k f. k \<le> length (tasks example_doc)
        \<and> map fst (calls (fst (exec_doc example_env (Doc 0) ''/wd'' example_executer ''/out''
              None True None None example_world)))
            = map fst (calls example_world)
              @ map (map_Task f) (take k (sort_key task_key (tasks example_doc))))
   \<and> list_all (\<lambda>c. \<exists>results. example_executer
            (model_heap (fst (exec_doc example_env (Doc 0) ''/wd'' example_executer ''/out''
              None True None None example_world))) (fst c) (snd c) = Inr results
          \<and> list_all (\<lambda>v. \<exists>a. results (var_id v) = Some (Some a)) (snd c))
        (calls (fst (exec_doc example_env (Doc 0) ''/wd'' example_executer ''/out''
              None True None None example_world)))"
proof -
  obtain st' r where run: "exec_doc example_env (Doc 0) ''/wd'' example_executer ''/out'' None True
      None None example_world = (st', r)"
    by (cases "exec_doc example_env (Doc 0) ''/wd'' example_executer ''/out'' None True None None
      example_world")
  have input: "input_document example_env (Doc 0) example_world = Some example_doc"
    by (simp add: input_document_def example_world_def)
  have ev: "map task_id (tasks example_doc) = [Some ''b'', Some ''a'']
   \<and> map (\<lambda>c. task_id (fst c)) (calls (fst (exec_doc example_env (Doc 0) ''/wd'' example_executer ''/out''
        None True None None example_world))) = [Some ''a'', Some ''b'']
   \<and> map (\<lambda>c. map var_id (snd c)) (calls (fst (exec_doc example_env (Doc 0) ''/wd'' example_executer ''/out''
        None True None None example_world))) = [[Some ''x''], [Some ''y'']]
   \<and> \<not> isl (snd (exec_doc example_env (Doc 0) ''/wd'' example_executer ''/out''
        None True None None example_world))"
    by code_simp
  from ev run obtain res where res: "r = Inr res" by (cases r) auto
  have c0: "calls example_world = []" by (simp add: example_world_def)
  from exec_doc_task_order[OF run input] res c0
  have "(\<exists>k f. k \<le> length (tasks example_doc)
        \<and> map fst (calls st')
            = map fst (calls example_world)
              @ map (map_Task f) (take k (sort_key task_key (tasks example_doc))))
      \<and> list_all (\<lambda>c. \<exists>results. example_executer (model_heap st') (fst c) (snd c) = Inr results
             \<and> list_all (\<lambda>v. \<exists>a. results (var_id v) = Some (Some a)) (snd c)) (calls st')"
    unfolding list_all_iff by (simp only: drop_0 list.size(3)) blast
  with run input ev show ?thesis by simp
qed

text \<open>
  C2 does not hold of the code. The temporary files are removed by the last statements of
  \<open>exec_doc\<close>, which an exception skips: on the sample document, a task executer that returns
  no result makes \<open>exec_doc\<close> raise the \<open>ValueError\<close> for the missing variable, and the
  temporary file of the modified model stays; when the run returns, the file is removed.
\<close>

theorem exec_doc_error_leaves_temporary:
  "disk example_world = []
   \<and> disk (fst (exec_doc example_env (Doc 0) ''/wd'' example_executer_empty ''/out'' None True None None
        example_world)) = [''/tmp/tmp.xml'']
   \<and> (case snd (exec_doc example_env (Doc 0) ''/wd'' example_executer_empty ''/out'' None True None None
        example_world) of
        Inl e \<Rightarrow> e = ValueError ''Variable x must be generated for task a''
      | Inr res \<Rightarrow> False)
   \<and> disk (fst (exec_doc example_env (Doc 0) ''/wd'' example_executer ''/out'' None True None None
        example_world)) = []"
  by code_simp

subsection \<open>Where a ValueError comes from\<close>




lemma cleanup_error: "cleanup ns st = (st', Inl e) \<Longrightarrow> e \<noteq> ValueError m"
proof (induction ns arbitrary: st)
  case Nil
  then show ?case by simp
next
  case (Cons n ns)
  show ?case
  proof (cases "n \<in> set (disk st)")
    case True
    with Cons.prems have "cleanup ns (st\<lparr>disk := removeAll n (disk st)\<rparr>) = (st', Inl e)"
      by (simp add: cleanup_Cons del: cleanup.simps)
    from Cons.IH[OF this] show ?thesis .
  next
    case False
    with Cons.prems show ?thesis by (auto simp: cleanup_Cons simp del: cleanup.simps)
  qed
qed


lemma collect_data_sets_error: "collect_data_sets dgr dss = Inl e \<Longrightarrow> e \<noteq> ValueError m"
  by (induction dss) (auto split: option.splits sum.splits prod.splits)

lemma write_report_error:
  "write_report env df b rel i fs st = (st', Inl e) \<Longrightarrow> e \<noteq> ValueError m"
proof (induction fs arbitrary: st)
  case Nil
  then show ?case by simp
next
  case (Cons f fs)
  show ?case
  proof (cases "report_path rel i")
    case (Inl x)
    with Cons.prems show ?thesis
      by (auto simp: report_path_def split: option.splits if_splits)
  next
    case (Inr path)
    show ?thesis
    proof (cases "report_writer env df b path f")
      case None
      with Inr Cons.prems
      have "write_report env df b rel i fs (st\<lparr>written := written st @ [(df, b, path, f)]\<rparr>)
          = (st', Inl e)" by simp
      from Cons.IH[OF this] show ?thesis .
    next
      case (Some x)
      with Inr Cons.prems show ?thesis by auto
    qed
  qed
qed

text \<open>The missing variables of a mapping, and the check of the mapping.\<close>

lemma record_variables_Inl:
  "record_variables task vars results vr = Inl e \<Longrightarrow>
     \<exists>v \<in> set vars. (results (var_id v) = None \<or> results (var_id v) = Some None)
        \<and> e = ValueError (missing_variable_message (var_id v) (task_id task))"
  by (induction vars arbitrary: vr) (auto split: option.splits)

lemma record_variables_Inr:
  "record_variables task vars results vr = Inr vr' \<Longrightarrow>
     \<forall>v \<in> set vars. \<exists>a. results (var_id v) = Some (Some a)"
  by (induction vars arbitrary: vr) (auto split: option.splits)

lemma record_variables_complete:
  "\<forall>v \<in> set vars. \<exists>a. results (var_id v) = Some (Some a) \<Longrightarrow>
     \<exists>vr'. record_variables task vars results vr = Inr vr'"
  by (induction vars arbitrary: vr) auto

lemma record_variables_missing:
  assumes "\<exists>v \<in> set vars. results (var_id v) = None \<or> results (var_id v) = Some None"
  shows "\<exists>v \<in> set vars. (results (var_id v) = None \<or> results (var_id v) = Some None)
        \<and> record_variables task vars results vr
            = Inl (ValueError (missing_variable_message (var_id v) (task_id task)))"
proof (cases "record_variables task vars results vr")
  case (Inl e)
  from record_variables_Inl[OF Inl] Inl show ?thesis by auto
next
  case (Inr vr')
  from record_variables_Inr[OF Inr] assms show ?thesis by force
qed

text \<open>The loop over the outputs.\<close>

lemma exec_outputs_append:
  "exec_outputs env dgr b rel fs (pre @ post) rr st =
     (case exec_outputs env dgr b rel fs pre rr st of
        (st1, Inl e) \<Rightarrow> (st1, Inl e)
      | (st1, Inr rr') \<Rightarrow> exec_outputs env dgr b rel fs post rr' st1)"
proof (induction pre arbitrary: rr st)
  case Nil
  then show ?case by simp
next
  case (Cons out pre)
  obtain st1 r1 where o: "exec_output env dgr b rel fs out rr st = (st1, r1)"
    by (cases "exec_output env dgr b rel fs out rr st")
  show ?case
  proof (cases r1)
    case (Inl e)
    with o show ?thesis by simp
  next
    case (Inr rr1)
    with o Cons.IH[of rr1 st1] show ?thesis by simp
  qed
qed

lemma exec_outputs_step:
  assumes "exec_outputs env dgr b rel fs pre rr st = (st1, Inr rr1)"
  shows "exec_outputs env dgr b rel fs (pre @ out # post) rr st =
     (case exec_output env dgr b rel fs out rr1 st1 of
        (st2, Inl e) \<Rightarrow> (st2, Inl e)
      | (st2, Inr rr2) \<Rightarrow> exec_outputs env dgr b rel fs post rr2 st2)"
  using assms by (simp add: exec_outputs_append)

lemma exec_output_ValueError:
  assumes "exec_output env dgr b rel fs out rr st = (st', Inl (ValueError m))"
  shows "\<exists>i n dss labels results. out = Report i n dss
      \<and> collect_data_sets dgr dss = Inr (labels, results)
      \<and> 1 < card (set (map shape results))
      \<and> m = inconsistent_shapes_message i \<and> st' = st"
proof (cases out)
  case (Report i n dss)
  show ?thesis
  proof (cases "collect_data_sets dgr dss")
    case (Inl e)
    with Report assms collect_data_sets_error[OF Inl, of m] show ?thesis by simp
  next
    case (Inr p)
    obtain labels results where p: "p = (labels, results)" by (cases p)
    show ?thesis
    proof (cases "1 < card (set (map shape results))")
      case True
      with Report Inr p assms show ?thesis by simp
    next
      case False
      let ?st1 = "if card (set labels) < length labels then
                  st\<lparr>warnings := warnings st @
                    [IllogicalSedmlWarning
                       ''To facilitate machine interpretation, data sets should have unique ids'']\<rparr>
                else st"
      show ?thesis
      proof (cases "dataframe_error env results labels")
        case (Some e)
        with Report Inr p False assms show ?thesis by (simp add: Let_def split: if_splits)
      next
        case None
        obtain st2 r2 where w: "write_report env (DataFrame results labels) b rel i fs ?st1 = (st2, r2)"
          by (cases "write_report env (DataFrame results labels) b rel i fs ?st1")
        show ?thesis
        proof (cases r2)
          case (Inl e)
          from w Inl write_report_error[of env "DataFrame results labels" b rel i fs ?st1 st2 e m]
          have "e \<noteq> ValueError m" by simp
          with Report Inr p False None w Inl assms show ?thesis
            by (simp add: Let_def split: if_splits)
        next
          case (Inr u)
          with Report \<open>collect_data_sets dgr dss = Inr p\<close> p False None w assms show ?thesis
            by (simp add: Let_def split: if_splits)
        qed
      qed
    qed
  qed
next
  case (Plot2D i n cs)
  with assms show ?thesis by simp
next
  case (Plot3D i n ss)
  with assms show ?thesis by simp
qed

lemma exec_outputs_ValueError:
  assumes "exec_outputs env dgr b rel fs outs rr st = (st', Inl (ValueError m))"
  shows "\<exists>pre i n dss post labels results rr'. outs = pre @ Report i n dss # post
      \<and> exec_outputs env dgr b rel fs pre rr st = (st', Inr rr')
      \<and> collect_data_sets dgr dss = Inr (labels, results)
      \<and> 1 < card (set (map shape results))
      \<and> m = inconsistent_shapes_message i"
  using assms
proof (induction outs arbitrary: rr st)
  case Nil
  then show ?case by simp
next
  case (Cons out outs)
  obtain st1 r1 where o: "exec_output env dgr b rel fs out rr st = (st1, r1)"
    by (cases "exec_output env dgr b rel fs out rr st")
  show ?case
  proof (cases r1)
    case (Inl e)
    with o Cons.prems have "exec_output env dgr b rel fs out rr st = (st', Inl (ValueError m))"
      by simp
    from exec_output_ValueError[OF this] obtain i n dss labels results where
      h: "out = Report i n dss" "collect_data_sets dgr dss = Inr (labels, results)"
      "1 < card (set (map shape results))" "m = inconsistent_shapes_message i" "st' = st"
      by blast
    show ?thesis
      by (rule exI[of _ "[]"], rule exI[of _ i], rule exI[of _ n], rule exI[of _ dss],
          rule exI[of _ outs], rule exI[of _ labels], rule exI[of _ results], rule exI[of _ rr])
         (use h in simp)
  next
    case (Inr rr1)
    with o Cons.prems have "exec_outputs env dgr b rel fs outs rr1 st1 = (st', Inl (ValueError m))"
      by simp
    from Cons.IH[OF this] obtain pre i n dss post labels results rr' where
      h: "outs = pre @ Report i n dss # post"
      "exec_outputs env dgr b rel fs pre rr1 st1 = (st', Inr rr')"
      "collect_data_sets dgr dss = Inr (labels, results)"
      "1 < card (set (map shape results))" "m = inconsistent_shapes_message i"
      by blast
    from h(2) o Inr have "exec_outputs env dgr b rel fs (out # pre) rr st = (st', Inr rr')" by simp
    with h(1,3,4,5) show ?thesis
      by (intro exI[of _ "out # pre"] exI[of _ i] exI[of _ n] exI[of _ dss]
          exI[of _ post] exI[of _ labels] exI[of _ results] exI[of _ rr']) simp
  qed
qed

subsection \<open>The check of the results of a task\<close>













subsection \<open>The shapes of the results of a report\<close>

lemma collect_data_sets_iff:
  "collect_data_sets dgr dss = Inr (labels, results) \<longleftrightarrow>
     labels = map ds_label dss
     \<and> map (\<lambda>ds. case ds_data_generator ds of None \<Rightarrow> None | Some g \<Rightarrow> dgr (dg_id g)) dss
         = map Some results"
proof (induction dss arbitrary: labels results)
  case Nil
  then show ?case by auto
next
  case (Cons ds dss)
  show ?case
  proof (cases "ds_data_generator ds")
    case None
    then show ?thesis by (cases results) auto
  next
    case (Some g)
    show ?thesis
    proof (cases "dgr (dg_id g)")
      case None
      with Some show ?thesis by (cases results) auto
    next
      case res: (Some a)
      show ?thesis
      proof (cases "collect_data_sets dgr dss")
        case (Inl e)
        have "\<not> (map ds_label dss = map ds_label dss
            \<and> map (\<lambda>ds. case ds_data_generator ds of None \<Rightarrow> None | Some g \<Rightarrow> dgr (dg_id g)) dss
                = map Some rs)" for rs
          using Cons.IH[of "map ds_label dss" rs] Inl by simp
        with Some res Inl show ?thesis by (cases results) auto
      next
        case (Inr p)
        obtain ls rs where p: "p = (ls, rs)" by (cases p)
        from Cons.IH[of ls rs] Inr p have ih: "ls = map ds_label dss"
          "map (\<lambda>ds. case ds_data_generator ds of None \<Rightarrow> None | Some g \<Rightarrow> dgr (dg_id g)) dss
             = map Some rs" by simp_all
        from ih(2) have inj: "map (\<lambda>ds. case ds_data_generator ds of None \<Rightarrow> None
            | Some g \<Rightarrow> dgr (dg_id g)) dss = map Some rs' \<longleftrightarrow> rs' = rs" for rs'
          by (auto simp: inj_map_eq_map[OF inj_Some])
        from Some res Inr p ih(1) inj show ?thesis by (cases results) auto
      qed
    qed
  qed
qed

lemma exec_doc_reaches_output:
  assumes before: "run_until_outputs env doc wd ex ap rf pf st = (st2, Inr (d, fs, mods, vr, dgr))"
    and outs: "outputs (doc_heap st2 ! d) = pre @ out # post"
    and pre: "exec_outputs env dgr b rel fs pre Map.empty st2 = (st3, Inr rr)"
  shows "exec_doc env doc wd ex b rel ap rf pf st =
     (case exec_output env dgr b rel fs out rr st3 of
        (st4, Inl e) \<Rightarrow> (st4, Inl e)
      | (st4, Inr rr') \<Rightarrow>
          (case exec_outputs env dgr b rel fs post rr' st4 of
             (st5, Inl e) \<Rightarrow> (st5, Inl e)
           | (st5, Inr report_results) \<Rightarrow>
               (case cleanup mods st5 of
                  (st6, Inl e) \<Rightarrow> (st6, Inl e)
                | (st6, Inr u) \<Rightarrow> (st6, Inr (report_results, vr)))))"
proof -
  obtain st4 r4 where o: "exec_output env dgr b rel fs out rr st3 = (st4, r4)"
    by (cases "exec_output env dgr b rel fs out rr st3")
  have all: "exec_outputs env dgr b rel fs (outputs (doc_heap st2 ! d)) Map.empty st2
      = (case exec_output env dgr b rel fs out rr st3 of
           (st4, Inl e) \<Rightarrow> (st4, Inl e)
         | (st4, Inr rr') \<Rightarrow> exec_outputs env dgr b rel fs post rr' st4)"
    unfolding outs by (rule exec_outputs_step[OF pre])
  show ?thesis
  proof (cases r4)
    case (Inl e)
    with o all show ?thesis by (simp add: exec_doc_def before)
  next
    case (Inr rr')
    obtain st5 r5 where p: "exec_outputs env dgr b rel fs post rr' st4 = (st5, r5)"
      by (cases "exec_outputs env dgr b rel fs post rr' st4")
    with o Inr all show ?thesis by (simp add: exec_doc_def before)
  qed
qed

lemma exec_doc_report_shapes_collected:
  assumes before: "run_until_outputs env doc wd ex ap rf pf st = (st2, Inr (d, fs, mods, vr, dgr))"
    and outs: "outputs (doc_heap st2 ! d) = pre @ Report i n dss # post"
    and pre: "exec_outputs env dgr b rel fs pre Map.empty st2 = (st3, Inr rr)"
    and sets: "collect_data_sets dgr dss = Inr (labels, results)"
  shows "(1 < card (set (map shape results)) \<longrightarrow>
            exec_doc env doc wd ex b rel ap rf pf st
              = (st3, Inl (ValueError (''Data generators for report '' @ py_format i
                    @ '' must have consistent shapes''))))
    \<and> (card (set (map shape results)) \<le> 1 \<longrightarrow>
          (\<forall>st4 m. exec_output env dgr b rel fs (Report i n dss) rr st3 \<noteq> (st4, Inl (ValueError m))))
    \<and> (dss = [] \<longrightarrow> card (set (map shape results)) = 0)
    \<and> (\<forall>st' m. exec_doc env doc wd ex b rel ap rf pf st = (st', Inl (ValueError m)) \<longrightarrow>
          (\<exists>pre' i' n' dss' post' labels' results' rr'.
              outputs (doc_heap st2 ! d) = pre' @ Report i' n' dss' # post'
              \<and> exec_outputs env dgr b rel fs pre' Map.empty st2 = (st', Inr rr')
              \<and> collect_data_sets dgr dss' = Inr (labels', results')
              \<and> 1 < card (set (map shape results'))
              \<and> m = ''Data generators for report '' @ py_format i'
                    @ '' must have consistent shapes''))"
proof (intro conjI allI impI)
  assume "1 < card (set (map shape results))"
  with sets have "exec_output env dgr b rel fs (Report i n dss) rr st3
      = (st3, Inl (ValueError (inconsistent_shapes_message i)))" by simp
  with exec_doc_reaches_output[OF before outs pre]
  show "exec_doc env doc wd ex b rel ap rf pf st
      = (st3, Inl (ValueError (''Data generators for report '' @ py_format i
            @ '' must have consistent shapes'')))"
    by (simp add: inconsistent_shapes_message_def)
next
  fix st4 m
  assume le: "card (set (map shape results)) \<le> 1"
  show "exec_output env dgr b rel fs (Report i n dss) rr st3 \<noteq> (st4, Inl (ValueError m))"
  proof
    assume "exec_output env dgr b rel fs (Report i n dss) rr st3 = (st4, Inl (ValueError m))"
    from exec_output_ValueError[OF this] sets le show False by auto
  qed
next
  assume "dss = []"
  with sets show "card (set (map shape results)) = 0" by simp
next
  fix st' m
  assume run: "exec_doc env doc wd ex b rel ap rf pf st = (st', Inl (ValueError m))"
  from run show "\<exists>pre' i' n' dss' post' labels' results' rr'.
              outputs (doc_heap st2 ! d) = pre' @ Report i' n' dss' # post'
              \<and> exec_outputs env dgr b rel fs pre' Map.empty st2 = (st', Inr rr')
              \<and> collect_data_sets dgr dss' = Inr (labels', results')
              \<and> 1 < card (set (map shape results'))
              \<and> m = ''Data generators for report '' @ py_format i'
                    @ '' must have consistent shapes''"
  proof (cases rule: exec_doc_phases)
    case (before e)
    with \<open>run_until_outputs env doc wd ex ap rf pf st = (st2, Inr (d, fs, mods, vr, dgr))\<close>
    show ?thesis by simp
  next
    case (outputs d' st2' mods' vr' fs' dgr' e)
    with \<open>run_until_outputs env doc wd ex ap rf pf st = (st2, Inr (d, fs, mods, vr, dgr))\<close>
    have "exec_outputs env dgr b rel fs (outputs (doc_heap st2 ! d)) Map.empty st2
        = (st', Inl (ValueError m))" by simp
    from exec_outputs_ValueError[OF this] show ?thesis
      by (simp add: inconsistent_shapes_message_def)
  next
    case (cleanup d' st2' st3' mods' vr' fs' dgr' rr' e)
    with cleanup_error[OF cleanup(3), of m] show ?thesis by simp
  next
    case (return d' st2' st3' mods' vr' fs' dgr' rr' u)
    then show ?thesis by simp
  qed
qed

text \<open>
  C4. The statements before the loop over the outputs have finished, and the loop has
  reached a report (the outputs before it have finished) with a result for each of its
  data sets. When the results have more than one shape, \<open>exec_doc\<close> raises the \<open>ValueError\<close>
  whose message names the report, in the state of that moment. When they have at most one
  shape, in particular when the report has no data sets, the report raises no
  \<open>ValueError\<close>. And whenever \<open>exec_doc\<close> raises a \<open>ValueError\<close> after those statements, the
  loop has stopped at a report whose results have more than one shape, which the message
  names.
\<close>

theorem exec_doc_report_shapes:
  assumes before: "run_until_outputs env doc wd ex ap rf pf st = (st2, Inr (d, fs, mods, vr, dgr))"
    and outs: "outputs (doc_heap st2 ! d) = pre @ Report i n dss # post"
    and pre: "exec_outputs env dgr b rel fs pre Map.empty st2 = (st3, Inr rr)"
    and sets: "map (\<lambda>ds. case ds_data_generator ds of None \<Rightarrow> None | Some g \<Rightarrow> dgr (dg_id g)) dss
        = map Some results"
  shows "(1 < card (set (map shape results)) \<longrightarrow>
            exec_doc env doc wd ex b rel ap rf pf st
              = (st3, Inl (ValueError (''Data generators for report '' @ py_format i
                    @ '' must have consistent shapes''))))
    \<and> (card (set (map shape results)) \<le> 1 \<longrightarrow>
          (\<forall>st4 m. exec_output env dgr b rel fs (Report i n dss) rr st3 \<noteq> (st4, Inl (ValueError m))))
    \<and> (dss = [] \<longrightarrow> card (set (map shape results)) = 0)
    \<and> (\<forall>st' m. exec_doc env doc wd ex b rel ap rf pf st = (st', Inl (ValueError m)) \<longrightarrow>
          (\<exists>pre' i' n' dss' post' results' rr'.
              outputs (doc_heap st2 ! d) = pre' @ Report i' n' dss' # post'
              \<and> exec_outputs env dgr b rel fs pre' Map.empty st2 = (st', Inr rr')
              \<and> map (\<lambda>ds. case ds_data_generator ds of None \<Rightarrow> None | Some g \<Rightarrow> dgr (dg_id g)) dss'
                  = map Some results'
              \<and> 1 < card (set (map shape results'))
              \<and> m = ''Data generators for report '' @ py_format i'
                    @ '' must have consistent shapes''))"
proof -
  from sets have c: "collect_data_sets dgr dss = Inr (map ds_label dss, results)"
    by (simp add: collect_data_sets_iff)
  note all = exec_doc_report_shapes_collected[OF before outs pre c]
  have last: "\<exists>pre' i' n' dss' post' results' rr'.
              outputs (doc_heap st2 ! d) = pre' @ Report i' n' dss' # post'
              \<and> exec_outputs env dgr b rel fs pre' Map.empty st2 = (st', Inr rr')
              \<and> map (\<lambda>ds. case ds_data_generator ds of None \<Rightarrow> None | Some g \<Rightarrow> dgr (dg_id g)) dss'
                  = map Some results'
              \<and> 1 < card (set (map shape results'))
              \<and> m = ''Data generators for report '' @ py_format i'
                    @ '' must have consistent shapes''"
    if "exec_doc env doc wd ex b rel ap rf pf st = (st', Inl (ValueError m))" for st' m
  proof -
    from all that obtain pre' i' n' dss' post' labels' results' rr' where
      h: "outputs (doc_heap st2 ! d) = pre' @ Report i' n' dss' # post'"
      "exec_outputs env dgr b rel fs pre' Map.empty st2 = (st', Inr rr')"
      "collect_data_sets dgr dss' = Inr (labels', results')"
      "1 < card (set (map shape results'))"
      "m = ''Data generators for report '' @ py_format i' @ '' must have consistent shapes''"
      by blast
    from h(3) have "map (\<lambda>ds. case ds_data_generator ds of None \<Rightarrow> None
        | Some g \<Rightarrow> dgr (dg_id g)) dss' = map Some results'"
      by (simp add: collect_data_sets_iff)
    with h(1,2,4,5) show ?thesis by blast
  qed
  from all have first: "1 < card (set (map shape results)) \<longrightarrow>
            exec_doc env doc wd ex b rel ap rf pf st
              = (st3, Inl (ValueError (''Data generators for report '' @ py_format i
                    @ '' must have consistent shapes'')))"
    and second: "card (set (map shape results)) \<le> 1 \<longrightarrow>
          (\<forall>st4 m. exec_output env dgr b rel fs (Report i n dss) rr st3 \<noteq> (st4, Inl (ValueError m)))"
    and third: "dss = [] \<longrightarrow> card (set (map shape results)) = 0"
    by blast+
  from first second third last show ?thesis by blast
qed

theorem exec_doc_report_shapes_witness:
  "\<not> isl (snd (run_until_outputs example_env (Doc 0) ''/wd'' example_executer_ragged True None None
        example_world))
   \<and> outputs (doc_heap (fst (run_until_outputs example_env (Doc 0) ''/wd'' example_executer_ragged
          True None None example_world))
        ! fst (projr (snd (run_until_outputs example_env (Doc 0) ''/wd'' example_executer_ragged True
            None None example_world))))
      = map (map_Output Suc) (outputs example_doc)
   \<and> map (\<lambda>ds. case ds_data_generator ds of None \<Rightarrow> None
          | Some g \<Rightarrow>
              snd (snd (snd (snd (projr (snd (run_until_outputs example_env (Doc 0) ''/wd''
                example_executer_ragged True None None example_world)))))) (dg_id g))
        [DataSet (Some ''ds1'') None (Some ''label'')
           (Some (map_DataGenerator Suc (example_data_generator ''x'' example_task_a))),
         DataSet (Some ''ds2'') None (Some ''label'')
           (Some (map_DataGenerator Suc (example_data_generator ''y'' example_task_b)))]
      = map Some [NDArray [3] [0, 1, 2], NDArray [4] [0, 1, 2, 3]]
   \<and> snd (exec_doc example_env (Doc 0) ''/wd'' example_executer_ragged ''/out'' None True None None
        example_world)
      = Inl (ValueError ''Data generators for report report must have consistent shapes'')"
proof -
  let ?run = "run_until_outputs example_env (Doc 0) ''/wd'' example_executer_ragged True None None
        example_world"
  let ?dss = "[DataSet (Some ''ds1'') None (Some ''label'')
                 (Some (map_DataGenerator Suc (example_data_generator ''x'' example_task_a))),
               DataSet (Some ''ds2'') None (Some ''label'')
                 (Some (map_DataGenerator Suc (example_data_generator ''y'' example_task_b)))]"
  have ok: "\<not> isl (snd ?run)" by code_simp
  then obtain st2 d fs mods vr dgr where before: "?run = (st2, Inr (d, fs, mods, vr, dgr))"
    by (cases ?run; cases "snd ?run") auto
  have ev_outs: "outputs (doc_heap (fst ?run) ! fst (projr (snd ?run)))
      = map (map_Output Suc) (outputs example_doc)"
    by code_simp
  with before have outs0: "outputs (doc_heap st2 ! d) = map (map_Output Suc) (outputs example_doc)"
    by simp
  then have outs: "outputs (doc_heap st2 ! d)
      = [Plot2D (Some ''plot'') None []] @ Report (Some ''report'') None ?dss # []"
    by (simp add: example_doc_def)
  have pre: "exec_outputs example_env dgr ''/out'' None fs [Plot2D (Some ''plot'') None []] Map.empty st2
      = (st2\<lparr>warnings := warnings st2 @
            [SedmlFeatureNotSupportedWarning (output_skipped_message (Some ''plot'') ''Plot2D'')]\<rparr>,
         Inr Map.empty)"
    by simp
  have ev_sets: "map (\<lambda>ds. case ds_data_generator ds of None \<Rightarrow> None
          | Some g \<Rightarrow> snd (snd (snd (snd (projr (snd ?run))))) (dg_id g)) ?dss
      = map Some [NDArray [3] [0, 1, 2], NDArray [4] [0, 1, 2, 3]]"
    by code_simp
  with before have sets: "map (\<lambda>ds. case ds_data_generator ds of None \<Rightarrow> None
          | Some g \<Rightarrow> dgr (dg_id g)) ?dss
      = map Some [NDArray [3] [0, 1, 2], NDArray [4] [0, 1, 2, 3]]"
    by simp
  have shapes: "1 < card (set (map shape [NDArray [3] [0, 1, 2], NDArray [4] [0, 1, 2, 3]]))"
    by simp
  from exec_doc_report_shapes[OF before outs pre sets] shapes
  have "snd (exec_doc example_env (Doc 0) ''/wd'' example_executer_ragged ''/out'' None True None
      None example_world)
      = Inl (ValueError ''Data generators for report report must have consistent shapes'')"
    by (simp add: py_format_def)
  with ok ev_outs ev_sets show ?thesis by simp
qed

subsection \<open>Warnings in the loop over the outputs\<close>

lemma write_report_ok:
  assumes "report_path rel i = Inr path"
    and "\<forall>f \<in> set fs. report_writer env df b path f = None"
  shows "write_report env df b rel i fs st
     = (st\<lparr>written := written st @ map (\<lambda>f. (df, b, path, f)) fs\<rparr>, Inr ())"
  using assms(2)
proof (induction fs arbitrary: st)
  case Nil
  then show ?case by simp
next
  case (Cons f fs)
  from Cons.prems have f: "report_writer env df b path f = None"
    and rest: "\<forall>f \<in> set fs. report_writer env df b path f = None" by simp_all
  from Cons.IH[OF rest, of "st\<lparr>written := written st @ [(df, b, path, f)]\<rparr>"] f assms(1)
  show ?case by simp
qed

lemma exec_doc_output_step:
  assumes before: "run_until_outputs env doc wd ex ap rf pf st = (st2, Inr (d, fs, mods, vr, dgr))"
    and outs: "outputs (doc_heap st2 ! d) = pre @ out # post"
    and pre: "exec_outputs env dgr b rel fs pre Map.empty st2 = (st3, Inr rr)"
  shows "(\<forall>i n cs. out = Plot2D i n cs \<longrightarrow>
            exec_doc env doc wd ex b rel ap rf pf st =
              (case exec_outputs env dgr b rel fs post rr
                      (st3\<lparr>warnings := warnings st3 @
                         [SedmlFeatureNotSupportedWarning
                            (''Output '' @ py_format i
                               @ '' skipped because outputs of type Plot2D are not yet supported'')]\<rparr>) of
                 (st5, Inl e) \<Rightarrow> (st5, Inl e)
               | (st5, Inr report_results) \<Rightarrow>
                   (case cleanup mods st5 of
                      (st6, Inl e) \<Rightarrow> (st6, Inl e)
                    | (st6, Inr u) \<Rightarrow> (st6, Inr (report_results, vr)))))
    \<and> (\<forall>i n ss. out = Plot3D i n ss \<longrightarrow>
            exec_doc env doc wd ex b rel ap rf pf st =
              (case exec_outputs env dgr b rel fs post rr
                      (st3\<lparr>warnings := warnings st3 @
                         [SedmlFeatureNotSupportedWarning
                            (''Output '' @ py_format i
                               @ '' skipped because outputs of type Plot3D are not yet supported'')]\<rparr>) of
                 (st5, Inl e) \<Rightarrow> (st5, Inl e)
               | (st5, Inr report_results) \<Rightarrow>
                   (case cleanup mods st5 of
                      (st6, Inl e) \<Rightarrow> (st6, Inl e)
                    | (st6, Inr u) \<Rightarrow> (st6, Inr (report_results, vr)))))
    \<and> (\<forall>i n dss labels results path.
            out = Report i n dss
            \<and> collect_data_sets dgr dss = Inr (labels, results)
            \<and> card (set (map shape results)) \<le> 1
            \<and> dataframe_error env results labels = None
            \<and> report_path rel i = Inr path
            \<and> (\<forall>f \<in> set fs. report_writer env (DataFrame results labels) b path f = None)
          \<longrightarrow>
            exec_doc env doc wd ex b rel ap rf pf st =
              (case exec_outputs env dgr b rel fs post (rr(i \<mapsto> DataFrame results labels))
                      ((if card (set labels) < length labels
                        then st3\<lparr>warnings := warnings st3 @
                          [IllogicalSedmlWarning
                             ''To facilitate machine interpretation, data sets should have unique ids'']\<rparr>
                        else st3)
                       \<lparr>written := written st3
                           @ map (\<lambda>f. (DataFrame results labels, b, path, f)) fs\<rparr>) of
                 (st5, Inl e) \<Rightarrow> (st5, Inl e)
               | (st5, Inr report_results) \<Rightarrow>
                   (case cleanup mods st5 of
                      (st6, Inl e) \<Rightarrow> (st6, Inl e)
                    | (st6, Inr u) \<Rightarrow> (st6, Inr (report_results, vr)))))"
proof (intro conjI allI impI)
  fix i n cs
  assume "out = Plot2D i n cs"
  with exec_doc_reaches_output[OF before outs pre]
  show "exec_doc env doc wd ex b rel ap rf pf st =
              (case exec_outputs env dgr b rel fs post rr
                      (st3\<lparr>warnings := warnings st3 @
                         [SedmlFeatureNotSupportedWarning
                            (''Output '' @ py_format i
                               @ '' skipped because outputs of type Plot2D are not yet supported'')]\<rparr>) of
                 (st5, Inl e) \<Rightarrow> (st5, Inl e)
               | (st5, Inr report_results) \<Rightarrow>
                   (case cleanup mods st5 of
                      (st6, Inl e) \<Rightarrow> (st6, Inl e)
                    | (st6, Inr u) \<Rightarrow> (st6, Inr (report_results, vr))))"
    by (simp add: output_skipped_message_def)
next
  fix i n ss
  assume "out = Plot3D i n ss"
  with exec_doc_reaches_output[OF before outs pre]
  show "exec_doc env doc wd ex b rel ap rf pf st =
              (case exec_outputs env dgr b rel fs post rr
                      (st3\<lparr>warnings := warnings st3 @
                         [SedmlFeatureNotSupportedWarning
                            (''Output '' @ py_format i
                               @ '' skipped because outputs of type Plot3D are not yet supported'')]\<rparr>) of
                 (st5, Inl e) \<Rightarrow> (st5, Inl e)
               | (st5, Inr report_results) \<Rightarrow>
                   (case cleanup mods st5 of
                      (st6, Inl e) \<Rightarrow> (st6, Inl e)
                    | (st6, Inr u) \<Rightarrow> (st6, Inr (report_results, vr))))"
    by (simp add: output_skipped_message_def)
next
  fix i n dss labels results path
  assume h: "out = Report i n dss
            \<and> collect_data_sets dgr dss = Inr (labels, results)
            \<and> card (set (map shape results)) \<le> 1
            \<and> dataframe_error env results labels = None
            \<and> report_path rel i = Inr path
            \<and> (\<forall>f \<in> set fs. report_writer env (DataFrame results labels) b path f = None)"
  let ?df = "DataFrame results labels"
  let ?st1 = "if card (set labels) < length labels
                        then st3\<lparr>warnings := warnings st3 @
                          [IllogicalSedmlWarning
                             ''To facilitate machine interpretation, data sets should have unique ids'']\<rparr>
                        else st3"
  from h have p: "report_path rel i = Inr path"
    and w: "\<forall>f \<in> set fs. report_writer env ?df b path f = None" by simp_all
  have wr: "write_report env ?df b rel i fs ?st1
      = (?st1\<lparr>written := written ?st1 @ map (\<lambda>f. (?df, b, path, f)) fs\<rparr>, Inr ())"
    by (rule write_report_ok[OF p w])
  have written: "written ?st1 = written st3" by simp
  from h have le: "\<not> 1 < card (set (map shape results))" by simp
  from h have "exec_output env dgr b rel fs out rr st3
      = (?st1\<lparr>written := written st3 @ map (\<lambda>f. (?df, b, path, f)) fs\<rparr>, Inr (rr(i \<mapsto> ?df)))"
    using le wr written by (simp add: Let_def del: write_report.simps)
  with exec_doc_reaches_output[OF before outs pre]
  show "exec_doc env doc wd ex b rel ap rf pf st =
              (case exec_outputs env dgr b rel fs post (rr(i \<mapsto> DataFrame results labels))
                      ((if card (set labels) < length labels
                        then st3\<lparr>warnings := warnings st3 @
                          [IllogicalSedmlWarning
                             ''To facilitate machine interpretation, data sets should have unique ids'']\<rparr>
                        else st3)
                       \<lparr>written := written st3
                           @ map (\<lambda>f. (DataFrame results labels, b, path, f)) fs\<rparr>) of
                 (st5, Inl e) \<Rightarrow> (st5, Inl e)
               | (st5, Inr report_results) \<Rightarrow>
                   (case cleanup mods st5 of
                      (st6, Inl e) \<Rightarrow> (st6, Inl e)
                    | (st6, Inr u) \<Rightarrow> (st6, Inr (report_results, vr))))"
    by simp
qed

text \<open>
  C7. The statements before the loop over the outputs have finished, and the loop has
  reached an output. A \<open>Plot2D\<close> or a \<open>Plot3D\<close> adds the warning that the feature is not
  supported, with the id and the class of the output in its message, and nothing else:
  \<open>exec_doc\<close> goes on with the remaining outputs and the cleanup, the report results being
  unchanged. A report whose results have one shape, whose data frame is built and whose
  writer succeeds for every format is stored in the results and written once for each
  format; two data sets with the same label add a warning and change nothing else.
\<close>

theorem exec_doc_warnings_not_errors:
  assumes before: "run_until_outputs env doc wd ex ap rf pf st = (st2, Inr (d, fs, mods, vr, dgr))"
    and outs: "outputs (doc_heap st2 ! d) = pre @ out # post"
    and pre: "exec_outputs env dgr b rel fs pre Map.empty st2 = (st3, Inr rr)"
  shows "(\<forall>i n cs. out = Plot2D i n cs \<longrightarrow>
            exec_doc env doc wd ex b rel ap rf pf st =
              (case exec_outputs env dgr b rel fs post rr
                      (st3\<lparr>warnings := warnings st3 @
                         [SedmlFeatureNotSupportedWarning
                            (''Output '' @ py_format i
                               @ '' skipped because outputs of type Plot2D are not yet supported'')]\<rparr>) of
                 (st5, Inl e) \<Rightarrow> (st5, Inl e)
               | (st5, Inr report_results) \<Rightarrow>
                   (case cleanup mods st5 of
                      (st6, Inl e) \<Rightarrow> (st6, Inl e)
                    | (st6, Inr u) \<Rightarrow> (st6, Inr (report_results, vr)))))
    \<and> (\<forall>i n ss. out = Plot3D i n ss \<longrightarrow>
            exec_doc env doc wd ex b rel ap rf pf st =
              (case exec_outputs env dgr b rel fs post rr
                      (st3\<lparr>warnings := warnings st3 @
                         [SedmlFeatureNotSupportedWarning
                            (''Output '' @ py_format i
                               @ '' skipped because outputs of type Plot3D are not yet supported'')]\<rparr>) of
                 (st5, Inl e) \<Rightarrow> (st5, Inl e)
               | (st5, Inr report_results) \<Rightarrow>
                   (case cleanup mods st5 of
                      (st6, Inl e) \<Rightarrow> (st6, Inl e)
                    | (st6, Inr u) \<Rightarrow> (st6, Inr (report_results, vr)))))
    \<and> (\<forall>i n dss results path.
            out = Report i n dss
            \<and> map (\<lambda>ds. case ds_data_generator ds of None \<Rightarrow> None | Some g \<Rightarrow> dgr (dg_id g)) dss
                = map Some results
            \<and> card (set (map shape results)) \<le> 1
            \<and> dataframe_error env results (map ds_label dss) = None
            \<and> report_path rel i = Inr path
            \<and> (\<forall>f \<in> set fs.
                  report_writer env (DataFrame results (map ds_label dss)) b path f = None)
          \<longrightarrow>
            exec_doc env doc wd ex b rel ap rf pf st =
              (case exec_outputs env dgr b rel fs post
                      (rr(i \<mapsto> DataFrame results (map ds_label dss)))
                      ((if card (set (map ds_label dss)) < length (map ds_label dss)
                        then st3\<lparr>warnings := warnings st3 @
                          [IllogicalSedmlWarning
                             ''To facilitate machine interpretation, data sets should have unique ids'']\<rparr>
                        else st3)
                       \<lparr>written := written st3
                           @ map (\<lambda>f. (DataFrame results (map ds_label dss), b, path, f)) fs\<rparr>) of
                 (st5, Inl e) \<Rightarrow> (st5, Inl e)
               | (st5, Inr report_results) \<Rightarrow>
                   (case cleanup mods st5 of
                      (st6, Inl e) \<Rightarrow> (st6, Inl e)
                    | (st6, Inr u) \<Rightarrow> (st6, Inr (report_results, vr)))))"
proof -
  note all = exec_doc_output_step[OF before outs pre]
  have third: "\<forall>i n dss results path.
            out = Report i n dss
            \<and> map (\<lambda>ds. case ds_data_generator ds of None \<Rightarrow> None | Some g \<Rightarrow> dgr (dg_id g)) dss
                = map Some results
            \<and> card (set (map shape results)) \<le> 1
            \<and> dataframe_error env results (map ds_label dss) = None
            \<and> report_path rel i = Inr path
            \<and> (\<forall>f \<in> set fs.
                  report_writer env (DataFrame results (map ds_label dss)) b path f = None)
          \<longrightarrow>
            exec_doc env doc wd ex b rel ap rf pf st =
              (case exec_outputs env dgr b rel fs post
                      (rr(i \<mapsto> DataFrame results (map ds_label dss)))
                      ((if card (set (map ds_label dss)) < length (map ds_label dss)
                        then st3\<lparr>warnings := warnings st3 @
                          [IllogicalSedmlWarning
                             ''To facilitate machine interpretation, data sets should have unique ids'']\<rparr>
                        else st3)
                       \<lparr>written := written st3
                           @ map (\<lambda>f. (DataFrame results (map ds_label dss), b, path, f)) fs\<rparr>) of
                 (st5, Inl e) \<Rightarrow> (st5, Inl e)
               | (st5, Inr report_results) \<Rightarrow>
                   (case cleanup mods st5 of
                      (st6, Inl e) \<Rightarrow> (st6, Inl e)
                    | (st6, Inr u) \<Rightarrow> (st6, Inr (report_results, vr))))"
  proof (intro allI impI)
    fix i n dss results path
    assume h: "out = Report i n dss
            \<and> map (\<lambda>ds. case ds_data_generator ds of None \<Rightarrow> None | Some g \<Rightarrow> dgr (dg_id g)) dss
                = map Some results
            \<and> card (set (map shape results)) \<le> 1
            \<and> dataframe_error env results (map ds_label dss) = None
            \<and> report_path rel i = Inr path
            \<and> (\<forall>f \<in> set fs.
                  report_writer env (DataFrame results (map ds_label dss)) b path f = None)"
    then have "collect_data_sets dgr dss = Inr (map ds_label dss, results)"
      by (simp add: collect_data_sets_iff)
    with h have "out = Report i n dss
            \<and> collect_data_sets dgr dss = Inr (map ds_label dss, results)
            \<and> card (set (map shape results)) \<le> 1
            \<and> dataframe_error env results (map ds_label dss) = None
            \<and> report_path rel i = Inr path
            \<and> (\<forall>f \<in> set fs.
                  report_writer env (DataFrame results (map ds_label dss)) b path f = None)"
      by blast
    from all[THEN conjunct2, THEN conjunct2, rule_format, OF this]
    show "exec_doc env doc wd ex b rel ap rf pf st =
              (case exec_outputs env dgr b rel fs post
                      (rr(i \<mapsto> DataFrame results (map ds_label dss)))
                      ((if card (set (map ds_label dss)) < length (map ds_label dss)
                        then st3\<lparr>warnings := warnings st3 @
                          [IllogicalSedmlWarning
                             ''To facilitate machine interpretation, data sets should have unique ids'']\<rparr>
                        else st3)
                       \<lparr>written := written st3
                           @ map (\<lambda>f. (DataFrame results (map ds_label dss), b, path, f)) fs\<rparr>) of
                 (st5, Inl e) \<Rightarrow> (st5, Inl e)
               | (st5, Inr report_results) \<Rightarrow>
                   (case cleanup mods st5 of
                      (st6, Inl e) \<Rightarrow> (st6, Inl e)
                    | (st6, Inr u) \<Rightarrow> (st6, Inr (report_results, vr))))" .
  qed
  show ?thesis
    by (rule conjI[OF all[THEN conjunct1] conjI[OF all[THEN conjunct2, THEN conjunct1] third]])
qed

theorem exec_doc_warnings_not_errors_witness:
  "\<not> isl (snd (run_until_outputs example_env (Doc 0) ''/wd'' example_executer True None None
        example_world))
   \<and> outputs (doc_heap (fst (run_until_outputs example_env (Doc 0) ''/wd'' example_executer
          True None None example_world))
        ! fst (projr (snd (run_until_outputs example_env (Doc 0) ''/wd'' example_executer True
            None None example_world))))
      = map (map_Output Suc) (outputs example_doc)
   \<and> map (\<lambda>ds. case ds_data_generator ds of None \<Rightarrow> None
          | Some g \<Rightarrow>
              snd (snd (snd (snd (projr (snd (run_until_outputs example_env (Doc 0) ''/wd''
                example_executer True None None example_world)))))) (dg_id g))
        [DataSet (Some ''ds1'') None (Some ''label'')
           (Some (map_DataGenerator Suc (example_data_generator ''x'' example_task_a))),
         DataSet (Some ''ds2'') None (Some ''label'')
           (Some (map_DataGenerator Suc (example_data_generator ''y'' example_task_b)))]
      = map Some [NDArray [3] [0, 1, 2], NDArray [3] [0, 1, 2]]
   \<and> warnings (fst (exec_doc example_env (Doc 0) ''/wd'' example_executer ''/out'' None True None None
        example_world))
      = [SedmlFeatureNotSupportedWarning
           ''Output plot skipped because outputs of type Plot2D are not yet supported'',
         IllogicalSedmlWarning
           ''To facilitate machine interpretation, data sets should have unique ids'']
   \<and> written (fst (exec_doc example_env (Doc 0) ''/wd'' example_executer ''/out'' None True None None
        example_world))
      = [(DataFrame [NDArray [3] [0, 1, 2], NDArray [3] [0, 1, 2]] [Some ''label'', Some ''label''],
          ''/out'', Some ''report'', ''csv''),
         (DataFrame [NDArray [3] [0, 1, 2], NDArray [3] [0, 1, 2]] [Some ''label'', Some ''label''],
          ''/out'', Some ''report'', ''h5'')]
   \<and> \<not> isl (snd (exec_doc example_env (Doc 0) ''/wd'' example_executer ''/out'' None True None None
        example_world))"
proof -
  let ?run = "run_until_outputs example_env (Doc 0) ''/wd'' example_executer True None None
        example_world"
  let ?exec = "exec_doc example_env (Doc 0) ''/wd'' example_executer ''/out'' None True None None
        example_world"
  let ?dss = "[DataSet (Some ''ds1'') None (Some ''label'')
                 (Some (map_DataGenerator Suc (example_data_generator ''x'' example_task_a))),
               DataSet (Some ''ds2'') None (Some ''label'')
                 (Some (map_DataGenerator Suc (example_data_generator ''y'' example_task_b)))]"
  let ?labels = "[Some ''label'', Some ''label'']"
  let ?results = "[NDArray [3] [0, 1, 2], NDArray [3] [0, 1, 2]]"
  let ?df = "DataFrame ?results ?labels"
  let ?plot = "SedmlFeatureNotSupportedWarning (output_skipped_message (Some ''plot'') ''Plot2D'')"
  let ?dup = "IllogicalSedmlWarning
      ''To facilitate machine interpretation, data sets should have unique ids''"
  have ok: "\<not> isl (snd ?run)" by code_simp
  then obtain st2 d fs mods vr dgr where before: "?run = (st2, Inr (d, fs, mods, vr, dgr))"
    by (cases ?run; cases "snd ?run") auto
  have "warnings (fst ?run) = [] \<and> written (fst ?run) = []
      \<and> fst (snd (projr (snd ?run))) = [''csv'', ''h5'']"
    by code_simp
  with before have st2: "warnings st2 = []" "written st2 = []" "fs = [''csv'', ''h5'']"
    by simp_all
  have ev_outs: "outputs (doc_heap (fst ?run) ! fst (projr (snd ?run)))
      = map (map_Output Suc) (outputs example_doc)"
    by code_simp
  with before have "outputs (doc_heap st2 ! d) = map (map_Output Suc) (outputs example_doc)"
    by simp
  then have outs: "outputs (doc_heap st2 ! d)
      = [Plot2D (Some ''plot'') None []] @ Report (Some ''report'') None ?dss # []"
    by (simp add: example_doc_def)
  let ?st3 = "st2\<lparr>warnings := warnings st2 @ [?plot]\<rparr>"
  have pre: "exec_outputs example_env dgr ''/out'' None fs [Plot2D (Some ''plot'') None []] Map.empty st2
      = (?st3, Inr Map.empty)"
    by simp
  have ev_sets: "map (\<lambda>ds. case ds_data_generator ds of None \<Rightarrow> None
          | Some g \<Rightarrow> snd (snd (snd (snd (projr (snd ?run))))) (dg_id g)) ?dss
      = map Some ?results"
    by code_simp
  with before have sets: "map (\<lambda>ds. case ds_data_generator ds of None \<Rightarrow> None
          | Some g \<Rightarrow> dgr (dg_id g)) ?dss = map Some ?results" by simp
  have labels: "map ds_label ?dss = ?labels" by simp
  have hyps: "Report (Some ''report'') None ?dss = Report (Some ''report'') None ?dss
            \<and> map (\<lambda>ds. case ds_data_generator ds of None \<Rightarrow> None | Some g \<Rightarrow> dgr (dg_id g)) ?dss
                = map Some ?results
            \<and> card (set (map shape ?results)) \<le> 1
            \<and> dataframe_error example_env ?results (map ds_label ?dss) = None
            \<and> report_path None (Some ''report'') = Inr (Some ''report'')
            \<and> (\<forall>f \<in> set fs. report_writer example_env (DataFrame ?results (map ds_label ?dss))
                  ''/out'' (Some ''report'') f = None)"
    using sets by (simp add: example_env_def report_path_def)
  let ?st4 = "(if card (set ?labels) < length ?labels
                then ?st3\<lparr>warnings := warnings ?st3 @ [?dup]\<rparr> else ?st3)
              \<lparr>written := written ?st3 @ map (\<lambda>f. (?df, ''/out'', Some ''report'', f)) fs\<rparr>"
  from exec_doc_warnings_not_errors[OF before outs pre]
  have "\<forall>i n dss results path.
            Report (Some ''report'') None ?dss = Report i n dss
            \<and> map (\<lambda>ds. case ds_data_generator ds of None \<Rightarrow> None | Some g \<Rightarrow> dgr (dg_id g)) dss
                = map Some results
            \<and> card (set (map shape results)) \<le> 1
            \<and> dataframe_error example_env results (map ds_label dss) = None
            \<and> report_path None i = Inr path
            \<and> (\<forall>f \<in> set fs. report_writer example_env (DataFrame results (map ds_label dss))
                  ''/out'' path f = None)
          \<longrightarrow>
            ?exec =
              (case exec_outputs example_env dgr ''/out'' None fs []
                      (Map.empty(i \<mapsto> DataFrame results (map ds_label dss)))
                      ((if card (set (map ds_label dss)) < length (map ds_label dss)
                        then ?st3\<lparr>warnings := warnings ?st3 @ [?dup]\<rparr>
                        else ?st3)
                       \<lparr>written := written ?st3
                           @ map (\<lambda>f. (DataFrame results (map ds_label dss), ''/out'', path, f)) fs\<rparr>) of
                 (st5, Inl e) \<Rightarrow> (st5, Inl e)
               | (st5, Inr report_results) \<Rightarrow>
                   (case cleanup mods st5 of
                      (st6, Inl e) \<Rightarrow> (st6, Inl e)
                    | (st6, Inr u) \<Rightarrow> (st6, Inr (report_results, vr))))"
    by (rule conjunct2[THEN conjunct2])
  from this[rule_format, of "Some ''report''" None ?dss ?results "Some ''report''", OF hyps]
  have run: "?exec =
      (case cleanup mods ?st4 of
         (st6, Inl e) \<Rightarrow> (st6, Inl e)
       | (st6, Inr u) \<Rightarrow> (st6, Inr (Map.empty(Some ''report'' \<mapsto> ?df), vr)))"
    by simp
  obtain st6 r6 where c: "cleanup mods ?st4 = (st6, r6)" by (cases "cleanup mods ?st4")
  with run have "fst ?exec = st6" by (cases r6) simp_all
  with cleanup_frame[OF c] have "warnings (fst ?exec) = warnings ?st4"
    "written (fst ?exec) = written ?st4" by simp_all
  with st2 have w: "warnings (fst ?exec) = [?plot, ?dup]"
    "written (fst ?exec) = [(?df, ''/out'', Some ''report'', ''csv''),
        (?df, ''/out'', Some ''report'', ''h5'')]"
    by simp_all
  have ret: "\<not> isl (snd ?exec)" by code_simp
  from ok ev_outs ev_sets w ret show ?thesis
    by (simp add: output_skipped_message_def py_format_def)
qed

end
